(* ===== verification/Prelude.thy ===== *)
theory Prelude
  imports Complex_Main "HOL-Library.Word" "HOL-Library.Multiset"
begin

text \<open>
  The prelude of the development: the errors the notebooks' Python and SQL code can
  raise, the Python builtins the code calls (list indexing, \<open>str.join\<close>,
  \<open>str.split\<close>, \<open>str.replace\<close>, \<open>str\<close> of an integer, \<open>os.path.join\<close>), and the
  generic lemmas on them that the component theories share. These builtins are not
  code of the repository; they are modelled from the Python language reference, with
  every raise written as an \<open>Inl\<close>.
\<close>

named_theorems py_simps "evaluation rules for the modelled Python builtins"

section \<open>Errors\<close>

datatype error =
    KeyError string          \<comment> \<open>\<open>d[k]\<close> with \<open>k\<close> not a key\<close>
  | IndexError               \<comment> \<open>\<open>xs[i]\<close> out of range\<close>
  | UnboundLocalError string \<comment> \<open>a local read before any assignment\<close>
  | Int64Overflow            \<comment> \<open>BigQuery INT64 arithmetic out of range\<close>
  | DivisionByZero           \<comment> \<open>BigQuery \<open>MOD(x, 0)\<close>\<close>
  | TypeError                \<comment> \<open>an operator applied to a value of the wrong type\<close>
  | UnrecognizedName string  \<comment> \<open>BigQuery: a column that the \<open>FROM\<close> table does not have\<close>
  | NotFound string          \<comment> \<open>BigQuery: a dataset or model that does not exist\<close>
  | AlreadyExists string     \<comment> \<open>BigQuery: creating a dataset that exists\<close>
  | Forbidden string         \<comment> \<open>a cloud call the credentials do not permit\<close>
  | CommandException string  \<comment> \<open>\<open>gsutil\<close>: no URL matched, or the bucket exists\<close>
  | SyntaxError string       \<comment> \<open>a Python cell or a BigQuery query that does not parse\<close>
  | ModuleNotFoundError string  \<comment> \<open>\<open>import m\<close> of a module no installed package provides\<close>
  | CalledProcessError string   \<comment> \<open>a \<open>%%bash\<close> cell whose last command fails\<close>
  | OSError string              \<comment> \<open>a failing file-system call such as \<open>os.makedirs\<close>\<close>

type_synonym 'a result = "error + 'a"

definition bindE :: "'a result \<Rightarrow> ('a \<Rightarrow> 'b result) \<Rightarrow> 'b result" where
  "bindE r f = (case r of Inl e \<Rightarrow> Inl e | Inr x \<Rightarrow> f x)"

lemma bindE_simps [simp, py_simps]:
  "bindE (Inl e) f = Inl e"
  "bindE (Inr x) f = f x"
  by (simp_all add: bindE_def)

text \<open>A list comprehension whose element expression can raise: the first error wins.\<close>

fun map_result :: "('a \<Rightarrow> 'b result) \<Rightarrow> 'a list \<Rightarrow> 'b list result" where
  "map_result f [] = Inr []"
| "map_result f (x # xs) = bindE (f x) (\<lambda>y. bindE (map_result f xs) (\<lambda>ys. Inr (y # ys)))"

lemma map_result_Inr:
  "(\<forall>x \<in> set xs. f x = Inr (g x)) \<Longrightarrow> map_result f xs = Inr (map g xs)"
  by (induction xs) simp_all

lemma map_result_Inl:
  "map_result f xs = Inl e \<Longrightarrow> \<exists>x \<in> set xs. f x = Inl e"
  by (induction xs) (auto simp: bindE_def split: sum.splits)

lemma map_result_first_error:
  "(\<forall>x \<in> set ys. \<exists>y. f x = Inr y) \<Longrightarrow> f x = Inl e \<Longrightarrow> map_result f (ys @ x # zs) = Inl e"
  by (induction ys) (auto simp: bindE_def split: sum.splits)

lemma map_result_Inl_some:
  "x \<in> set xs \<Longrightarrow> f x = Inl e \<Longrightarrow> \<exists>e'. map_result f xs = Inl e'"
  by (induction xs) (auto simp: bindE_def split: sum.splits)

lemma map_result_Inr_set:
  "map_result f xs = Inr ys \<Longrightarrow> y \<in> set ys \<Longrightarrow> \<exists>x \<in> set xs. f x = Inr y"
  by (induction xs arbitrary: ys) (auto simp: bindE_def split: sum.splits)

lemma map_result_map:
  "(\<forall>x \<in> set xs. f (g x) = Inr (h x)) \<Longrightarrow> map_result f (map g xs) = Inr (map h xs)"
  by (induction xs) simp_all

lemma map_result_append:
  "map_result f (xs @ ys) = bindE (map_result f xs) (\<lambda>a. bindE (map_result f ys) (\<lambda>b. Inr (a @ b)))"
  by (induction xs) (auto simp: bindE_def split: sum.splits)

lemma length_concat_pairs: "length (concat (map (\<lambda>x. [a x, b x]) xs)) = 2 * length xs"
  by (induction xs) simp_all

text \<open>
  A \<open>for\<close> loop whose body updates a state and prints a line, and may raise: the
  exception ends the loop, and the state and output of the finished iterations stay.
\<close>

fun run_steps :: "('s \<Rightarrow> 'a \<Rightarrow> ('s \<times> string) result) \<Rightarrow> 'a list \<Rightarrow> 's \<Rightarrow> 's \<times> string list \<times> error option" where
  "run_steps f [] st = (st, [], None)"
| "run_steps f (x # xs) st =
     (case f st x of
        Inl e \<Rightarrow> (st, [], Some e)
      | Inr (st', out) \<Rightarrow> (case run_steps f xs st' of (st'', outs, err) \<Rightarrow> (st'', out # outs, err)))"

text \<open>
  \<open>job.result()\<close> of a BigQuery job and \<open>wait_until_finish()\<close> of a Beam pipeline block,
  polling the service until the job has finished. \<open>fin i\<close> says whether the job is seen
  finished at the \<open>i\<close>-th poll; the service alone decides, so a job that never finishes
  is possible, and the wait is a partial function: \<open>None\<close> is ``never returns''.
\<close>

partial_function (option) wait_done :: "(nat \<Rightarrow> bool) \<Rightarrow> nat \<Rightarrow> nat option" where
  "wait_done fin i = (if fin i then Some i else wait_done fin (Suc i))"

lemma wait_done_returns:
  assumes "fin n" "i \<le> n" "\<forall>m. i \<le> m \<and> m < n \<longrightarrow> \<not> fin m"
  shows "wait_done fin i = Some n"
  using assms
proof (induction "n - i" arbitrary: i)
  case 0
  then have "i = n" by simp
  with "0.prems"(1) show ?case by (simp add: wait_done.simps)
next
  case (Suc k)
  then have "i < n" "\<not> fin i" by auto
  with Suc.hyps(1) [of "Suc i"] Suc.prems Suc.hyps(2) have "wait_done fin (Suc i) = Some n" by auto
  with \<open>\<not> fin i\<close> show ?case by (simp add: wait_done.simps)
qed

lemma wait_done_Some:
  assumes ret: "wait_done fin i = Some n"
  shows "fin n \<and> i \<le> n"
proof (rule wait_done.raw_induct [where P = "\<lambda>fin i n. fin n \<and> i \<le> n", OF _ ret])
  fix f fin i n
  assume IH: "\<And>fin i n. f fin i = Some n \<Longrightarrow> fin n \<and> i \<le> n"
    and eq: "(if fin i then Some i else f fin (Suc i)) = Some n"
  show "fin n \<and> i \<le> n"
  proof (cases "fin i")
    case True
    with eq show ?thesis by simp
  next
    case False
    with eq have "f fin (Suc i) = Some n" by simp
    then show ?thesis using IH by fastforce
  qed
qed

lemma wait_done_first: "(\<exists>n. fin n) \<Longrightarrow> wait_done fin 0 = Some (LEAST n. fin n)"
  by (rule wait_done_returns) (auto intro: LeastI_ex dest: not_less_Least)

lemma wait_done_None: "(\<forall>n. \<not> fin n) \<Longrightarrow> wait_done fin i = None"
  using wait_done_Some [of fin i] by (cases "wait_done fin i") auto

text \<open>A \<open>for\<close> loop like \<open>run_steps\<close> whose body first waits for the iteration's job.\<close>

fun run_steps_wait ::
  "('a \<Rightarrow> nat \<Rightarrow> bool) \<Rightarrow> ('s \<Rightarrow> 'a \<Rightarrow> ('s \<times> string) result) \<Rightarrow> 'a list \<Rightarrow> 's \<Rightarrow>
     ('s \<times> string list \<times> error option) option" where
  "run_steps_wait fin f [] st = Some (st, [], None)"
| "run_steps_wait fin f (x # xs) st =
     (case wait_done (fin x) 0 of
        None \<Rightarrow> None
      | Some _ \<Rightarrow> (case f st x of
          Inl e \<Rightarrow> Some (st, [], Some e)
        | Inr (st', out) \<Rightarrow>
            map_option (\<lambda>(st'', outs, err). (st'', out # outs, err)) (run_steps_wait fin f xs st')))"

lemma run_steps_wait_live:
  "\<forall>x \<in> set xs. \<exists>n. fin x n \<Longrightarrow> run_steps_wait fin f xs st = Some (run_steps f xs st)"
proof (induction xs arbitrary: st)
  case Nil
  then show ?case by simp
next
  case (Cons x xs)
  obtain n where "wait_done (fin x) 0 = Some n" using Cons.prems wait_done_first by auto
  with Cons show ?case by (auto split: sum.splits prod.splits)
qed

lemma run_steps_wait_hangs:
  "\<forall>n. \<not> fin x n \<Longrightarrow> run_steps_wait fin f (x # xs) st = None"
  by (simp add: wait_done_None)

section \<open>Python values\<close>

text \<open>
  The values a BigQuery row carries into Python: INT64 as \<open>int\<close>, FLOAT64 as
  \<open>float\<close> (modelled by the real it denotes), STRING as \<open>str\<close>, BOOL as \<open>bool\<close>.
\<close>

datatype pyval = PInt int | PFloat real | PStr string | PBool bool | PNone

text \<open>
  \<open>v > c\<close> against an \<open>int\<close> constant, and \<open>v - c\<close> used as an index: numbers
  compare and subtract (a \<open>bool\<close> is the integer 0 or 1), anything else raises
  \<open>TypeError\<close>; a \<open>float\<close> index raises \<open>TypeError\<close> as well.
\<close>

fun py_gt_int :: "pyval \<Rightarrow> int \<Rightarrow> bool result" where
  "py_gt_int (PInt i) c = Inr (c < i)"
| "py_gt_int (PBool b) c = Inr (c < (if b then 1 else 0))"
| "py_gt_int (PFloat x) c = Inr (real_of_int c < x)"
| "py_gt_int v c = Inl TypeError"

fun py_index_minus :: "pyval \<Rightarrow> int \<Rightarrow> int result" where
  "py_index_minus (PInt i) c = Inr (i - c)"
| "py_index_minus (PBool b) c = Inr ((if b then 1 else 0) - c)"
| "py_index_minus v c = Inl TypeError"

section \<open>Python lists and dictionaries\<close>

text \<open>\<open>xs[i]\<close>: a negative index counts from the end; out of range raises.\<close>

definition py_getitem :: "'a list \<Rightarrow> int \<Rightarrow> 'a result" where
  "py_getitem xs i =
     (let j = (if 0 \<le> i then i else i + int (length xs))
      in if j < 0 \<or> int (length xs) \<le> j then Inl IndexError else Inr (xs ! nat j))"

lemma py_getitem_nonneg [py_simps]:
  "0 \<le> i \<Longrightarrow> py_getitem xs i = (if int (length xs) \<le> i then Inl IndexError else Inr (xs ! nat i))"
  by (simp add: py_getitem_def)

lemma py_getitem_neg [py_simps]:
  "i < 0 \<Longrightarrow> py_getitem xs i =
     (if i + int (length xs) < 0 then Inl IndexError else Inr (xs ! nat (i + int (length xs))))"
  by (simp add: py_getitem_def)

text \<open>A dictionary is a map; \<open>d[k]\<close> raises \<open>KeyError\<close> on a missing key.\<close>

type_synonym ('k, 'v) dict = "'k \<rightharpoonup> 'v"

definition dict_get :: "(string, 'v) dict \<Rightarrow> string \<Rightarrow> 'v result" where
  "dict_get d k = (case d k of None \<Rightarrow> Inl (KeyError k) | Some v \<Rightarrow> Inr v)"

lemma dict_get_simps [simp, py_simps]:
  "d k = None \<Longrightarrow> dict_get d k = Inl (KeyError k)"
  "d k = Some v \<Longrightarrow> dict_get d k = Inr v"
  by (simp_all add: dict_get_def)

section \<open>Strings: join, split, replace\<close>

text \<open>\<open>sep.join(xs)\<close>.\<close>

fun py_join :: "string \<Rightarrow> string list \<Rightarrow> string" where
  "py_join sep [] = []"
| "py_join sep [x] = x"
| "py_join sep (x # y # zs) = x @ sep @ py_join sep (y # zs)"

lemma py_join_Cons_Cons [simp]: "py_join sep ((c # w) # ws) = c # py_join sep (w # ws)"
  by (cases ws) simp_all

text \<open>\<open>s.split(c)\<close> for a one-character separator: never an empty list.\<close>

fun py_split :: "char \<Rightarrow> string \<Rightarrow> string list" where
  "py_split c [] = [[]]"
| "py_split c (x # xs) =
     (let r = py_split c xs in if x = c then [] # r else (x # hd r) # tl r)"

lemma py_split_not_Nil [simp]: "py_split c s \<noteq> []"
  by (induction s) (simp_all add: Let_def)

lemma py_split_append_free:
  "c \<notin> set x \<Longrightarrow> py_split c (x @ ys) = (x @ hd (py_split c ys)) # tl (py_split c ys)"
  by (induction x) (auto simp: Let_def)

text \<open>Splitting the joined fields gives the fields back, when none contains the separator.\<close>

lemma py_split_join:
  "xs \<noteq> [] \<Longrightarrow> (\<forall>x \<in> set xs. c \<notin> set x) \<Longrightarrow> py_split c (py_join [c] xs) = xs"
proof (induction "[c]" xs rule: py_join.induct)
  case (2 x)
  then show ?case using py_split_append_free [of c x "[]"] by simp
next
  case (3 x y zs)
  then have "py_split c (py_join [c] (y # zs)) = y # zs" by simp
  with "3.prems" show ?case by (simp add: py_split_append_free)
qed simp

lemma py_join_split: "py_join [c] (py_split c s) = s"
proof (induction s)
  case (Cons x xs)
  obtain r rs where r: "py_split c xs = r # rs"
    using py_split_not_Nil by (cases "py_split c xs") blast+
  with Cons show ?case by (simp add: Let_def)
qed simp

text \<open>
  \<open>s.replace(old, new)\<close> scans left to right and replaces every non-overlapping
  occurrence of \<open>old\<close>; the inserted text is not scanned again. An empty \<open>old\<close>
  inserts \<open>new\<close> before every character and at the end.
\<close>

function replace_aux :: "string \<Rightarrow> string \<Rightarrow> string \<Rightarrow> string" where
  "replace_aux old new [] = []"
| "replace_aux old new (c # cs) =
     (if old \<noteq> [] \<and> take (length old) (c # cs) = old
      then new @ replace_aux old new (drop (length old) (c # cs))
      else c # replace_aux old new cs)"
  by pat_completeness auto
termination
  by (relation "measure (\<lambda>(old, new, s). length s)") auto

definition py_replace :: "string \<Rightarrow> string \<Rightarrow> string \<Rightarrow> string" where
  "py_replace s old new =
     (if old = [] then new @ concat (map (\<lambda>c. c # new) s) else replace_aux old new s)"

text \<open>
  \<open>s.split(old)\<close> for a non-empty \<open>old\<close>: the pieces between the non-overlapping
  occurrences found left to right. Python guarantees
  \<open>s.replace(old, new) == new.join(s.split(old))\<close>; \<open>py_replace_split\<close> proves it.
\<close>

function split_on :: "string \<Rightarrow> string \<Rightarrow> string list" where
  "split_on old [] = [[]]"
| "split_on old (c # cs) =
     (if old \<noteq> [] \<and> take (length old) (c # cs) = old
      then [] # split_on old (drop (length old) (c # cs))
      else (let r = split_on old cs in (c # hd r) # tl r))"
  by pat_completeness auto
termination
  by (relation "measure (\<lambda>(old, s). length s)") auto

lemma split_on_not_Nil [simp]: "split_on old s \<noteq> []"
  by (induction old s rule: split_on.induct) (simp_all add: Let_def)

lemma py_join_hd_tl: "r \<noteq> [] \<Longrightarrow> py_join sep ((c # hd r) # tl r) = c # py_join sep r"
  by (cases r) simp_all

lemma py_join_Nil_Cons: "r \<noteq> [] \<Longrightarrow> py_join sep ([] # r) = sep @ py_join sep r"
  by (cases r) simp_all

theorem py_replace_split:
  "old \<noteq> [] \<Longrightarrow> py_replace s old new = py_join new (split_on old s)"
proof -
  assume ne: "old \<noteq> []"
  have "replace_aux old new s = py_join new (split_on old s)"
    by (induction old new s rule: replace_aux.induct)
       (simp_all add: Let_def py_join_hd_tl py_join_Nil_Cons)
  with ne show ?thesis by (simp add: py_replace_def)
qed

lemma replace_aux_char:
  "replace_aux [c] new s = concat (map (\<lambda>x. if x = c then new else [x]) s)"
  by (induction s) auto

lemma py_replace_char:
  "py_replace s [c] new = concat (map (\<lambda>x. if x = c then new else [x]) s)"
  by (simp add: py_replace_def replace_aux_char)

lemma concat_map_char_free:
  "c \<notin> set s \<Longrightarrow> concat (map (\<lambda>x. if x = c then new else [x]) s) = s"
  by (induction s) auto

lemma py_join_split_on: "py_join old (split_on old s) = s"
proof (induction old s rule: split_on.induct)
  case (2 old c cs)
  show ?case
  proof (cases "old \<noteq> [] \<and> take (length old) (c # cs) = old")
    case True
    then have "py_join old (split_on old (c # cs)) = old @ drop (length old) (c # cs)"
      using "2.IH"(1) by (simp add: py_join_Nil_Cons)
    also have "\<dots> = c # cs"
      using True by (metis append_take_drop_id)
    finally show ?thesis .
  next
    case False
    with "2.IH"(2) show ?thesis by (auto simp: Let_def py_join_hd_tl)
  qed
qed simp

section \<open>Printing numbers and booleans\<close>

text \<open>
  \<open>str(n)\<close> of a Python \<open>int\<close> and BigQuery's \<open>CAST(n AS STRING)\<close> of an INT64 both
  print the decimal digits, most significant first, with a leading \<open>-\<close> when negative.
\<close>

fun nat_digits :: "nat \<Rightarrow> nat list" where
  "nat_digits n = (if n < 10 then [n] else nat_digits (n div 10) @ [n mod 10])"

declare nat_digits.simps [simp del]

definition digit_char :: "nat \<Rightarrow> char" where
  "digit_char d = ''0123456789'' ! d"

definition show_nat :: "nat \<Rightarrow> string" where
  "show_nat n = map digit_char (nat_digits n)"

definition show_int :: "int \<Rightarrow> string" where
  "show_int i = (if i < 0 then CHR ''-'' # show_nat (nat (- i)) else show_nat (nat i))"

text \<open>Python's \<open>str(b)\<close> of a \<open>bool\<close>.\<close>

definition py_str_bool :: "bool \<Rightarrow> string" where
  "py_str_bool b = (if b then ''True'' else ''False'')"

text \<open>Reading decimal digits back, the inverse used by the round-trip lemmas.\<close>

definition read_nat :: "string \<Rightarrow> nat" where
  "read_nat s = foldl (\<lambda>acc c. 10 * acc + (of_char c - 48)) 0 s"

lemma nat_digits_lt: "d \<in> set (nat_digits n) \<Longrightarrow> d < 10"
proof (induction n rule: nat_digits.induct)
  case (1 n)
  then show ?case by (subst (asm) nat_digits.simps) (auto split: if_splits)
qed

lemma nat_digits_not_Nil [simp]: "nat_digits n \<noteq> []"
  by (subst nat_digits.simps) simp

lemma horner_nat_digits: "foldl (\<lambda>acc d. 10 * acc + d) 0 (nat_digits n) = n"
proof (induction n rule: nat_digits.induct)
  case (1 n)
  then show ?case by (subst nat_digits.simps) simp
qed

lemma less_10_cases:
  "(d::nat) < 10 \<Longrightarrow> d = 0 \<or> d = 1 \<or> d = 2 \<or> d = 3 \<or> d = 4 \<or> d = 5 \<or> d = 6 \<or> d = 7 \<or> d = 8 \<or> d = 9"
  by arith

lemma of_char_digit_char [simp]: "d < 10 \<Longrightarrow> of_char (digit_char d) - 48 = d"
  by (drule less_10_cases) (elim disjE; simp add: digit_char_def)

lemma read_nat_map_digit_char:
  "\<forall>d \<in> set ds. d < 10 \<Longrightarrow>
     foldl (\<lambda>acc c. 10 * acc + (of_char c - 48)) a (map digit_char ds) =
     foldl (\<lambda>acc d. 10 * acc + d) a ds"
  by (induction ds arbitrary: a) simp_all

text \<open>Printing a natural number in decimal and reading it back gives the number.\<close>

lemma read_show_nat [simp]: "read_nat (show_nat n) = n"
proof -
  have "\<forall>d \<in> set (nat_digits n). d < 10"
    using nat_digits_lt by blast
  then have "read_nat (show_nat n) = foldl (\<lambda>acc d. 10 * acc + d) 0 (nat_digits n)"
    unfolding read_nat_def show_nat_def by (rule read_nat_map_digit_char)
  then show ?thesis by (simp only: horner_nat_digits)
qed

lemma show_nat_inj: "show_nat m = show_nat n \<longleftrightarrow> m = n"
  by (metis read_show_nat)

lemma digit_char_set: "d < 10 \<Longrightarrow> digit_char d \<in> set ''0123456789''"
  unfolding digit_char_def by (rule nth_mem) simp

lemma show_nat_digits: "set (show_nat n) \<subseteq> set ''0123456789''"
  using nat_digits_lt digit_char_set by (auto simp: show_nat_def)

lemma show_nat_not_Nil [simp]: "show_nat n \<noteq> []"
  by (simp add: show_nat_def)

lemma show_int_chars: "set (show_int i) \<subseteq> set ''-0123456789''"
proof -
  have "set (show_nat n) \<subseteq> set ''-0123456789''" for n
    using show_nat_digits [of n] by (rule subset_trans) (rule set_subset_Cons)
  then show ?thesis by (simp add: show_int_def)
qed

lemma show_int_no_comma [simp]: "CHR '','' \<notin> set (show_int i)"
proof
  assume "CHR '','' \<in> set (show_int i)"
  then have "CHR '','' \<in> set ''-0123456789''" using show_int_chars by blast
  then show False by simp
qed

lemma show_int_inj: "show_int i = show_int j \<longleftrightarrow> i = j"
proof
  assume eq: "show_int i = show_int j"
  have hd_nat: "hd (show_nat n) \<noteq> CHR ''-''" for n
    using show_nat_digits [of n] hd_in_set [OF show_nat_not_Nil] by fastforce
  show "i = j"
  proof (cases "i < 0"; cases "j < 0")
    assume "i < 0" "j < 0"
    with eq show ?thesis by (simp add: show_int_def show_nat_inj)
  next
    assume "\<not> i < 0" "\<not> j < 0"
    with eq show ?thesis by (simp add: show_int_def show_nat_inj)
  next
    assume "i < 0" "\<not> j < 0"
    moreover from eq have "hd (show_int i) = hd (show_int j)" by simp
    ultimately show ?thesis using hd_nat [of "nat j"] by (simp add: show_int_def)
  next
    assume "\<not> i < 0" "j < 0"
    moreover from eq have "hd (show_int i) = hd (show_int j)" by simp
    ultimately show ?thesis using hd_nat [of "nat i"] by (simp add: show_int_def)
  qed
qed simp

text \<open>
  \<open>str(v)\<close>. The text of a float is CPython's shortest round-trip \<open>repr\<close>, a library
  routine that this development does not model: it is the parameter \<open>fr\<close>.
\<close>

type_synonym float_repr = "real \<Rightarrow> string"

fun py_str :: "float_repr \<Rightarrow> pyval \<Rightarrow> string" where
  "py_str fr (PInt i) = show_int i"
| "py_str fr (PFloat x) = fr x"
| "py_str fr (PStr s) = s"
| "py_str fr (PBool b) = py_str_bool b"
| "py_str fr PNone = ''None''"

text \<open>Example data for the witnesses: a float \<open>repr\<close> that prints a fixed text.\<close>

definition example_repr :: float_repr where
  "example_repr x = ''1.5''"

section \<open>Paths\<close>

text \<open>\<open>os.path.join(a, b)\<close> (POSIX): an absolute \<open>b\<close> replaces \<open>a\<close>; otherwise one
  \<open>/\<close> separates them unless \<open>a\<close> is empty or already ends with one.\<close>

definition path_join :: "string \<Rightarrow> string \<Rightarrow> string" where
  "path_join a b =
     (if take 1 b = ''/'' then b
      else if a = [] \<or> last a = CHR ''/'' then a @ b else a @ ''/'' @ b)"

lemma path_join_slash [py_simps]:
  "take 1 b \<noteq> ''/'' \<Longrightarrow> a \<noteq> [] \<Longrightarrow> last a = CHR ''/'' \<Longrightarrow> path_join a b = a @ b"
  by (simp add: path_join_def)

lemma path_join_noslash [py_simps]:
  "take 1 b \<noteq> ''/'' \<Longrightarrow> a \<noteq> [] \<Longrightarrow> last a \<noteq> CHR ''/'' \<Longrightarrow> path_join a b = a @ ''/'' @ b"
  by (simp add: path_join_def)

section \<open>Multisets of filtered lists\<close>

text \<open>Filters that split a list: their results add up to the filter of their disjunction.\<close>

lemma mset_filter_disj:
  "(\<forall>x \<in> set xs. \<not> (P x \<and> Q x)) \<Longrightarrow>
    mset (filter P xs) + mset (filter Q xs) = mset (filter (\<lambda>x. P x \<or> Q x) xs)"
  by (induction xs) auto

lemma mset_filter_partition3:
  "(\<forall>x \<in> set xs. (P x \<or> Q x \<or> R x \<longleftrightarrow> B x) \<and> \<not> (P x \<and> Q x) \<and> \<not> (P x \<and> R x) \<and> \<not> (Q x \<and> R x)) \<Longrightarrow>
    mset (filter P xs) + mset (filter Q xs) + mset (filter R xs) = mset (filter B xs)"
  by (induction xs) auto

end
