(* ===== verification/Gcs.thy ===== *)
theory Gcs
  imports Prelude "HOL-Library.Sublist" "HOL-Library.AList" "HOL-Library.List_Lexorder"
    "HOL-Library.Char_ord"
begin

text \<open>
  Google Cloud Storage as the notebooks' shell cells and export jobs use it: a set of
  buckets and a store of objects, each named by its full \<open>gs://bucket/path\<close> URL and
  holding the lines of a text file. The \<open>gsutil\<close> commands are operations on this
  state: \<open>ls\<close> without arguments lists the buckets, \<open>ls\<close> of a URL pattern lists the
  matching objects (and fails when none matches), \<open>rm -rf\<close> removes every object
  below a prefix, \<open>cat\<close> concatenates the matching objects, \<open>mb\<close> makes a bucket. URL
  wildcards are matched by \<open>glob\<close>, shown equal to a declarative reference
  \<open>glob_ref\<close>. \<open>grep -q\<close> on a command's output is a substring test on its lines.
\<close>

section \<open>Definitions\<close>

record gcs_state =
  gcs_buckets :: "string list"
  gcs_objects :: "(string \<times> string list) list"

text \<open>
  A wildcard pattern: \<open>*\<close> matches any run of characters within one path segment
  (no \<open>/\<close>), every other character matches itself.
\<close>

fun glob :: "string \<Rightarrow> string \<Rightarrow> bool" where
  "glob [] s = (s = [])"
| "glob (c # p) s =
     (if c = CHR ''*'' then
        glob p s \<or> (case s of [] \<Rightarrow> False | x # s' \<Rightarrow> x \<noteq> CHR ''/'' \<and> glob (c # p) s')
      else (case s of [] \<Rightarrow> False | x # s' \<Rightarrow> x = c \<and> glob p s'))"

lemma glob_Cons_Nil [simp]: "glob (c # p) [] \<longleftrightarrow> c = CHR ''*'' \<and> glob p []"
  by simp

lemma glob_Cons_Cons [simp]:
  "glob (c # p) (x # s) \<longleftrightarrow>
     (if c = CHR ''*'' then glob p (x # s) \<or> (x \<noteq> CHR ''/'' \<and> glob (c # p) s) else x = c \<and> glob p s)"
  by simp

declare glob.simps(2) [simp del]

lemma glob_star_skip: "glob p t \<Longrightarrow> glob (CHR ''*'' # p) t"
  by (cases t) simp_all

text \<open>The reference: a string matches when it is the pattern with each \<open>*\<close> replaced by a slash-free string.\<close>

fun fill :: "string \<Rightarrow> string list \<Rightarrow> string" where
  "fill [] us = []"
| "fill (c # p) us = (if c = CHR ''*'' then hd us @ fill p (tl us) else c # fill p us)"

definition glob_ref :: "string \<Rightarrow> string \<Rightarrow> bool" where
  "glob_ref p s \<longleftrightarrow>
     (\<exists>us. length us = count_list p (CHR ''*'') \<and> (\<forall>u \<in> set us. CHR ''/'' \<notin> set u) \<and> s = fill p us)"

text \<open>\<open>gsutil ls\<close>: one line \<open>gs://b/\<close> per bucket.\<close>

definition gsutil_ls_buckets :: "gcs_state \<Rightarrow> string list" where
  "gsutil_ls_buckets st = map (\<lambda>b. ''gs://'' @ b @ ''/'') (gcs_buckets st)"

text \<open>\<open>gsutil ls -r gs://b\<close>: every object of the bucket.\<close>

definition gsutil_ls_r :: "string \<Rightarrow> gcs_state \<Rightarrow> string list" where
  "gsutil_ls_r url st = filter (prefix (url @ ''/'')) (map fst (gcs_objects st))"

text \<open>\<open>gsutil ls pattern\<close>: the matching object URLs; no match is an error.\<close>

definition gsutil_ls :: "string \<Rightarrow> gcs_state \<Rightarrow> string list result" where
  "gsutil_ls pat st =
     (let hits = filter (glob pat) (map fst (gcs_objects st)) in
      if hits = [] then Inl (CommandException pat) else Inr hits)"

text \<open>
  \<open>gsutil -m rm -rf url\<close>: the object \<open>url\<close> and every object below \<open>url/\<close> are removed;
  \<open>-f\<close> ignores a miss.
\<close>

definition rm_target :: "string \<Rightarrow> string \<Rightarrow> bool" where
  "rm_target url k \<longleftrightarrow> k = url \<or> prefix (if url \<noteq> [] \<and> last url = CHR ''/'' then url else url @ ''/'') k"

definition gsutil_rm_rf :: "string \<Rightarrow> gcs_state \<Rightarrow> gcs_state" where
  "gsutil_rm_rf url st = st\<lparr>gcs_objects := filter (\<lambda>(k, _). \<not> rm_target url k) (gcs_objects st)\<rparr>"

text \<open>\<open>gsutil cat pattern\<close>: the lines of the matching objects, in listing order.\<close>

definition gsutil_cat :: "string \<Rightarrow> gcs_state \<Rightarrow> string list result" where
  "gsutil_cat pat st =
     bindE (gsutil_ls pat st) (\<lambda>urls. Inr (concat (map (\<lambda>u. the (map_of (gcs_objects st) u)) urls)))"

text \<open>\<open>gsutil mb gs://b\<close>: a bucket that exists already is an error.\<close>

definition gsutil_mb :: "string \<Rightarrow> gcs_state \<Rightarrow> gcs_state result" where
  "gsutil_mb b st =
     (if b \<in> set (gcs_buckets st) then Inl (CommandException (''gs://'' @ b))
      else Inr (st\<lparr>gcs_buckets := gcs_buckets st @ [b]\<rparr>))"

text \<open>Writing an object replaces the object of that name.\<close>

definition gcs_write :: "string \<Rightarrow> string list \<Rightarrow> gcs_state \<Rightarrow> gcs_state" where
  "gcs_write url ls st = st\<lparr>gcs_objects := AList.update url ls (gcs_objects st)\<rparr>"

text \<open>\<open>cmd | grep -q pat\<close>: whether some output line contains \<open>pat\<close>.\<close>

definition grep_q :: "string \<Rightarrow> string list \<Rightarrow> bool" where
  "grep_q pat out \<longleftrightarrow> list_ex (sublist pat) out"

text \<open>
  \<open>gsutil ls gs://b/dir\<close> of a URL without wildcard: an object named by the URL itself
  and the entries directly below \<open>url/\<close>, in name order; an entry with more path
  below it is a sub-directory, listed as its URL with a final \<open>/\<close>. Nothing to list
  is an error.
\<close>

definition ls_entry :: "string \<Rightarrow> string \<Rightarrow> string" where
  "ls_entry url k =
     (let rest = drop (Suc (length url)) k;
          seg = takeWhile (\<lambda>c. c \<noteq> CHR ''/'') rest
      in url @ ''/'' @ seg @ (if seg = rest then [] else ''/''))"

definition gsutil_ls_dir :: "string \<Rightarrow> gcs_state \<Rightarrow> string list result" where
  "gsutil_ls_dir url st =
     (let keys = map fst (gcs_objects st);
          exact = filter (\<lambda>k. k = url) keys;
          below = filter (prefix (url @ ''/'')) keys
      in if exact @ below = [] then Inl (CommandException url)
         else Inr (sort (remdups (exact @ map (ls_entry url) below))))"

text \<open>The store's invariant: object names are unique.\<close>

definition gcs_wf :: "gcs_state \<Rightarrow> bool" where
  "gcs_wf st \<longleftrightarrow> distinct (map fst (gcs_objects st))"

section \<open>Properties\<close>

lemma glob_star_append:
  "CHR ''/'' \<notin> set u \<Longrightarrow> glob p t \<Longrightarrow> glob (CHR ''*'' # p) (u @ t)"
  by (induction u) (auto intro: glob_star_skip)

lemma glob_sound: "glob p s \<Longrightarrow> glob_ref p s"
proof (induction p s rule: glob.induct)
  case (1 s)
  then show ?case by (simp add: glob_ref_def)
next
  case (2 c p s)
  show ?case
  proof (cases "c = CHR ''*''")
    case True
    from "2.prems" True consider (now) "glob p s" | (more) x s' where "s = x # s'" "x \<noteq> CHR ''/''" "glob (c # p) s'"
      by (cases s) auto
    then show ?thesis
    proof cases
      case now
      then obtain us where "length us = count_list p (CHR ''*'')" "\<forall>u \<in> set us. CHR ''/'' \<notin> set u" "s = fill p us"
        using "2.IH"(1) True unfolding glob_ref_def by blast
      then show ?thesis using True unfolding glob_ref_def
        by (intro exI [of _ "[] # us"]) simp
    next
      case more
      then obtain us where us: "length us = count_list (c # p) (CHR ''*'')" "\<forall>u \<in> set us. CHR ''/'' \<notin> set u" "s' = fill (c # p) us"
        using "2.IH"(2) True unfolding glob_ref_def by blast
      then obtain u us' where "us = u # us'" using True by (cases us) auto
      with us more True show ?thesis unfolding glob_ref_def
        by (intro exI [of _ "(x # u) # us'"]) auto
    qed
  next
    case False
    with "2.prems" obtain s' where s: "s = c # s'" "glob p s'" by (cases s) auto
    then obtain us where "length us = count_list p (CHR ''*'')" "\<forall>u \<in> set us. CHR ''/'' \<notin> set u" "s' = fill p us"
      using "2.IH"(3) False unfolding glob_ref_def by blast
    with s False show ?thesis unfolding glob_ref_def by (intro exI [of _ us]) simp
  qed
qed

lemma glob_complete: "length us = count_list p (CHR ''*'') \<Longrightarrow> \<forall>u \<in> set us. CHR ''/'' \<notin> set u \<Longrightarrow> glob p (fill p us)"
proof (induction p arbitrary: us)
  case Nil
  then show ?case by simp
next
  case (Cons c p)
  show ?case
  proof (cases "c = CHR ''*''")
    case True
    with Cons.prems obtain u us' where "us = u # us'" by (cases us) auto
    with Cons True show ?thesis by (auto intro: glob_star_append)
  next
    case False
    with Cons show ?thesis by simp
  qed
qed

text \<open>
  The executable wildcard matcher accepts exactly the strings the reference
  describes: the pattern with each \<open>*\<close> replaced by a string without \<open>/\<close>.
\<close>

theorem glob_refines: "glob p s \<longleftrightarrow> glob_ref p s"
  using glob_sound glob_complete unfolding glob_ref_def by blast


lemma gcs_write_wf: "gcs_wf st \<Longrightarrow> gcs_wf (gcs_write u ls st)"
  by (simp add: gcs_wf_def gcs_write_def distinct_update)

lemma gcs_write_lookup: "map_of (gcs_objects (gcs_write u ls st)) = (map_of (gcs_objects st))(u \<mapsto> ls)"
  by (simp add: gcs_write_def update_conv')

lemma gsutil_rm_rf_wf: "gcs_wf st \<Longrightarrow> gcs_wf (gsutil_rm_rf pre st)"
  by (simp add: gcs_wf_def gsutil_rm_rf_def distinct_map_filter)

lemma map_of_filter_keys:
  "map_of (filter (\<lambda>(k, _). \<not> P k) xs) k = (if P k then None else map_of xs k)"
  by (induction xs) auto

lemma rm_target_dir: "url \<noteq> [] \<Longrightarrow> last url = CHR ''/'' \<Longrightarrow> rm_target url k \<longleftrightarrow> prefix url k"
  by (auto simp: rm_target_def)

lemma gsutil_rm_rf_lookup:
  "map_of (gcs_objects (gsutil_rm_rf pre st)) k = (if rm_target pre k then None else map_of (gcs_objects st) k)"
  by (simp add: gsutil_rm_rf_def map_of_filter_keys)

lemma gsutil_ls_Inr:
  "gsutil_ls pat st = Inr urls \<Longrightarrow> set urls = {u \<in> fst ` set (gcs_objects st). glob pat u}"
  by (force simp: gsutil_ls_def Let_def split: if_splits)

lemma glob_append_lit: "CHR ''*'' \<notin> set w \<Longrightarrow> glob (w @ p) (w @ s) = glob p s"
  by (induction w) auto

lemma glob_star_any: "CHR ''/'' \<notin> set s \<Longrightarrow> glob ''*'' s"
  by (induction s) auto

lemma sublist_count_le: "sublist xs ys \<Longrightarrow> count_list xs c \<le> count_list ys c"
  by (auto simp: sublist_def)

lemma fill_append_lit: "CHR ''*'' \<notin> set w \<Longrightarrow> fill (w @ p) us = w @ fill p us"
  by (induction w) auto

lemma count_list_free: "c \<notin> set w \<Longrightarrow> count_list w c = 0"
  by (induction w) auto

lemma ex_length_one: "(\<exists>us. length us = Suc 0 \<and> P us) \<longleftrightarrow> (\<exists>u. P [u])"
  by (auto simp: length_Suc_conv)

end
