(* ===== verification/Shell.thy ===== *)
theory Shell
  imports Gcs
begin

text \<open>
  The shell side of the notebooks: the process environment that the Python cells fill
  through \<open>os.environ\<close> and the expansion of \<open>$NAME\<close> and \<open>${NAME}\<close> in a command line
  of a \<open>%%bash\<close> cell. An unset variable expands to the empty string, as in \<open>bash\<close>.
\<close>

section \<open>Definitions\<close>

type_synonym environ = "string \<rightharpoonup> string"

definition env_val :: "environ \<Rightarrow> string \<Rightarrow> string" where
  "env_val env n = (case env n of Some v \<Rightarrow> v | None \<Rightarrow> [])"

definition is_name_char :: "char \<Rightarrow> bool" where
  "is_name_char c \<longleftrightarrow> c \<in> set ''ABCDEFGHIJKLMNOPQRSTUVWXYZabcdefghijklmnopqrstuvwxyz0123456789_''"

text \<open>Parameter expansion of one word: \<open>${NAME}\<close>, then \<open>$NAME\<close> with the longest name.\<close>

function sh_expand :: "environ \<Rightarrow> string \<Rightarrow> string" where
  "sh_expand env [] = []"
| "sh_expand env (c # cs) =
     (if c = CHR ''$'' \<and> take 1 cs = ''{'' then
        env_val env (takeWhile (\<lambda>x. x \<noteq> CHR ''}'') (drop 1 cs))
          @ sh_expand env (drop 1 (dropWhile (\<lambda>x. x \<noteq> CHR ''}'') (drop 1 cs)))
      else if c = CHR ''$'' \<and> takeWhile is_name_char cs \<noteq> [] then
        env_val env (takeWhile is_name_char cs) @ sh_expand env (dropWhile is_name_char cs)
      else c # sh_expand env cs)"
  by pat_completeness auto
termination
proof (relation "measure (\<lambda>(env, s). length s)")
  fix env c cs
  have "length (dropWhile (\<lambda>x. x \<noteq> CHR ''}'') (drop 1 cs)) \<le> length (drop 1 cs)"
    by (rule length_dropWhile_le)
  then have "length (drop 1 (dropWhile (\<lambda>x. x \<noteq> CHR ''}'') (drop 1 cs))) \<le> length cs"
    by simp
  then show "((env, drop 1 (dropWhile (\<lambda>x. x \<noteq> CHR ''}'') (drop 1 cs))), env, c # cs)
      \<in> measure (\<lambda>(env, s). length s)" by simp
  show "((env, dropWhile is_name_char cs), env, c # cs) \<in> measure (\<lambda>(env, s). length s)"
    using length_dropWhile_le [of is_name_char cs] by simp
qed auto

text \<open>\<open>os.environ[k] = v\<close> for the notebook's configuration variables.\<close>

definition set_environ :: "(string \<times> string) list \<Rightarrow> environ \<Rightarrow> environ" where
  "set_environ kvs env = env ++ map_of (rev kvs)"

text \<open>
  Field splitting of the result of an unquoted expansion: the text is cut at blanks,
  tabs and newlines, and empty fields are dropped. The literal parts of the words the
  cells expand hold none of these characters, so splitting the expanded word is the
  same as splitting its expansions.
\<close>

definition is_ifs :: "char \<Rightarrow> bool" where
  "is_ifs c \<longleftrightarrow> c = CHR '' '' \<or> c = CHR 9 \<or> c = CHR 10"

fun ifs_fields :: "string \<Rightarrow> string \<Rightarrow> string list" where
  "ifs_fields acc [] = (if acc = [] then [] else [rev acc])"
| "ifs_fields acc (c # cs) =
     (if is_ifs c then (if acc = [] then ifs_fields [] cs else rev acc # ifs_fields [] cs)
      else ifs_fields (c # acc) cs)"

definition sh_word_fields :: "environ \<Rightarrow> string \<Rightarrow> string list" where
  "sh_word_fields env w = ifs_fields [] (sh_expand env w)"

text \<open>\<open>$(cmd)\<close>: the output lines, each ended by a newline, with the trailing newlines removed.\<close>

definition cmd_subst :: "string list \<Rightarrow> string" where
  "cmd_subst out = rev (dropWhile (\<lambda>c. c = CHR 10) (rev (concat (map (\<lambda>l. l @ [CHR 10]) out))))"

text \<open>\<open>cmd | tail -1\<close>: the last line of the output, if any.\<close>

definition tail1 :: "string list \<Rightarrow> string list" where
  "tail1 out = (if out = [] then [] else [last out])"

section \<open>Properties\<close>

text \<open>Command substitution and field splitting.\<close>

lemma ifs_fields_free:
  "\<forall>x \<in> set s. \<not> is_ifs x \<Longrightarrow> ifs_fields acc s = (if rev acc @ s = [] then [] else [rev acc @ s])"
  by (induction s arbitrary: acc) auto

lemma ifs_fields_sep:
  "\<forall>x \<in> set s. \<not> is_ifs x \<Longrightarrow> is_ifs c \<Longrightarrow> rev acc @ s \<noteq> [] \<Longrightarrow>
     ifs_fields acc (s @ c # t) = (rev acc @ s) # ifs_fields [] t"
  by (induction s arbitrary: acc) simp_all

lemma ifs_fields_join:
  "\<forall>e \<in> set es. e \<noteq> [] \<and> (\<forall>x \<in> set e. \<not> is_ifs x) \<Longrightarrow> es \<noteq> [] \<Longrightarrow> \<forall>x \<in> set p. \<not> is_ifs x \<Longrightarrow>
     ifs_fields [] (p @ py_join [CHR 10] es) = (p @ hd es) # tl es"
proof (induction es arbitrary: p rule: induct_list012)
  case 1
  then show ?case by simp
next
  case (2 e)
  then show ?case using ifs_fields_free [of "p @ e" "[]"] by auto
next
  case (3 e e' es)
  have "ifs_fields [] ((p @ e) @ CHR 10 # py_join [CHR 10] (e' # es)) =
      (p @ e) # ifs_fields [] (py_join [CHR 10] (e' # es))"
  proof -
    have fr: "\<forall>x \<in> set (p @ e). \<not> is_ifs x" using "3.prems" by auto
    show ?thesis
      using ifs_fields_sep [of "p @ e" "CHR 10" "[]" "py_join [CHR 10] (e' # es)", OF fr] "3.prems"
      by (simp add: is_ifs_def)
  qed
  also have "\<dots> = (p @ e) # e' # es" using "3.IH"(2) [of "[]"] "3.prems" by simp
  finally show ?case by simp
qed

lemma concat_map_snoc_sep:
  "xs \<noteq> [] \<Longrightarrow> concat (map (\<lambda>l. l @ sep) xs) = py_join sep xs @ sep"
  by (induction xs rule: induct_list012) simp_all

lemma py_join_last:
  "xs \<noteq> [] \<Longrightarrow> last xs \<noteq> [] \<Longrightarrow> \<exists>u. py_join sep xs = u @ [last (last xs)]"
proof (induction xs rule: induct_list012)
  case (2 x)
  then show ?case by (intro exI [of _ "butlast x"]) simp
next
  case (3 x y zs)
  then obtain u where "py_join sep (y # zs) = u @ [last (last (y # zs))]" by auto
  then show ?case by simp
qed simp

lemma cmd_subst_join:
  assumes "\<forall>x \<in> set xs. x \<noteq> [] \<and> CHR 10 \<notin> set x" "xs \<noteq> []"
  shows "cmd_subst xs = py_join [CHR 10] xs"
proof -
  obtain u where u: "py_join [CHR 10] xs = u @ [last (last xs)]"
    using py_join_last [of xs "[CHR 10]"] assms by auto
  have "last (last xs) \<noteq> CHR 10" using assms last_in_set [of "last xs"] last_in_set [of xs] by fastforce
  then show ?thesis using assms(2) u by (simp add: cmd_subst_def concat_map_snoc_sep)
qed

end
