(* ===== verification/BigQuery.thy ===== *)
theory BigQuery
  imports Prelude
begin

text \<open>
  The BigQuery standard-SQL builtins that the notebooks' queries use, modelled from
  BigQuery's documented semantics: INT64 arithmetic that raises on overflow, \<open>MOD\<close>
  with the sign of the dividend, \<open>ABS\<close> of an INT64 (which overflows on the least
  INT64), \<open>FARM_FINGERPRINT\<close> as an unknown function to INT64 words,
  \<open>CAST(b AS STRING)\<close> of a BOOL, and a \<open>WHERE\<close> clause as a filter over a table
  that fails when the condition fails on any row. Columns are modelled as non-NULL.
\<close>

section \<open>INT64 arithmetic\<close>

definition int64_min :: int where "int64_min = - (2 ^ 63)"
definition int64_max :: int where "int64_max = 2 ^ 63 - 1"

definition in_int64 :: "int \<Rightarrow> bool" where
  "in_int64 x \<longleftrightarrow> int64_min \<le> x \<and> x \<le> int64_max"

text \<open>\<open>x * y\<close> on INT64: an error when the product leaves the range.\<close>

definition sql_mul :: "int \<Rightarrow> int \<Rightarrow> int result" where
  "sql_mul x y = (if in_int64 (x * y) then Inr (x * y) else Inl Int64Overflow)"

text \<open>\<open>MOD(x, y)\<close>: the remainder has the sign of \<open>x\<close>; \<open>y = 0\<close> is an error.\<close>

definition sql_mod :: "int \<Rightarrow> int \<Rightarrow> int result" where
  "sql_mod x y = (if y = 0 then Inl DivisionByZero else Inr (sgn x * (\<bar>x\<bar> mod \<bar>y\<bar>)))"

lemma sql_mod_nonneg [py_simps]: "0 \<le> x \<Longrightarrow> 0 < y \<Longrightarrow> sql_mod x y = Inr (x mod y)"
  by (cases "x = 0") (simp_all add: sql_mod_def)

lemma sql_mul_ok [py_simps]: "in_int64 (x * y) \<Longrightarrow> sql_mul x y = Inr (x * y)"
  by (simp add: sql_mul_def)

section \<open>FARM_FINGERPRINT and ABS\<close>

text \<open>
  \<open>FARM_FINGERPRINT(s)\<close> returns an INT64: any function of the string's bytes. The
  development fixes no particular hash; every theorem holds for all of them.
\<close>

type_synonym fingerprint = "string \<Rightarrow> 64 word"

text \<open>\<open>ABS(x)\<close> of an INT64, read as a two's-complement word: an error on the least INT64.\<close>

definition sql_abs :: "64 word \<Rightarrow> int result" where
  "sql_abs w = (if sint w = int64_min then Inl Int64Overflow else Inr \<bar>sint w\<bar>)"

lemma sint_64_bounds: "int64_min \<le> sint (w :: 64 word) \<and> sint w \<le> int64_max"
  using sint_ge [of w] sint_lt [of w] by (simp add: int64_min_def int64_max_def)

lemma sql_abs_cases:
  "sql_abs w = Inl Int64Overflow \<and> sint w = int64_min \<or>
   (\<exists>h. sql_abs w = Inr h \<and> 0 \<le> h \<and> h \<le> int64_max)"
  using sint_64_bounds [of w] by (auto simp: sql_abs_def int64_min_def int64_max_def)

section \<open>Casts and strings\<close>

text \<open>\<open>CAST(b AS STRING)\<close> of a BOOL gives lower-case text.\<close>

definition cast_bool_string :: "bool \<Rightarrow> string" where
  "cast_bool_string b = (if b then ''true'' else ''false'')"

text \<open>\<open>CAST(n AS STRING)\<close> of an INT64 is its decimal text.\<close>

abbreviation cast_int_string :: "int \<Rightarrow> string" where
  "cast_int_string \<equiv> show_int"

section \<open>WHERE as a filter over a table\<close>

text \<open>A table is the list of its rows; the condition is evaluated on every row.\<close>

fun sql_where :: "('r \<Rightarrow> bool result) \<Rightarrow> 'r list \<Rightarrow> 'r list result" where
  "sql_where P [] = Inr []"
| "sql_where P (r # rs) =
     bindE (P r) (\<lambda>b. bindE (sql_where P rs) (\<lambda>ys. Inr (if b then r # ys else ys)))"

lemma sql_where_total:
  "(\<forall>r \<in> set rs. \<exists>b. P r = Inr b) \<Longrightarrow> sql_where P rs = Inr (filter (\<lambda>r. P r = Inr True) rs)"
  by (induction rs) auto

lemma sql_where_error:
  "r \<in> set rs \<Longrightarrow> P r = Inl e \<Longrightarrow> \<exists>e'. sql_where P rs = Inl e'"
  by (induction rs) (auto simp: bindE_def split: sum.splits)

lemma sql_where_append:
  "sql_where P (xs @ ys) = bindE (sql_where P xs) (\<lambda>a. bindE (sql_where P ys) (\<lambda>b. Inr (a @ b)))"
  by (induction xs) (auto simp: bindE_def split: sum.splits)

section \<open>Rows and column references\<close>

text \<open>
  A value of a result column, and a result row as the list of its named columns in
  \<open>SELECT\<close> order, which is what \<open>SELECT *\<close> of a subquery reproduces.
\<close>

datatype sqlval = SInt int | SFloat real | SStr string | SBool bool
  | STime string  \<comment> \<open>a \<open>TIMESTAMP\<close>, by its canonical text\<close>
  | SNull

type_synonym sqlrow = "(string \<times> sqlval) list"

text \<open>A column reference: the first column of that name, or an error.\<close>

definition sql_col :: "sqlrow \<Rightarrow> string \<Rightarrow> sqlval result" where
  "sql_col row c = (case map_of row c of None \<Rightarrow> Inl (UnrecognizedName c) | Some v \<Rightarrow> Inr v)"

text \<open>\<open>SELECT c1, ..., cn FROM t\<close> on one row of \<open>t\<close>.\<close>

definition sql_project :: "string list \<Rightarrow> sqlrow \<Rightarrow> sqlrow result" where
  "sql_project cols row = map_result (\<lambda>c. bindE (sql_col row c) (\<lambda>v. Inr (c, v))) cols"

text \<open>
  Column types. A query's columns have a type fixed when it is compiled; \<open>NULL\<close> has
  every type. \<open>UNION ALL\<close> requires its two queries to agree on the types column by
  column, and the table a query writes takes the query's columns.
\<close>

datatype sqltype = TInt64 | TFloat64 | TString | TBool | TTimestamp

fun has_type :: "sqltype \<Rightarrow> sqlval \<Rightarrow> bool" where
  "has_type t SNull = True"
| "has_type TInt64 v = (case v of SInt _ \<Rightarrow> True | _ \<Rightarrow> False)"
| "has_type TFloat64 v = (case v of SFloat _ \<Rightarrow> True | _ \<Rightarrow> False)"
| "has_type TString v = (case v of SStr _ \<Rightarrow> True | _ \<Rightarrow> False)"
| "has_type TBool v = (case v of SBool _ \<Rightarrow> True | _ \<Rightarrow> False)"
| "has_type TTimestamp v = (case v of STime _ \<Rightarrow> True | _ \<Rightarrow> False)"

definition row_schema :: "(string \<times> sqltype) list \<Rightarrow> sqlrow \<Rightarrow> bool" where
  "row_schema sch row \<longleftrightarrow> list_all2 (\<lambda>(c, t) (c', v). c = c' \<and> has_type t v) sch row"

text \<open>
  \<open>LIMIT n\<close> without \<open>ORDER BY\<close>: BigQuery returns some \<open>min n (length xs)\<close> of the rows,
  which ones is not specified, so the clause is a relation between the rows and the
  answer. An error of the query is the error of the limited query.
\<close>

definition sql_limit :: "nat \<Rightarrow> 'a list \<Rightarrow> 'a list \<Rightarrow> bool" where
  "sql_limit n xs ys \<longleftrightarrow> mset ys \<subseteq># mset xs \<and> length ys = min n (length xs)"

fun sql_limit_res :: "nat \<Rightarrow> 'a list result \<Rightarrow> 'a list result \<Rightarrow> bool" where
  "sql_limit_res n (Inr xs) (Inr ys) = sql_limit n xs ys"
| "sql_limit_res n (Inl e) (Inl e') = (e = e')"
| "sql_limit_res n _ _ = False"

lemma sql_col_map_of: "map_of row c = Some v \<Longrightarrow> sql_col row c = Inr v"
  by (simp add: sql_col_def)

lemma sql_project_ok:
  "(\<forall>c \<in> set cols. map_of row c \<noteq> None) \<Longrightarrow>
   sql_project cols row = Inr (map (\<lambda>c. (c, the (map_of row c))) cols)"
  unfolding sql_project_def by (rule map_result_Inr) (auto simp: sql_col_def)

lemma sql_limit_subset: "sql_limit n xs ys \<Longrightarrow> set ys \<subseteq> set xs"
  unfolding sql_limit_def by (metis set_mset_mono set_mset_mset)

lemma sql_limit_take: "sql_limit n xs (take n xs)"
proof -
  have "mset (take n xs) \<subseteq># mset (take n xs) + mset (drop n xs)" by simp
  then show ?thesis unfolding sql_limit_def by (simp add: mset_append [symmetric])
qed

end
