(* ===== verification/Natality.thy ===== *)
theory Natality
  imports BigQuery
begin

text \<open>
  The rows of \<open>publicdata.samples.natality\<close> that the babyweight notebooks read,
  and the expressions their queries share: \<open>hashmonth\<close>, the repeatable split key,
  and the row filters. Every babyweight component imports this theory.
\<close>

section \<open>Definitions\<close>

text \<open>The columns the queries read. INT64 columns are \<open>int\<close>, FLOAT64 is \<open>real\<close>.\<close>

record natality =
  year :: int
  month :: int
  weight_pounds :: real
  is_male :: bool
  mother_age :: int
  plurality :: int
  gestation_weeks :: int

text \<open>\<open>CONCAT(CAST(YEAR AS STRING), CAST(month AS STRING))\<close>: the birth month's key.\<close>

definition month_key :: "natality \<Rightarrow> string" where
  "month_key r = cast_int_string (year r) @ cast_int_string (month r)"

text \<open>\<open>ABS(FARM_FINGERPRINT(CONCAT(...))) AS hashmonth\<close>.\<close>

definition hashmonth :: "fingerprint \<Rightarrow> natality \<Rightarrow> int result" where
  "hashmonth fp r = sql_abs (fp (month_key r))"

text \<open>The \<open>WHERE\<close> clause of the Beam preprocessing query (\<open>part_000\<close>, \<open>preprocess\<close>).\<close>

definition beam_where :: "natality \<Rightarrow> bool" where
  "beam_where r \<longleftrightarrow>
     year r > 2000
     \<and> weight_pounds r > 0
     \<and> mother_age r > 0
     \<and> plurality r > 0
     \<and> gestation_weeks r > 0
     \<and> month r > 0"

text \<open>
  The \<open>SELECT\<close> list of that query, as the dictionary the Beam BigQuery reader yields:
  \<open>is_male\<close> stays a BOOL, so Python sees a \<open>bool\<close>.
\<close>

definition beam_rowdict :: "natality \<Rightarrow> int \<Rightarrow> (string, pyval) dict" where
  "beam_rowdict r h =
     [''weight_pounds'' \<mapsto> PFloat (weight_pounds r),
      ''is_male'' \<mapsto> PBool (is_male r),
      ''mother_age'' \<mapsto> PInt (mother_age r),
      ''plurality'' \<mapsto> PInt (plurality r),
      ''gestation_weeks'' \<mapsto> PInt (gestation_weeks r),
      ''hashmonth'' \<mapsto> PInt h]"

text \<open>Example data for the witnesses: a single boy born in June 2005.\<close>

definition example_birth :: natality where
  "example_birth =
     \<lparr>year = 2005, month = 6, weight_pounds = 7.5, is_male = True, mother_age = 28,
      plurality = 1, gestation_weeks = 39\<rparr>"

section \<open>Properties\<close>

lemma hashmonth_nonneg: "hashmonth fp r = Inr h \<Longrightarrow> 0 \<le> h"
  by (auto simp: hashmonth_def sql_abs_def split: if_splits)


lemma hash_rows_eval:
  assumes "\<forall>r \<in> set rows. P r \<longrightarrow> hashmonth fp r = Inr (H r)"
  shows "map_result (\<lambda>r. bindE (hashmonth fp r) (\<lambda>h. Inr (g r h))) (filter P rows) =
    Inr (map (\<lambda>r. g r (H r)) (filter P rows))"
  by (rule map_result_Inr) (use assms in auto)

lemma hash_rows_shape:
  "map_result (\<lambda>r. bindE (hashmonth fp r) (\<lambda>h. Inr (g r h))) xs = Inr ys \<Longrightarrow> y \<in> set ys \<Longrightarrow>
     \<exists>r h. y = g r h"
proof -
  assume "map_result (\<lambda>r. bindE (hashmonth fp r) (\<lambda>h. Inr (g r h))) xs = Inr ys" "y \<in> set ys"
  then obtain r where "bindE (hashmonth fp r) (\<lambda>h. Inr (g r h)) = Inr y" by (blast dest: map_result_Inr_set)
  then show ?thesis by (cases "hashmonth fp r") auto
qed

end
