(* ===== verification/BabyCsv.thy ===== *)
theory BabyCsv
  imports Natality
begin

text \<open>
  The babyweight \<open>to_csv(rowdict)\<close> of \<open>part_000\<close>: a generator that writes two CSV
  lines per natality row, one as if no ultrasound had been performed (sex
  \<open>Unknown\<close>, plurality only single or multiple) and one with the exact plurality
  spelled out. The plurality label is read from a five-element list at index
  \<open>plurality - 1\<close>, with Python's indexing: a negative index counts from the end
  and an index past the end raises \<open>IndexError\<close> before anything is yielded.
  A column missing from the dictionary is written as \<open>None\<close>.
\<close>

section \<open>Definitions\<close>

definition baby_CSV_COLUMNS :: "string list" where
  "baby_CSV_COLUMNS = py_split (CHR '','') ''weight_pounds,is_male,mother_age,plurality,gestation_weeks''"

definition plurality_labels :: "string list" where
  "plurality_labels = [''Single(1)'', ''Twins(2)'', ''Triplets(3)'', ''Quadruplets(4)'', ''Quintuplets(5)'']"

text \<open>\<open>str(result[k]) if k in result else "None"\<close>.\<close>

definition csv_field :: "float_repr \<Rightarrow> (string, pyval) dict \<Rightarrow> string \<Rightarrow> string" where
  "csv_field fr result k = (case result k of Some v \<Rightarrow> py_str fr v | None \<Rightarrow> ''None'')"

text \<open>\<open>','.join([...  for k in CSV_COLUMNS])\<close>; \<open>str("{}".format(data))\<close> is \<open>data\<close>.\<close>

definition csv_line :: "float_repr \<Rightarrow> (string, pyval) dict \<Rightarrow> string" where
  "csv_line fr result = py_join '','' (map (csv_field fr result) baby_CSV_COLUMNS)"

text \<open>
  The whole generator: the lines it yields, or the exception raised before the first
  \<open>yield\<close>. The dictionary copies are the map itself, since its values are immutable.
\<close>

definition baby_to_csv :: "float_repr \<Rightarrow> (string, pyval) dict \<Rightarrow> string list result" where
  "baby_to_csv fr rowdict =
     bindE (dict_get rowdict ''plurality'') (\<lambda>pl.
     bindE (py_gt_int pl 1) (\<lambda>multiple.
     let no_ultrasound = rowdict(''is_male'' \<mapsto> PStr ''Unknown'',
           ''plurality'' \<mapsto> PStr (if multiple then ''Multiple(2+)'' else ''Single(1)'')) in
     bindE (py_index_minus pl 1) (\<lambda>i.
     bindE (py_getitem plurality_labels i) (\<lambda>label.
     let w_ultrasound = rowdict(''plurality'' \<mapsto> PStr label) in
     Inr (map (csv_line fr) [no_ultrasound, w_ultrasound])))))"

text \<open>The dictionary the no-ultrasound line is written from, for an integer plurality.\<close>

definition no_ultrasound_of :: "(string, pyval) dict \<Rightarrow> int \<Rightarrow> (string, pyval) dict" where
  "no_ultrasound_of d p =
     d(''is_male'' \<mapsto> PStr ''Unknown'', ''plurality'' \<mapsto> PStr (if 1 < p then ''Multiple(2+)'' else ''Single(1)''))"

section \<open>Properties\<close>

lemma baby_CSV_COLUMNS_eq:
  "baby_CSV_COLUMNS = [''weight_pounds'', ''is_male'', ''mother_age'', ''plurality'', ''gestation_weeks'']"
  by (simp add: baby_CSV_COLUMNS_def)

lemma baby_to_csv_PInt:
  assumes "d ''plurality'' = Some (PInt p)"
  shows "baby_to_csv fr d =
    bindE (py_getitem plurality_labels (p - 1))
      (\<lambda>label. Inr [csv_line fr (no_ultrasound_of d p), csv_line fr (d(''plurality'' \<mapsto> PStr label))])"
  using assms by (simp add: baby_to_csv_def no_ultrasound_of_def)

lemma plurality_labels_index:
  "py_getitem plurality_labels i =
     (if i < -5 \<or> 5 \<le> i then Inl IndexError
      else Inr (plurality_labels ! nat (if 0 \<le> i then i else i + 5)))"
  by (simp add: py_getitem_def plurality_labels_def)

text \<open>
  For a plurality from 1 to 5, \<open>to_csv\<close> yields two lines: first the
  no-ultrasound line (sex \<open>Unknown\<close>, \<open>Single(1)\<close> or \<open>Multiple(2+)\<close>), then the
  line with the plurality spelled out as the \<open>plurality\<close>-th label.
\<close>

theorem baby_to_csv_two_lines:
  assumes "d ''plurality'' = Some (PInt p)" "1 \<le> p" "p \<le> 5"
  shows "baby_to_csv fr d =
    Inr [csv_line fr (no_ultrasound_of d p),
         csv_line fr (d(''plurality'' \<mapsto> PStr (plurality_labels ! nat (p - 1))))]"
  using assms by (simp add: baby_to_csv_PInt plurality_labels_index)

text \<open>
  A plurality above 5 makes \<open>to_csv\<close> raise \<open>IndexError\<close> before it yields any
  line, so the row's no-ultrasound line is lost as well.
\<close>

theorem baby_to_csv_index_error:
  assumes "d ''plurality'' = Some (PInt p)" "5 < p"
  shows "baby_to_csv fr d = Inl IndexError"
  using assms by (simp add: baby_to_csv_PInt plurality_labels_index)

text \<open>
  C30: A plurality from -4 to 0 does not fail: Python's negative index wraps around,
  so plurality 0 is labelled \<open>Quintuplets(5)\<close>, -1 \<open>Quadruplets(4)\<close>, and so on.
\<close>

theorem baby_to_csv_wraps:
  assumes "d ''plurality'' = Some (PInt p)" "-4 \<le> p" "p \<le> 0"
  shows "baby_to_csv fr d =
    Inr [csv_line fr (no_ultrasound_of d p),
         csv_line fr (d(''plurality'' \<mapsto> PStr (plurality_labels ! nat (p + 4))))]"
proof -
  have "p - 1 + 5 = p + 4" by simp
  with assms show ?thesis by (simp add: baby_to_csv_PInt plurality_labels_index add.commute)
qed

text \<open>
  A line of \<open>to_csv\<close> splits back into exactly the five fields of
  \<open>CSV_COLUMNS\<close>, each the \<open>str\<close> of the column or \<open>None\<close> when it is missing, when
  no present column prints a comma.
\<close>

theorem csv_line_roundtrip:
  assumes "\<forall>k \<in> set baby_CSV_COLUMNS. \<forall>v. d k = Some v \<longrightarrow> CHR '','' \<notin> set (py_str fr v)"
  shows "py_split (CHR '','') (csv_line fr d) = map (csv_field fr d) baby_CSV_COLUMNS"
  unfolding csv_line_def
  by (rule py_split_join) (use assms in \<open>auto simp: baby_CSV_COLUMNS_eq csv_field_def split: option.splits\<close>)

section \<open>Witnesses\<close>

theorem baby_to_csv_two_lines_witness:
  "baby_to_csv example_repr (beam_rowdict example_birth 7) =
    Inr [csv_line example_repr (no_ultrasound_of (beam_rowdict example_birth 7) 1),
         csv_line example_repr ((beam_rowdict example_birth 7)(''plurality'' \<mapsto> PStr (plurality_labels ! nat (1 - 1))))]"
  by (rule baby_to_csv_two_lines) (simp_all add: beam_rowdict_def example_birth_def)

theorem baby_to_csv_index_error_witness:
  "baby_to_csv example_repr [''plurality'' \<mapsto> PInt 6] = Inl IndexError"
  by (rule baby_to_csv_index_error [of _ 6]) simp_all

theorem baby_to_csv_wraps_witness:
  "baby_to_csv example_repr [''plurality'' \<mapsto> PInt 0] =
    Inr [csv_line example_repr (no_ultrasound_of [''plurality'' \<mapsto> PInt 0] 0),
         csv_line example_repr ([''plurality'' \<mapsto> PInt 0](''plurality'' \<mapsto> PStr (plurality_labels ! nat (0 + 4))))]"
  by (rule baby_to_csv_wraps) simp_all

theorem csv_line_roundtrip_witness:
  "py_split (CHR '','') (csv_line example_repr (beam_rowdict example_birth 7)) =
    map (csv_field example_repr (beam_rowdict example_birth 7)) baby_CSV_COLUMNS"
  by (rule csv_line_roundtrip)
     (simp add: baby_CSV_COLUMNS_eq beam_rowdict_def example_birth_def example_repr_def py_str_bool_def)

end
