(* ===== verification/Beam.thy ===== *)
theory Beam
  imports Prelude
begin

text \<open>
  What a notebook's \<open>preprocess\<close> function sets up with Apache Beam: the side effects
  it performs in order, and the pipeline it builds as its job name, output directory,
  options, runner and labelled transforms. The babyweight and the taxi pipelines are
  both described by a \<open>beam_plan\<close>.
\<close>

text \<open>The side effects of a \<open>preprocess\<close> function, in the order the code performs them.\<close>

datatype effect =
    Print string
  | RmTree string          \<comment> \<open>\<open>shutil.rmtree(d, ignore_errors=True)\<close>\<close>
  | MakeDirs string        \<comment> \<open>\<open>os.makedirs(d)\<close>\<close>
  | GsutilRm string        \<comment> \<open>\<open>gsutil -m rm -r d\<close>, its failure swallowed by \<open>except: pass\<close>\<close>
  | RunPipeline
  | WaitUntilFinish

text \<open>The transforms applied to the pipeline, each under its label.\<close>

datatype transform =
    ReadBigQuery string    \<comment> \<open>\<open>beam.io.Read(BigQuerySource(query = q, use_standard_sql = True))\<close>\<close>
  | FlatMapToCsv           \<comment> \<open>\<open>beam.FlatMap(to_csv)\<close>\<close>
  | WriteText string       \<comment> \<open>\<open>beam.io.Write(WriteToText(path))\<close>\<close>
  | MapToCsv               \<comment> \<open>\<open>beam.Map(to_csv)\<close>: one line per row\<close>

record beam_plan =
  plan_job_name :: string
  plan_output_dir :: string
  plan_options :: "(string, pyval) dict"
  plan_runner :: string
  plan_transforms :: "(string \<times> transform) list"
  plan_effects :: "effect list"

text \<open>
  The files \<open>WriteToText(path)\<close> writes: shard \<open>i\<close> of \<open>n\<close> is
  \<open>path-SSSSS-of-NNNNN\<close>, the numbers printed with five digits.
\<close>

definition pad5 :: "nat \<Rightarrow> string" where
  "pad5 k = replicate (5 - length (show_nat k)) (CHR ''0'') @ show_nat k"

definition text_shard :: "string \<Rightarrow> nat \<Rightarrow> nat \<Rightarrow> string" where
  "text_shard path i n = path @ ''-'' @ pad5 i @ ''-of-'' @ pad5 n"

lemma pad5_digits: "CHR ''/'' \<notin> set (pad5 k)"
  using show_nat_digits [of k] by (auto simp: pad5_def)

lemma pad5_0: "pad5 0 = ''00000''"
  by (simp add: pad5_def show_nat_def nat_digits.simps digit_char_def eval_nat_numeral)

end
