(* ===== verification/BabyPipeline.thy ===== *)
theory BabyPipeline
  imports BabyCsv Beam
begin

text \<open>
  The babyweight \<open>preprocess(in_test_mode)\<close> of \<open>part_000\<close>: it chooses an output
  directory and a runner, clears the directory, builds the pipeline options, and for
  each step of \<open>["train", "eval"]\<close> adds three transforms (read the step's query from
  BigQuery, \<open>FlatMap(to_csv)\<close>, write text files), then runs the pipeline, waiting for
  it only in test mode. \<open>baby_preprocess\<close> returns what the function sets up: its side
  effects in order and the pipeline it builds. \<open>run_step\<close> gives what a step of that
  pipeline writes when it runs on a natality table, outside test mode (the test
  mode's \<open>LIMIT 100\<close> picks arbitrary rows and is not given a meaning here).
\<close>

section \<open>Definitions\<close>

text \<open>The query text, with \<open>LIMIT 100\<close> appended in test mode.\<close>

definition beam_query_text :: "bool \<Rightarrow> string" where
  "beam_query_text in_test_mode =
     (let query = ''
SELECT
    weight_pounds,
    is_male,
    mother_age,
    plurality,
    gestation_weeks,
    ABS(FARM_FINGERPRINT(CONCAT(CAST(YEAR AS STRING), CAST(month AS STRING)))) AS hashmonth
FROM
    publicdata.samples.natality
WHERE
    year > 2000
    AND weight_pounds > 0
    AND mother_age > 0
    AND plurality > 0
    AND gestation_weeks > 0
    AND month > 0
''
      in if in_test_mode then query @ '' LIMIT 100'' else query)"

text \<open>The \<open>if\<close>/\<open>elif\<close>/\<open>else\<close> chain that wraps the query for a step.\<close>

definition selquery_of :: "string \<Rightarrow> string \<Rightarrow> string" where
  "selquery_of step query =
     (if step = ''train'' then ''SELECT * FROM ('' @ query @ '') WHERE MOD(hashmonth, 100) < 80''
      else if step = ''eval'' then
        ''SELECT * FROM ('' @ query @ '') WHERE MOD(hashmonth, 100) >= 80 AND MOD(hashmonth, 100) < 90''
      else ''SELECT * FROM ('' @ query @ '') WHERE MOD(hashmonth, 100) >= 90'')"

definition baby_steps :: "string list" where
  "baby_steps = [''train'', ''eval'']"

text \<open>The three labelled transforms of one step.\<close>

definition step_transforms :: "string \<Rightarrow> string \<Rightarrow> string \<Rightarrow> (string \<times> transform) list" where
  "step_transforms output_dir query step =
     [(step @ ''_read'', ReadBigQuery (selquery_of step query)),
      (step @ ''_csv'', FlatMapToCsv),
      (step @ ''_out'', WriteText (path_join output_dir (step @ ''.csv'')))]"

text \<open>
  \<open>preprocess(in_test_mode)\<close>; \<open>now\<close> is the text of
  \<open>datetime.now().strftime("%y%m%d-%H%M%S")\<close>, \<open>bucket\<close> and \<open>project\<close> the
  notebook's \<open>BUCKET\<close> and \<open>PROJECT\<close>.
\<close>

definition baby_preprocess :: "bool \<Rightarrow> string \<Rightarrow> string \<Rightarrow> string \<Rightarrow> beam_plan" where
  "baby_preprocess in_test_mode now bucket project =
     (let job_name = ''preprocess-babyweight-features'' @ ''-'' @ now;
          OUTPUT_DIR = (if in_test_mode then ''./preproc'' else ''gs://'' @ bucket @ ''/babyweight/preproc/'');
          setup = (if in_test_mode
                   then [Print ''Launching local job ... hang on'', RmTree OUTPUT_DIR, MakeDirs OUTPUT_DIR]
                   else [Print (''Launching Dataflow job '' @ job_name @ '' ... hang on''), GsutilRm OUTPUT_DIR]);
          options = [''staging_location'' \<mapsto> PStr (path_join (path_join OUTPUT_DIR ''tmp'') ''staging''),
                     ''temp_location'' \<mapsto> PStr (path_join OUTPUT_DIR ''tmp''),
                     ''job_name'' \<mapsto> PStr job_name,
                     ''project'' \<mapsto> PStr project,
                     ''teardown_policy'' \<mapsto> PStr ''TEARDOWN_ALWAYS'',
                     ''no_save_main_session'' \<mapsto> PBool True];
          RUNNER = (if in_test_mode then ''DirectRunner'' else ''DataflowRunner'');
          query = beam_query_text in_test_mode
      in \<lparr>plan_job_name = job_name,
          plan_output_dir = OUTPUT_DIR,
          plan_options = options,
          plan_runner = RUNNER,
          plan_transforms = concat (map (step_transforms OUTPUT_DIR query) baby_steps),
          plan_effects = setup @ [RunPipeline] @
            (if in_test_mode then [WaitUntilFinish, Print ''Done!''] else [])\<rparr>)"

text \<open>The meaning of a step's \<open>WHERE MOD(hashmonth, 100) ...\<close> on the inner row's hash.\<close>

definition split_where :: "string \<Rightarrow> int \<Rightarrow> bool result" where
  "split_where step h =
     bindE (sql_mod h 100) (\<lambda>m.
       Inr (if step = ''train'' then m < 80
            else if step = ''eval'' then 80 \<le> m \<and> m < 90
            else 90 \<le> m))"

text \<open>
  The inner query's rows: the natality rows that pass its \<open>WHERE\<close>, each with its
  \<open>hashmonth\<close>; computing the hash of a kept row can fail.
\<close>

definition beam_inner :: "fingerprint \<Rightarrow> natality list \<Rightarrow> (natality \<times> int) list result" where
  "beam_inner fp rows = map_result (\<lambda>r. bindE (hashmonth fp r) (\<lambda>h. Inr (r, h))) (filter beam_where rows)"

text \<open>The rows a step reads: \<open>SELECT * FROM (query) WHERE ...\<close>, as Python dictionaries.\<close>

definition beam_read :: "fingerprint \<Rightarrow> string \<Rightarrow> natality list \<Rightarrow> (string, pyval) dict list result" where
  "beam_read fp step rows =
     bindE (beam_inner fp rows) (\<lambda>xs.
     bindE (sql_where (\<lambda>(r, h). split_where step h) xs) (\<lambda>ys.
     Inr (map (\<lambda>(r, h). beam_rowdict r h) ys)))"

text \<open>
  What a step writes: \<open>FlatMap(to_csv)\<close> over the rows read; an exception in any
  call of \<open>to_csv\<close> fails the pipeline. The text files' sharding is not modelled.
\<close>

definition run_step :: "float_repr \<Rightarrow> fingerprint \<Rightarrow> string \<Rightarrow> natality list \<Rightarrow> string list result" where
  "run_step fr fp step rows =
     bindE (beam_read fp step rows) (\<lambda>ds. bindE (map_result (baby_to_csv fr) ds) (\<lambda>lss. Inr (concat lss)))"

section \<open>Properties\<close>

lemma baby_transforms_eq:
  "plan_transforms (baby_preprocess m now b p) =
    [(''train_read'', ReadBigQuery (selquery_of ''train'' (beam_query_text m))),
     (''train_csv'', FlatMapToCsv),
     (''train_out'', WriteText (path_join (plan_output_dir (baby_preprocess m now b p)) ''train.csv'')),
     (''eval_read'', ReadBigQuery (selquery_of ''eval'' (beam_query_text m))),
     (''eval_csv'', FlatMapToCsv),
     (''eval_out'', WriteText (path_join (plan_output_dir (baby_preprocess m now b p)) ''eval.csv''))]"
  by (simp add: baby_preprocess_def Let_def step_transforms_def baby_steps_def)

text \<open>
  The labels of the pipeline's transforms are pairwise distinct, in both
  modes, as Beam requires of the labels of one pipeline.
\<close>

theorem baby_labels_distinct: "distinct (map fst (plan_transforms (baby_preprocess m now b p)))"
  by (simp add: baby_transforms_eq)

lemma baby_output_dir:
  "plan_output_dir (baby_preprocess m now b p) = (if m then ''./preproc'' else ''gs://'' @ b @ ''/babyweight/preproc/'')"
  by (simp add: baby_preprocess_def Let_def)

text \<open>
  Outside test mode, \<open>preprocess\<close> prints the job name, removes the
  \<open>gs://\<close> output directory with \<open>gsutil\<close>, and launches the pipeline on Dataflow without
  waiting for it. The pipeline reads the train and eval queries and writes
  \<open>train.csv\<close> and \<open>eval.csv\<close> under the bucket's \<open>babyweight/preproc/\<close>, with the
  temporary and staging files below its \<open>tmp\<close>.
\<close>

theorem baby_preprocess_cloud:
  "plan_runner (baby_preprocess False now b p) = ''DataflowRunner'' \<and>
   plan_effects (baby_preprocess False now b p) =
     [Print (''Launching Dataflow job preprocess-babyweight-features-'' @ now @ '' ... hang on''),
      GsutilRm (''gs://'' @ b @ ''/babyweight/preproc/''), RunPipeline] \<and>
   plan_transforms (baby_preprocess False now b p) =
    [(''train_read'', ReadBigQuery (selquery_of ''train'' (beam_query_text False))),
     (''train_csv'', FlatMapToCsv),
     (''train_out'', WriteText (''gs://'' @ b @ ''/babyweight/preproc/train.csv'')),
     (''eval_read'', ReadBigQuery (selquery_of ''eval'' (beam_query_text False))),
     (''eval_csv'', FlatMapToCsv),
     (''eval_out'', WriteText (''gs://'' @ b @ ''/babyweight/preproc/eval.csv''))] \<and>
   plan_options (baby_preprocess False now b p) ''temp_location'' = Some (PStr (''gs://'' @ b @ ''/babyweight/preproc/tmp'')) \<and>
   plan_options (baby_preprocess False now b p) ''staging_location'' = Some (PStr (''gs://'' @ b @ ''/babyweight/preproc/tmp/staging''))"
proof -
  have t: "plan_transforms (baby_preprocess False now b p) =
    [(''train_read'', ReadBigQuery (selquery_of ''train'' (beam_query_text False))),
     (''train_csv'', FlatMapToCsv),
     (''train_out'', WriteText (''gs://'' @ b @ ''/babyweight/preproc/train.csv'')),
     (''eval_read'', ReadBigQuery (selquery_of ''eval'' (beam_query_text False))),
     (''eval_csv'', FlatMapToCsv),
     (''eval_out'', WriteText (''gs://'' @ b @ ''/babyweight/preproc/eval.csv''))]"
    unfolding baby_transforms_eq baby_output_dir by (simp add: path_join_def)
  show ?thesis using t by (simp add: baby_preprocess_def Let_def path_join_def)
qed

text \<open>
  In test mode, \<open>preprocess\<close> recreates the local \<open>./preproc\<close>
  directory, runs the pipeline with the \<open>DirectRunner\<close>, waits for it and prints
  \<open>Done!\<close>.
\<close>

theorem baby_preprocess_test_mode:
  "plan_runner (baby_preprocess True now b p) = ''DirectRunner'' \<and>
   plan_effects (baby_preprocess True now b p) =
     [Print ''Launching local job ... hang on'', RmTree ''./preproc'', MakeDirs ''./preproc'',
      RunPipeline, WaitUntilFinish, Print ''Done!'']"
  by (simp add: baby_preprocess_def Let_def)


lemma split_where_eval:
  "0 \<le> h \<Longrightarrow> split_where step h =
     Inr (if step = ''train'' then h mod 100 < 80
          else if step = ''eval'' then 80 \<le> h mod 100 \<and> h mod 100 < 90 else 90 \<le> h mod 100)"
  by (simp add: split_where_def sql_mod_nonneg)

lemma beam_read_eval:
  assumes "\<forall>r \<in> set rows. beam_where r \<longrightarrow> hashmonth fp r = Inr (H r)"
  shows "beam_read fp step rows =
    Inr (map (\<lambda>r. beam_rowdict r (H r)) (filter (\<lambda>r. beam_where r \<and> split_where step (H r) = Inr True) rows))"
proof -
  have inner: "beam_inner fp rows = Inr (map (\<lambda>r. (r, H r)) (filter beam_where rows))"
    unfolding beam_inner_def by (rule map_result_Inr) (use assms in auto)
  have tot: "\<forall>x \<in> set (map (\<lambda>r. (r, H r)) (filter beam_where rows)). \<exists>b. (\<lambda>(r, h). split_where step h) x = Inr b"
    using assms hashmonth_nonneg by (auto simp: split_where_eval)
  show ?thesis
    using sql_where_total [OF tot] inner
    by (simp add: beam_read_def filter_map o_def)
qed

text \<open>
  C4: When every kept row's hash can be computed, the train and eval reads
  both succeed and together hold each row of the query whose \<open>MOD(hashmonth, 100)\<close>
  is below 90 exactly once: the rows of the last tenth, selected by the \<open>else\<close>
  branch of the query chain, are read by no step.
\<close>

theorem beam_steps_cover:
  assumes "\<forall>r \<in> set rows. beam_where r \<longrightarrow> hashmonth fp r = Inr (H r)"
  shows "\<exists>tr ev. beam_read fp ''train'' rows = Inr tr \<and> beam_read fp ''eval'' rows = Inr ev \<and>
    mset tr + mset ev = mset (map (\<lambda>r. beam_rowdict r (H r)) (filter (\<lambda>r. beam_where r \<and> H r mod 100 < 90) rows))"
proof -
  have nn: "\<forall>r \<in> set rows. beam_where r \<longrightarrow> 0 \<le> H r"
    using assms hashmonth_nonneg by blast
  let ?T = "\<lambda>r. beam_where r \<and> split_where ''train'' (H r) = Inr True"
  let ?E = "\<lambda>r. beam_where r \<and> split_where ''eval'' (H r) = Inr True"
  have "mset (filter ?T rows) + mset (filter ?E rows) = mset (filter (\<lambda>r. ?T r \<or> ?E r) rows)"
    by (rule mset_filter_disj) (use nn in \<open>auto simp: split_where_eval\<close>)
  also have "filter (\<lambda>r. ?T r \<or> ?E r) rows = filter (\<lambda>r. beam_where r \<and> H r mod 100 < 90) rows"
    by (rule filter_cong) (use nn in \<open>auto simp: split_where_eval\<close>)
  finally have "image_mset (\<lambda>r. beam_rowdict r (H r)) (mset (filter ?T rows) + mset (filter ?E rows)) =
      image_mset (\<lambda>r. beam_rowdict r (H r)) (mset (filter (\<lambda>r. beam_where r \<and> H r mod 100 < 90) rows))"
    by simp
  then show ?thesis by (simp add: beam_read_eval [OF assms] mset_map)
qed

lemma baby_to_csv_beam_rowdict:
  "baby_to_csv fr (beam_rowdict r h) =
    bindE (py_getitem plurality_labels (plurality r - 1))
      (\<lambda>label. Inr [csv_line fr (no_ultrasound_of (beam_rowdict r h) (plurality r)),
                    csv_line fr ((beam_rowdict r h)(''plurality'' \<mapsto> PStr label))])"
  by (rule baby_to_csv_PInt) (simp add: beam_rowdict_def)

text \<open>
  When every kept row's hash can be computed and its plurality is at
  most 5, a step writes exactly two lines per row it reads.
\<close>

theorem run_step_lines:
  assumes "\<forall>r \<in> set rows. beam_where r \<longrightarrow> hashmonth fp r = Inr (H r) \<and> plurality r \<le> 5"
  shows "\<exists>lines. run_step fr fp step rows = Inr lines \<and>
    length lines = 2 * length (filter (\<lambda>r. beam_where r \<and> split_where step (H r) = Inr True) rows)"
proof -
  let ?rs = "filter (\<lambda>r. beam_where r \<and> split_where step (H r) = Inr True) rows"
  have read: "beam_read fp step rows = Inr (map (\<lambda>r. beam_rowdict r (H r)) ?rs)"
    by (rule beam_read_eval) (use assms in blast)
  have two: "baby_to_csv fr (beam_rowdict r (H r)) =
      Inr [csv_line fr (no_ultrasound_of (beam_rowdict r (H r)) (plurality r)),
           csv_line fr ((beam_rowdict r (H r))(''plurality'' \<mapsto> PStr (plurality_labels ! nat (plurality r - 1))))]"
    if "r \<in> set ?rs" for r
    using that assms by (auto simp: baby_to_csv_beam_rowdict plurality_labels_index beam_where_def)
  let ?L = "\<lambda>r. [csv_line fr (no_ultrasound_of (beam_rowdict r (H r)) (plurality r)),
           csv_line fr ((beam_rowdict r (H r))(''plurality'' \<mapsto> PStr (plurality_labels ! nat (plurality r - 1))))]"
  have "map_result (baby_to_csv fr) (map (\<lambda>r. beam_rowdict r (H r)) ?rs) = Inr (map ?L ?rs)"
    by (rule map_result_map) (use two in blast)
  with read have "run_step fr fp step rows = Inr (concat (map ?L ?rs))"
    by (simp add: run_step_def)
  moreover have "length (concat (map ?L ?rs)) = 2 * length ?rs"
    by (rule length_concat_pairs)
  ultimately show ?thesis by blast
qed


lemma baby_to_csv_beam_error: "baby_to_csv fr (beam_rowdict r h) = Inl e \<Longrightarrow> e = IndexError"
  by (cases "plurality r - 1 < -5 \<or> 5 \<le> plurality r - 1")
     (simp_all add: baby_to_csv_beam_rowdict plurality_labels_index)

text \<open>
  C23: One kept row of the step with a plurality above 5 fails the whole
  step with \<open>IndexError\<close>.
\<close>

theorem run_step_index_error:
  assumes "\<forall>r \<in> set rows. beam_where r \<longrightarrow> hashmonth fp r = Inr (H r)"
    and "r \<in> set rows" "beam_where r" "split_where step (H r) = Inr True" "5 < plurality r"
  shows "run_step fr fp step rows = Inl IndexError"
proof -
  let ?rs = "filter (\<lambda>r. beam_where r \<and> split_where step (H r) = Inr True) rows"
  let ?ds = "map (\<lambda>r. beam_rowdict r (H r)) ?rs"
  have read: "beam_read fp step rows = Inr ?ds"
    by (rule beam_read_eval [OF assms(1)])
  have bad: "baby_to_csv fr (beam_rowdict r (H r)) = Inl IndexError"
    using assms(5) by (simp add: baby_to_csv_beam_rowdict plurality_labels_index)
  have "r \<in> set ?rs" using assms(2-4) by (simp only: set_filter mem_Collect_eq simp_thms)
  then have mem: "beam_rowdict r (H r) \<in> set ?ds" unfolding set_map by (rule imageI)
  obtain e where e: "map_result (baby_to_csv fr) ?ds = Inl e"
    using map_result_Inl_some [where f = "baby_to_csv fr", OF mem bad] by (elim exE)
  obtain d where "d \<in> set ?ds" "baby_to_csv fr d = Inl e"
    using map_result_Inl [OF e] by (elim bexE)
  then have "e = IndexError" by (auto intro: baby_to_csv_beam_error)
  with e read show ?thesis by (simp add: run_step_def)
qed

section \<open>Witnesses\<close>

theorem beam_steps_cover_witness:
  "\<exists>tr ev. beam_read (\<lambda>_. 7) ''train'' [example_birth] = Inr tr \<and>
     beam_read (\<lambda>_. 7) ''eval'' [example_birth] = Inr ev \<and>
     mset tr + mset ev =
       mset (map (\<lambda>r. beam_rowdict r 7) (filter (\<lambda>r. beam_where r \<and> (7::int) mod 100 < 90) [example_birth]))"
proof -
  have h: "\<forall>r \<in> set [example_birth]. beam_where r \<longrightarrow> hashmonth (\<lambda>_. 7) r = Inr ((\<lambda>_. 7) r)"
    by (simp add: hashmonth_def sql_abs_def int64_min_def)
  show ?thesis using beam_steps_cover [OF h] by simp
qed

theorem run_step_lines_witness:
  "\<exists>lines. run_step example_repr (\<lambda>_. 7) ''train'' [example_birth] = Inr lines \<and>
     length lines = 2 * length (filter (\<lambda>r. beam_where r \<and> split_where ''train'' 7 = Inr True) [example_birth])"
proof -
  have h: "\<forall>r \<in> set [example_birth]. beam_where r \<longrightarrow> hashmonth (\<lambda>_. 7) r = Inr ((\<lambda>_. 7) r) \<and> plurality r \<le> 5"
    by (simp add: hashmonth_def sql_abs_def int64_min_def example_birth_def)
  show ?thesis using run_step_lines [OF h] by simp
qed

theorem run_step_index_error_witness:
  "run_step example_repr (\<lambda>_. 7) ''train'' [example_birth\<lparr>plurality := 6\<rparr>] = Inl IndexError"
proof -
  have h: "\<forall>r \<in> set [example_birth\<lparr>plurality := 6\<rparr>]. beam_where r \<longrightarrow> hashmonth (\<lambda>_. 7) r = Inr ((\<lambda>_. 7) r)"
    by (simp add: hashmonth_def sql_abs_def int64_min_def)
  have w: "beam_where (example_birth\<lparr>plurality := 6\<rparr>)"
    by (simp add: beam_where_def example_birth_def)
  have s: "split_where ''train'' ((\<lambda>_. 7) (example_birth\<lparr>plurality := 6\<rparr>)) = Inr True"
    by (simp add: split_where_def sql_mod_def)
  show ?thesis by (rule run_step_index_error [OF h _ w s]) simp_all
qed

end
