(* ===== verification/BqProject.thy ===== *)
theory BqProject
  imports BigQuery Gcs
begin

text \<open>
  The state of a BigQuery project as the BigQuery ML cells of the notebooks change and
  read it: its datasets and the models stored in them. Creating a dataset fails when
  it exists or when the caller may not create it; \<open>CREATE OR REPLACE MODEL\<close> needs its
  dataset and its label columns among the training query's columns, and stores the
  model with the training rows; \<open>ML.TRAINING_INFO\<close> and \<open>ML.PREDICT\<close> need the model.
  What training computes is not modelled: the statistics \<open>ML.TRAINING_INFO\<close> reports and
  the values \<open>ML.PREDICT\<close> predicts are functions of the stored model, given as
  parameters \<open>info\<close> and \<open>predict\<close>.
\<close>

section \<open>Definitions\<close>

record bq_model =
  model_type :: string
  model_labels :: "string list"
  model_features :: "string list"
  model_data :: "sqlrow list"

text \<open>A model is named by its dataset and its name in the dataset.\<close>

type_synonym model_name = "string \<times> string"

text \<open>A table is named by its dataset and its name; it holds its column names and rows.\<close>

type_synonym table_name = "string \<times> string"

record bq_project =
  bq_datasets :: "string set"
  bq_models :: "model_name \<rightharpoonup> bq_model"
  bq_tables :: "table_name \<rightharpoonup> string list \<times> sqlrow list"

text \<open>
  \<open>create_dataset\<close> of the Python client and \<open>bq mk -d\<close>; \<open>allowed\<close> says whether the
  credentials permit the creation.
\<close>

definition create_dataset :: "bool \<Rightarrow> string \<Rightarrow> bq_project \<Rightarrow> bq_project result" where
  "create_dataset allowed ds st =
     (if \<not> allowed then Inl (Forbidden ds)
      else if ds \<in> bq_datasets st then Inl (AlreadyExists ds)
      else Inr (st\<lparr>bq_datasets := insert ds (bq_datasets st)\<rparr>))"

text \<open>
  \<open>CREATE OR REPLACE MODEL ds.m OPTIONS(model_type = t, input_label_cols = labels) AS q\<close>,
  where \<open>cols\<close> are the columns of \<open>q\<close> and \<open>data\<close> its result.
\<close>

definition create_or_replace_model ::
  "model_name \<Rightarrow> string \<Rightarrow> string list \<Rightarrow> string list \<Rightarrow> sqlrow list result \<Rightarrow> bq_project \<Rightarrow> bq_project result" where
  "create_or_replace_model name mtype labels cols data st =
     (if fst name \<notin> bq_datasets st then Inl (NotFound (fst name))
      else case find (\<lambda>l. l \<notin> set cols) labels of
        Some l \<Rightarrow> Inl (UnrecognizedName l)
      | None \<Rightarrow> bindE data (\<lambda>rows.
          Inr (st\<lparr>bq_models := (bq_models st)(name \<mapsto>
            \<lparr>model_type = mtype, model_labels = labels,
             model_features = filter (\<lambda>c. c \<notin> set labels) cols, model_data = rows\<rparr>)\<rparr>)))"

text \<open>\<open>SELECT * FROM ML.TRAINING_INFO(MODEL ds.m)\<close>.\<close>

definition training_info :: "(bq_model \<Rightarrow> sqlrow list) \<Rightarrow> model_name \<Rightarrow> bq_project \<Rightarrow> sqlrow list result" where
  "training_info info name st =
     (case bq_models st name of None \<Rightarrow> Inl (NotFound (snd name)) | Some m \<Rightarrow> Inr (info m))"

text \<open>
  \<open>ML.PREDICT(MODEL ds.m, (q))\<close>: each input row must have every feature column of the
  model; the output row is \<open>predicted_<label>\<close> followed by the input row.
\<close>

definition ml_predict ::
  "(bq_model \<Rightarrow> sqlrow \<Rightarrow> real) \<Rightarrow> model_name \<Rightarrow> sqlrow list \<Rightarrow> bq_project \<Rightarrow> sqlrow list result" where
  "ml_predict predict name input st =
     (case bq_models st name of
        None \<Rightarrow> Inl (NotFound (snd name))
      | Some m \<Rightarrow> map_result (\<lambda>row.
          case find (\<lambda>c. map_of row c = None) (model_features m) of
            Some c \<Rightarrow> Inl (UnrecognizedName c)
          | None \<Rightarrow> Inr ((''predicted_'' @ hd (model_labels m), SFloat (predict m row)) # row)) input)"

text \<open>The \<open>write_disposition\<close> of a query job with a destination table.\<close>

datatype write_disposition = WriteTruncate | WriteAppend | WriteEmpty

text \<open>
  A query job writing its result \<open>data\<close>, with columns \<open>cols\<close>, to table \<open>dest\<close>:
  \<open>WRITE_TRUNCATE\<close> replaces the table, \<open>WRITE_APPEND\<close> appends to it, \<open>WRITE_EMPTY\<close>
  fails on a table with rows. A failing query leaves the table as it was.
\<close>

definition query_to_table ::
  "write_disposition \<Rightarrow> table_name \<Rightarrow> string list \<Rightarrow> sqlrow list result \<Rightarrow> bq_project \<Rightarrow> bq_project result" where
  "query_to_table disp dest cols data st =
     (if fst dest \<notin> bq_datasets st then Inl (NotFound (fst dest))
      else bindE data (\<lambda>rows.
        case (disp, bq_tables st dest) of
          (WriteAppend, Some (c, old)) \<Rightarrow> Inr (st\<lparr>bq_tables := (bq_tables st)(dest \<mapsto> (c, old @ rows))\<rparr>)
        | (WriteEmpty, Some (c, old)) \<Rightarrow>
            if old = [] then Inr (st\<lparr>bq_tables := (bq_tables st)(dest \<mapsto> (cols, rows))\<rparr>)
            else Inl (AlreadyExists (snd dest))
        | _ \<Rightarrow> Inr (st\<lparr>bq_tables := (bq_tables st)(dest \<mapsto> (cols, rows))\<rparr>)))"

text \<open>
  CSV export of a value: a STRING is quoted when it holds a comma, a quote or a line
  break, with quotes doubled; a BOOL prints as \<open>true\<close>/\<open>false\<close>; NULL prints as nothing.
\<close>

definition csv_quote :: "string \<Rightarrow> string" where
  "csv_quote s =
     (if CHR '','' \<in> set s \<or> CHR ''\"'' \<in> set s \<or> CHR 10 \<in> set s
      then ''\"'' @ concat (map (\<lambda>c. if c = CHR ''\"'' then ''\"\"'' else [c]) s) @ ''\"''
      else s)"

fun bq_csv_field :: "float_repr \<Rightarrow> sqlval \<Rightarrow> string" where
  "bq_csv_field fr (SInt i) = show_int i"
| "bq_csv_field fr (SFloat x) = fr x"
| "bq_csv_field fr (SStr s) = csv_quote s"
| "bq_csv_field fr (SBool b) = cast_bool_string b"
| "bq_csv_field fr (STime t) = t"
| "bq_csv_field fr SNull = []"

definition bq_csv_line :: "float_repr \<Rightarrow> sqlrow \<Rightarrow> string" where
  "bq_csv_line fr row = py_join '','' (map (\<lambda>(c, v). bq_csv_field fr v) row)"

text \<open>
  \<open>client.extract_table(table, uri)\<close> with the default CSV format: a header line of
  the column names, then one line per row, written to the URI with its \<open>*\<close> replaced
  by the shard number; a table under 1 GB is one shard, \<open>000000000000\<close>.
\<close>

definition extract_table ::
  "float_repr \<Rightarrow> table_name \<Rightarrow> string \<Rightarrow> bq_project \<Rightarrow> gcs_state \<Rightarrow> gcs_state result" where
  "extract_table fr tbl uri st g =
     (case bq_tables st tbl of
        None \<Rightarrow> Inl (NotFound (snd tbl))
      | Some (cols, rows) \<Rightarrow>
          Inr (gcs_write (py_replace uri ''*'' ''000000000000'') (py_join '','' cols # map (bq_csv_line fr) rows) g))"

text \<open>The operations that change the project, as one step function.\<close>

datatype bq_op =
    OpCreateDataset bool string
  | OpCreateModel model_name string "string list" "string list" "sqlrow list result"
  | OpQueryToTable write_disposition table_name "string list" "sqlrow list result"

fun bq_apply :: "bq_op \<Rightarrow> bq_project \<Rightarrow> bq_project result" where
  "bq_apply (OpCreateDataset a ds) st = create_dataset a ds st"
| "bq_apply (OpCreateModel n t ls cs d) st = create_or_replace_model n t ls cs d st"
| "bq_apply (OpQueryToTable w dest cs d) st = query_to_table w dest cs d st"

text \<open>A fresh project, and the projects reachable from it; a failed operation changes nothing.\<close>

definition bq_empty :: bq_project where
  "bq_empty = \<lparr>bq_datasets = {}, bq_models = Map.empty, bq_tables = Map.empty\<rparr>"

inductive bq_reach :: "bq_project \<Rightarrow> bool" where
  init: "bq_reach bq_empty"
| step: "bq_reach st \<Longrightarrow> bq_apply op st = Inr st' \<Longrightarrow> bq_reach st'"

text \<open>The project invariant: every model and every table lives in an existing dataset.\<close>

definition bq_wf :: "bq_project \<Rightarrow> bool" where
  "bq_wf st \<longleftrightarrow> (\<forall>n m. bq_models st n = Some m \<longrightarrow> fst n \<in> bq_datasets st)
     \<and> (\<forall>n t. bq_tables st n = Some t \<longrightarrow> fst n \<in> bq_datasets st)"

section \<open>Properties\<close>

lemma keys_in_upd:
  assumes "\<forall>n t. M n = Some t \<longrightarrow> fst n \<in> D" "fst k \<in> D"
  shows "\<forall>n t. (M(k \<mapsto> v)) n = Some t \<longrightarrow> fst n \<in> D"
proof (intro allI impI)
  fix n t assume a: "(M(k \<mapsto> v)) n = Some t"
  show "fst n \<in> D"
  proof (cases "n = k")
    case True
    with assms(2) show ?thesis by simp
  next
    case False
    with a have "M n = Some t" by simp
    with assms(1) show ?thesis by blast
  qed
qed

lemma keys_in_mono:
  "\<forall>n t. M n = Some t \<longrightarrow> fst n \<in> D \<Longrightarrow> \<forall>n t. M n = Some t \<longrightarrow> fst n \<in> insert d D"
  by blast

lemma bq_wf_parts:
  assumes "bq_wf st"
  shows "\<forall>n m. bq_models st n = Some m \<longrightarrow> fst n \<in> bq_datasets st"
    and "\<forall>n t. bq_tables st n = Some t \<longrightarrow> fst n \<in> bq_datasets st"
  using assms unfolding bq_wf_def by blast+

lemma create_dataset_wf:
  assumes "bq_wf st" "create_dataset a ds st = Inr st'"
  shows "bq_wf st'"
proof -
  from assms(2) have st: "bq_models st' = bq_models st" "bq_tables st' = bq_tables st"
      "bq_datasets st' = insert ds (bq_datasets st)"
    by (auto simp: create_dataset_def split: if_splits)
  show ?thesis unfolding bq_wf_def st
    using keys_in_mono [OF bq_wf_parts(1) [OF assms(1)]] keys_in_mono [OF bq_wf_parts(2) [OF assms(1)]]
    by (intro conjI) assumption+
qed

lemma create_model_wf:
  assumes "bq_wf st" "create_or_replace_model name t ls cs d st = Inr st'"
  shows "bq_wf st'"
proof -
  from assms(2) obtain m where ds: "fst name \<in> bq_datasets st"
      and st: "bq_models st' = (bq_models st)(name \<mapsto> m)" "bq_tables st' = bq_tables st"
      "bq_datasets st' = bq_datasets st"
    by (auto simp: create_or_replace_model_def bindE_def split: if_splits option.splits sum.splits)
  show ?thesis unfolding bq_wf_def st
    using keys_in_upd [OF bq_wf_parts(1) [OF assms(1)] ds] bq_wf_parts(2) [OF assms(1)]
    by (intro conjI) assumption+
qed

lemma query_to_table_shape:
  assumes "query_to_table w dest cs d st = Inr st'"
  shows "fst dest \<in> bq_datasets st \<and> (\<exists>t. st' = st\<lparr>bq_tables := (bq_tables st)(dest \<mapsto> t)\<rparr>)"
proof (cases "fst dest \<in> bq_datasets st")
  case False
  with assms show ?thesis by (simp add: query_to_table_def)
next
  case True
  from assms True obtain rows where d: "d = Inr rows"
    by (cases d) (simp_all add: query_to_table_def)
  show ?thesis
  proof (cases w)
    case WriteTruncate
    with assms True d show ?thesis by (auto simp: query_to_table_def split: option.splits)
  next
    case WriteAppend
    with assms True d show ?thesis by (auto simp: query_to_table_def split: option.splits)
  next
    case WriteEmpty
    with assms True d show ?thesis by (force simp: query_to_table_def split: option.splits if_splits)
  qed
qed

lemma query_to_table_wf:
  assumes "bq_wf st" "query_to_table w dest cs d st = Inr st'"
  shows "bq_wf st'"
proof -
  from query_to_table_shape [OF assms(2)] obtain t where ds: "fst dest \<in> bq_datasets st"
      and "st' = st\<lparr>bq_tables := (bq_tables st)(dest \<mapsto> t)\<rparr>" by blast
  then have st: "bq_models st' = bq_models st" "bq_tables st' = (bq_tables st)(dest \<mapsto> t)"
      "bq_datasets st' = bq_datasets st" by simp_all
  show ?thesis unfolding bq_wf_def st
    using bq_wf_parts(1) [OF assms(1)] keys_in_upd [OF bq_wf_parts(2) [OF assms(1)] ds]
    by (intro conjI) assumption+
qed

lemma bq_apply_wf: "bq_wf st \<Longrightarrow> bq_apply op st = Inr st' \<Longrightarrow> bq_wf st'"
  by (cases op) (auto intro: create_dataset_wf create_model_wf query_to_table_wf)

text \<open>
  Every project reachable from a fresh one by the modelled operations keeps every
  model and every table inside an existing dataset.
\<close>

theorem bq_reach_wf: "bq_reach st \<Longrightarrow> bq_wf st"
proof (induction rule: bq_reach.induct)
  case init
  show ?case by (simp add: bq_wf_def bq_empty_def)
next
  case (step st op st')
  from step.IH step.hyps(2) show ?case by (rule bq_apply_wf)
qed

lemma create_model_Inr:
  assumes "fst name \<in> bq_datasets st" "set labels \<subseteq> set cols" "data = Inr rows"
  shows "create_or_replace_model name t labels cols data st =
    Inr (st\<lparr>bq_models := (bq_models st)(name \<mapsto>
      \<lparr>model_type = t, model_labels = labels,
       model_features = filter (\<lambda>c. c \<notin> set labels) cols, model_data = rows\<rparr>)\<rparr>)"
proof -
  have "find (\<lambda>l. l \<notin> set cols) labels = None" using assms(2) by (auto simp: find_None_iff)
  with assms show ?thesis by (simp add: create_or_replace_model_def)
qed

lemma ml_predict_Inr:
  assumes "bq_models st name = Some m" "\<forall>row \<in> set input. \<forall>c \<in> set (model_features m). map_of row c \<noteq> None"
  shows "ml_predict predict name input st =
    Inr (map (\<lambda>row. (''predicted_'' @ hd (model_labels m), SFloat (predict m row)) # row) input)"
proof -
  have "find (\<lambda>c. map_of row c = None) (model_features m) = None" if "row \<in> set input" for row
    using assms(2) that by (auto simp: find_None_iff)
  then show ?thesis using assms(1) unfolding ml_predict_def by (auto intro: map_result_Inr)
qed

end
