(* ===== verification/BqPreprocess.thy ===== *)
theory BqPreprocess
  imports BabyPipeline BqProject
begin

text \<open>
  The BigQuery preprocessing path of \<open>part_000\<close>, the alternative to the Beam
  pipeline: the preview query, the query that unions the ultrasound and no-ultrasound
  rows (\<open>CTE_Raw_Data\<close> and two \<open>SELECT\<close>s with \<open>CASE\<close> on the plurality), the cell that
  creates the temporary dataset, the loop that writes each step's split to a table with
  \<open>WRITE_TRUNCATE\<close>, and the loop that exports each table to CSV files in the bucket.
  The cells change a \<open>bq_project\<close> and a \<open>gcs_state\<close>; each loop stops at its first
  exception, as Python does, keeping what the earlier iterations did.
\<close>

section \<open>Definitions\<close>

text \<open>The saved query of section ``Save the query from earlier'' and its \<open>LIMIT 100\<close> preview.\<close>

definition query_string :: string where
  "query_string = ''

SELECT
    weight_pounds,
    is_male,
    mother_age,
    plurality,
    gestation_weeks,
    ABS(FARM_FINGERPRINT(CONCAT(CAST(YEAR AS STRING), CAST(month AS STRING)))) AS hashmonth
FROM
    publicdata.samples.natality
WHERE
    year > 2000
''"

definition raw_cols :: "natality \<Rightarrow> int \<Rightarrow> sqlrow" where
  "raw_cols r h =
     [(''weight_pounds'', SFloat (weight_pounds r)),
      (''is_male'', SBool (is_male r)),
      (''mother_age'', SInt (mother_age r)),
      (''plurality'', SInt (plurality r)),
      (''gestation_weeks'', SInt (gestation_weeks r)),
      (''hashmonth'', SInt h)]"

definition preview_result :: "fingerprint \<Rightarrow> natality list \<Rightarrow> sqlrow list result \<Rightarrow> bool" where
  "preview_result fp rows out \<longleftrightarrow>
     sql_limit_res 100
       (map_result (\<lambda>r. bindE (hashmonth fp r) (\<lambda>h. Inr (raw_cols r h))) (filter (\<lambda>r. year r > 2000) rows))
       out"

text \<open>The union query of section ``Preprocessing with BigQuery''.\<close>

definition bq_query_text :: string where
  "bq_query_text = ''

WITH CTE_Raw_Data AS (
SELECT
  weight_pounds,
  CAST(is_male AS STRING) AS is_male,
  mother_age,
  plurality,
  gestation_weeks,
  ABS(FARM_FINGERPRINT(CONCAT(CAST(YEAR AS STRING), CAST(month AS STRING)))) AS hashmonth
FROM
  publicdata.samples.natality
WHERE
  year > 2000
  AND weight_pounds > 0
  AND mother_age > 0
  AND plurality > 0
  AND gestation_weeks > 0
  AND month > 0)

-- Ultrasound
SELECT
  weight_pounds,
  is_male,
  mother_age,
  CASE
    WHEN plurality = 1 THEN \"Single(1)\"
    WHEN plurality = 2 THEN \"Twins(2)\"
    WHEN plurality = 3 THEN \"Triplets(3)\"
    WHEN plurality = 4 THEN \"Quadruplets(4)\"
    WHEN plurality = 5 THEN \"Quintuplets(5)\"
    ELSE \"NULL\"
  END AS plurality,
  gestation_weeks,
  hashmonth
FROM
  CTE_Raw_Data
UNION ALL
-- No ultrasound
SELECT
  weight_pounds,
  \"Unknown\" AS is_male,
  mother_age,
  CASE
    WHEN plurality = 1 THEN \"Single(1)\"
    WHEN plurality > 1 THEN \"Multiple(2+)\"
  END AS plurality,
  gestation_weeks,
  hashmonth
FROM
    CTE_Raw_Data
''"

text \<open>\<open>CTE_Raw_Data\<close>: the Beam query's rows with \<open>is_male\<close> cast to a string.\<close>

definition cte_raw_cols :: "natality \<Rightarrow> int \<Rightarrow> sqlrow" where
  "cte_raw_cols r h =
     [(''weight_pounds'', SFloat (weight_pounds r)),
      (''is_male'', SStr (cast_bool_string (is_male r))),
      (''mother_age'', SInt (mother_age r)),
      (''plurality'', SInt (plurality r)),
      (''gestation_weeks'', SInt (gestation_weeks r)),
      (''hashmonth'', SInt h)]"

definition cte_raw_data :: "fingerprint \<Rightarrow> natality list \<Rightarrow> sqlrow list result" where
  "cte_raw_data fp rows =
     map_result (\<lambda>r. bindE (hashmonth fp r) (\<lambda>h. Inr (cte_raw_cols r h))) (filter beam_where rows)"

text \<open>The \<open>CASE\<close> of the ultrasound rows: an unmatched plurality gives the string \<open>"NULL"\<close>.\<close>

definition plurality_when :: "int \<Rightarrow> string" where
  "plurality_when p =
     (if p = 1 then ''Single(1)'' else if p = 2 then ''Twins(2)''
      else if p = 3 then ''Triplets(3)'' else if p = 4 then ''Quadruplets(4)''
      else if p = 5 then ''Quintuplets(5)'' else ''NULL'')"

fun plurality_case :: "sqlval \<Rightarrow> sqlval result" where
  "plurality_case (SInt p) = Inr (SStr (plurality_when p))"
| "plurality_case SNull = Inr (SStr ''NULL'')"
| "plurality_case _ = Inl TypeError"

text \<open>The \<open>CASE\<close> of the no-ultrasound rows, which has no \<open>ELSE\<close>: an unmatched plurality is NULL.\<close>

definition plurality_when_nous :: "int \<Rightarrow> sqlval" where
  "plurality_when_nous p = (if p = 1 then SStr ''Single(1)'' else if p > 1 then SStr ''Multiple(2+)'' else SNull)"

fun plurality_case_nous :: "sqlval \<Rightarrow> sqlval result" where
  "plurality_case_nous (SInt p) = Inr (plurality_when_nous p)"
| "plurality_case_nous SNull = Inr SNull"
| "plurality_case_nous _ = Inl TypeError"

text \<open>The two \<open>SELECT\<close>s over \<open>CTE_Raw_Data\<close>, on one row of it.\<close>

definition ultrasound_sel :: "sqlrow \<Rightarrow> sqlrow result" where
  "ultrasound_sel row =
     bindE (sql_project [''weight_pounds'', ''is_male'', ''mother_age''] row) (\<lambda>a.
     bindE (bindE (sql_col row ''plurality'') plurality_case) (\<lambda>p.
     bindE (sql_project [''gestation_weeks'', ''hashmonth''] row) (\<lambda>b.
     Inr (a @ [(''plurality'', p)] @ b))))"

definition no_ultrasound_sel :: "sqlrow \<Rightarrow> sqlrow result" where
  "no_ultrasound_sel row =
     bindE (sql_project [''weight_pounds''] row) (\<lambda>a.
     bindE (sql_project [''mother_age''] row) (\<lambda>m.
     bindE (bindE (sql_col row ''plurality'') plurality_case_nous) (\<lambda>p.
     bindE (sql_project [''gestation_weeks'', ''hashmonth''] row) (\<lambda>b.
     Inr (a @ [(''is_male'', SStr ''Unknown'')] @ m @ [(''plurality'', p)] @ b)))))"

text \<open>The whole query: the ultrasound rows \<open>UNION ALL\<close> the no-ultrasound rows.\<close>

definition bq_union :: "fingerprint \<Rightarrow> natality list \<Rightarrow> sqlrow list result" where
  "bq_union fp rows =
     bindE (cte_raw_data fp rows) (\<lambda>xs.
     bindE (map_result ultrasound_sel xs) (\<lambda>a.
     bindE (map_result no_ultrasound_sel xs) (\<lambda>b. Inr (a @ b))))"

definition bq_columns :: "string list" where
  "bq_columns = [''weight_pounds'', ''is_male'', ''mother_age'', ''plurality'', ''gestation_weeks'', ''hashmonth'']"

text \<open>The column types of the union: those of \<open>CTE_Raw_Data\<close>, with \<open>plurality\<close> a STRING.\<close>

definition bq_schema :: "(string \<times> sqltype) list" where
  "bq_schema = [(''weight_pounds'', TFloat64), (''is_male'', TString), (''mother_age'', TInt64),
                (''plurality'', TString), (''gestation_weeks'', TInt64), (''hashmonth'', TInt64)]"

text \<open>A step's \<open>SELECT * FROM (query) WHERE MOD(hashmonth, 100) ...\<close>.\<close>

definition hash_split_where :: "string \<Rightarrow> sqlrow \<Rightarrow> bool result" where
  "hash_split_where step row =
     bindE (sql_col row ''hashmonth'') (\<lambda>v. case v of SInt h \<Rightarrow> split_where step h | _ \<Rightarrow> Inl TypeError)"

definition bq_selquery :: "fingerprint \<Rightarrow> string \<Rightarrow> natality list \<Rightarrow> sqlrow list result" where
  "bq_selquery fp step rows = bindE (bq_union fp rows) (sql_where (hash_split_where step))"

text \<open>The temporary dataset cell: a bare \<open>except\<close> reports every failure as ``already exists''.\<close>

definition temp_dataset_name :: string where
  "temp_dataset_name = ''temp_babyweight_dataset''"

definition temp_dataset_cell :: "bool \<Rightarrow> string \<Rightarrow> bq_project \<Rightarrow> bq_project \<times> string" where
  "temp_dataset_cell allowed project st =
     (case create_dataset allowed temp_dataset_name st of
        Inr st' \<Rightarrow> (st', ''Created dataset '' @ project @ ''.'' @ temp_dataset_name)
      | Inl e \<Rightarrow> (st, ''Dataset '' @ project @ ''.'' @ temp_dataset_name @ '' already exists''))"

text \<open>The table loop over \<open>["train", "eval"]\<close>: one query job per step into \<open>babyweight_<step>\<close>.\<close>

definition bq_steps :: "string list" where
  "bq_steps = [''train'', ''eval'']"

definition table_step :: "fingerprint \<Rightarrow> natality list \<Rightarrow> string \<Rightarrow> bq_project \<Rightarrow> string \<Rightarrow> (bq_project \<times> string) result" where
  "table_step fp rows project st step =
     (let selquery = selquery_of step bq_query_text;
          table_name = ''babyweight_'' @ step
      in bindE (query_to_table WriteTruncate (temp_dataset_name, table_name) bq_columns (bq_selquery fp step rows) st)
           (\<lambda>st'. Inr (st', ''Query results loaded to table '' @ ''/projects/'' @ project @ ''/datasets/''
                          @ temp_dataset_name @ ''/tables/'' @ table_name)))"

definition table_cell :: "fingerprint \<Rightarrow> natality list \<Rightarrow> string \<Rightarrow> bq_project \<Rightarrow> bq_project \<times> string list \<times> error option" where
  "table_cell fp rows project st = run_steps (table_step fp rows project) bq_steps st"

text \<open>The export loop: each step's table to \<open>gs://BUCKET/babyweight/bq_data/<step>*.csv\<close>.\<close>

definition export_step ::
  "float_repr \<Rightarrow> string \<Rightarrow> string \<Rightarrow> bq_project \<Rightarrow> gcs_state \<Rightarrow> string \<Rightarrow> (gcs_state \<times> string) result" where
  "export_step fr BUCKET PROJECT st g step =
     (let destination_uri = ''gs://'' @ BUCKET @ ''/'' @ (''babyweight/bq_data/'' @ step @ ''*.csv'');
          table_name = ''babyweight_'' @ step
      in bindE (extract_table fr (temp_dataset_name, table_name) destination_uri st g)
           (\<lambda>g'. Inr (g', ''Exported '' @ PROJECT @ '':'' @ temp_dataset_name @ ''.'' @ table_name
                         @ '' to '' @ destination_uri)))"

definition export_cell ::
  "float_repr \<Rightarrow> string \<Rightarrow> string \<Rightarrow> bq_project \<Rightarrow> gcs_state \<Rightarrow> gcs_state \<times> string list \<times> error option" where
  "export_cell fr BUCKET PROJECT st g = run_steps (export_step fr BUCKET PROJECT st) bq_steps g"

text \<open>
  The two loops with their waits: \<open>query_job.result()\<close> and \<open>extract_job.result()\<close>
  block until the service finishes the step's job, then raise its error, if any.
  \<open>qfin step\<close> and \<open>xfin step\<close> are the polls at which the step's jobs are seen finished.
\<close>

definition table_cell_wait ::
  "(string \<Rightarrow> nat \<Rightarrow> bool) \<Rightarrow> fingerprint \<Rightarrow> natality list \<Rightarrow> string \<Rightarrow> bq_project \<Rightarrow>
     (bq_project \<times> string list \<times> error option) option" where
  "table_cell_wait qfin fp rows project st = run_steps_wait qfin (table_step fp rows project) bq_steps st"

definition export_cell_wait ::
  "(string \<Rightarrow> nat \<Rightarrow> bool) \<Rightarrow> float_repr \<Rightarrow> string \<Rightarrow> string \<Rightarrow> bq_project \<Rightarrow> gcs_state \<Rightarrow>
     (gcs_state \<times> string list \<times> error option) option" where
  "export_cell_wait xfin fr BUCKET PROJECT st g =
     run_steps_wait xfin (export_step fr BUCKET PROJECT st) bq_steps g"

text \<open>Example data for the witnesses: a project holding only the temporary dataset.\<close>

definition example_bq_state :: bq_project where
  "example_bq_state = bq_empty\<lparr>bq_datasets := {temp_dataset_name}\<rparr>"

section \<open>Properties\<close>

lemma ultrasound_sel_cte:
  "ultrasound_sel (cte_raw_cols r h) =
    Inr [(''weight_pounds'', SFloat (weight_pounds r)), (''is_male'', SStr (cast_bool_string (is_male r))),
         (''mother_age'', SInt (mother_age r)), (''plurality'', SStr (plurality_when (plurality r))),
         (''gestation_weeks'', SInt (gestation_weeks r)), (''hashmonth'', SInt h)]"
  by (simp add: ultrasound_sel_def cte_raw_cols_def sql_project_def sql_col_def)

lemma no_ultrasound_sel_cte:
  "no_ultrasound_sel (cte_raw_cols r h) =
    Inr [(''weight_pounds'', SFloat (weight_pounds r)), (''is_male'', SStr ''Unknown''),
         (''mother_age'', SInt (mother_age r)), (''plurality'', plurality_when_nous (plurality r)),
         (''gestation_weeks'', SInt (gestation_weeks r)), (''hashmonth'', SInt h)]"
  by (simp add: no_ultrasound_sel_def cte_raw_cols_def sql_project_def sql_col_def)

lemma bq_union_rows:
  assumes "\<forall>r \<in> set rows. beam_where r \<longrightarrow> hashmonth fp r = Inr (H r)"
  shows "\<exists>U. bq_union fp rows = Inr U \<and> length U = 2 * length (filter beam_where rows) \<and>
    (\<forall>x \<in> set U. \<exists>r \<in> set rows. beam_where r \<and> map_of x ''hashmonth'' = Some (SInt (H r)))"
proof -
  let ?F = "filter beam_where rows"
  have c: "cte_raw_data fp rows = Inr (map (\<lambda>r. cte_raw_cols r (H r)) ?F)"
    unfolding cte_raw_data_def by (rule hash_rows_eval [OF assms])
  have u: "map_result ultrasound_sel (map (\<lambda>r. cte_raw_cols r (H r)) ?F) =
      Inr (map (\<lambda>r. projr (ultrasound_sel (cte_raw_cols r (H r)))) ?F)"
    by (rule map_result_map) (simp add: ultrasound_sel_cte)
  have n: "map_result no_ultrasound_sel (map (\<lambda>r. cte_raw_cols r (H r)) ?F) =
      Inr (map (\<lambda>r. projr (no_ultrasound_sel (cte_raw_cols r (H r)))) ?F)"
    by (rule map_result_map) (simp add: no_ultrasound_sel_cte)
  show ?thesis
    using c u n by (auto simp: bq_union_def ultrasound_sel_cte no_ultrasound_sel_cte)
qed

lemma hash_split_where_eval:
  "map_of x ''hashmonth'' = Some (SInt h) \<Longrightarrow> 0 \<le> h \<Longrightarrow>
   hash_split_where step x =
     Inr (if step = ''train'' then h mod 100 < 80
          else if step = ''eval'' then 80 \<le> h mod 100 \<and> h mod 100 < 90 else 90 \<le> h mod 100)"
  by (simp add: hash_split_where_def sql_col_def split_where_eval)

lemma bq_selquery_eval:
  assumes "bq_union fp rows = Inr U" "\<forall>x \<in> set U. \<exists>h. map_of x ''hashmonth'' = Some (SInt h) \<and> 0 \<le> h"
  shows "bq_selquery fp step rows = Inr (filter (\<lambda>x. hash_split_where step x = Inr True) U)"
proof -
  have "\<forall>x \<in> set U. \<exists>b. hash_split_where step x = Inr b"
    using assms(2) hash_split_where_eval by blast
  then show ?thesis using assms(1) by (simp add: bq_selquery_def sql_where_total)
qed

lemma table_step_eq:
  "table_step fp rows p st step =
    (if temp_dataset_name \<in> bq_datasets st then
       map_sum id (\<lambda>v. (st\<lparr>bq_tables := (bq_tables st)((temp_dataset_name, ''babyweight_'' @ step) \<mapsto> (bq_columns, v))\<rparr>,
                        ''Query results loaded to table /projects/'' @ p @ ''/datasets/'' @ temp_dataset_name
                        @ ''/tables/babyweight_'' @ step))
         (bq_selquery fp step rows)
     else Inl (NotFound temp_dataset_name))"
  by (cases "bq_selquery fp step rows") (simp_all add: table_step_def query_to_table_def Let_def)

text \<open>
  C7: Running the table-writing cell a second time leaves the project as the
  first run left it, whatever the first run did: each step truncates its table and
  writes the same query result again, and a failing step fails again.
\<close>

theorem table_cell_idempotent:
  "fst (table_cell fp rows p (fst (table_cell fp rows p st))) = fst (table_cell fp rows p st)"
  by (cases "bq_selquery fp ''train'' rows"; cases "bq_selquery fp ''eval'' rows")
     (simp_all add: table_cell_def bq_steps_def table_step_eq fun_upd_twist)


text \<open>
  C3: When the temporary dataset exists and every kept birth's hash can be
  computed, the table cell writes both tables without error; the union query returns
  two rows per kept birth, and the train and eval tables together hold exactly the
  union's rows whose \<open>MOD(hashmonth, 100)\<close> is below 90, each once.
\<close>

theorem table_cell_partition:
  assumes "temp_dataset_name \<in> bq_datasets st" "\<forall>r \<in> set rows. beam_where r \<longrightarrow> hashmonth fp r = Inr (H r)"
  shows "\<exists>U tr ev. bq_union fp rows = Inr U \<and> length U = 2 * length (filter beam_where rows) \<and>
    snd (snd (table_cell fp rows p st)) = None \<and>
    bq_tables (fst (table_cell fp rows p st)) (temp_dataset_name, ''babyweight_train'') = Some (bq_columns, tr) \<and>
    bq_tables (fst (table_cell fp rows p st)) (temp_dataset_name, ''babyweight_eval'') = Some (bq_columns, ev) \<and>
    mset tr + mset ev = mset (filter (\<lambda>x. \<exists>h. map_of x ''hashmonth'' = Some (SInt h) \<and> h mod 100 < 90) U)"
proof -
  obtain U where U: "bq_union fp rows = Inr U" "length U = 2 * length (filter beam_where rows)"
      "\<forall>x \<in> set U. \<exists>r \<in> set rows. beam_where r \<and> map_of x ''hashmonth'' = Some (SInt (H r))"
    using bq_union_rows [OF assms(2)] by blast
  have nn: "\<forall>x \<in> set U. \<exists>h. map_of x ''hashmonth'' = Some (SInt h) \<and> 0 \<le> h"
    using U(3) assms(2) hashmonth_nonneg by fastforce
  let ?T = "\<lambda>x. hash_split_where ''train'' x = Inr True"
  let ?E = "\<lambda>x. hash_split_where ''eval'' x = Inr True"
  have sel: "bq_selquery fp ''train'' rows = Inr (filter ?T U)" "bq_selquery fp ''eval'' rows = Inr (filter ?E U)"
    using bq_selquery_eval [OF U(1) nn] by blast+
  have "mset (filter ?T U) + mset (filter ?E U) = mset (filter (\<lambda>x. ?T x \<or> ?E x) U)"
    by (rule mset_filter_disj) (use nn in \<open>auto simp: hash_split_where_eval\<close>)
  also have "filter (\<lambda>x. ?T x \<or> ?E x) U = filter (\<lambda>x. \<exists>h. map_of x ''hashmonth'' = Some (SInt h) \<and> h mod 100 < 90) U"
    by (rule filter_cong) (use nn in \<open>auto simp: hash_split_where_eval\<close>)
  finally show ?thesis
    using U(1,2) sel assms(1) by (simp add: table_cell_def bq_steps_def table_step_eq)
qed

lemma plurality_when_label:
  "0 < p \<Longrightarrow> plurality_when p = (if p \<le> 5 then plurality_labels ! nat (p - 1) else ''NULL'')"
proof -
  assume "0 < p"
  then have "p = 1 \<or> p = 2 \<or> p = 3 \<or> p = 4 \<or> p = 5 \<or> 5 < p" by arith
  then show ?thesis by (elim disjE) (simp_all add: plurality_when_def plurality_labels_def)
qed

text \<open>
  C24: The ultrasound row of the BigQuery path labels a plurality from 1 to 5
  with the same text as the Beam \<open>to_csv\<close> label list, and a larger plurality with
  the string \<open>NULL\<close>, where the Beam path raises \<open>IndexError\<close>.
\<close>

theorem bq_plurality_matches_beam:
  assumes "0 < plurality r"
  shows "\<exists>row. ultrasound_sel (cte_raw_cols r h) = Inr row \<and>
    map_of row ''plurality'' = Some (SStr (if plurality r \<le> 5 then plurality_labels ! nat (plurality r - 1) else ''NULL''))"
  using assms by (simp add: ultrasound_sel_cte plurality_when_label)

lemma csv_quote_plain: "CHR '','' \<notin> set s \<Longrightarrow> CHR ''\"'' \<notin> set s \<Longrightarrow> CHR 10 \<notin> set s \<Longrightarrow> csv_quote s = s"
  by (simp add: csv_quote_def)

lemma show_int_plain: "CHR ''\"'' \<notin> set (show_int i)" "CHR 10 \<notin> set (show_int i)"
  using show_int_chars [of i] by auto

lemma plurality_labels_plain:
  "1 \<le> p \<Longrightarrow> p \<le> 5 \<Longrightarrow> csv_quote (plurality_labels ! nat (p - 1)) = plurality_labels ! nat (p - 1) \<and>
     CHR '','' \<notin> set (plurality_labels ! nat (p - 1))"
proof -
  assume "1 \<le> p" "p \<le> 5"
  then have "p = 1 \<or> p = 2 \<or> p = 3 \<or> p = 4 \<or> p = 5" by arith
  then show ?thesis by (elim disjE) (simp_all add: plurality_labels_def csv_quote_def)
qed

text \<open>
  C25: For the same birth, the CSV line the BigQuery export writes for its
  ultrasound row and the line the Beam \<open>to_csv\<close> yields differ: the export spells
  \<open>is_male\<close> as \<open>true\<close>/\<open>false\<close> where Beam writes \<open>True\<close>/\<open>False\<close>, and it adds
  the \<open>hashmonth\<close> column.
\<close>

theorem bq_csv_vs_beam_line:
  assumes "1 \<le> plurality r" "plurality r \<le> 5" "\<forall>x. CHR '','' \<notin> set (fr x)"
  shows "\<exists>row. ultrasound_sel (cte_raw_cols r h) = Inr row \<and>
    py_split (CHR '','') (bq_csv_line fr row) =
      [fr (weight_pounds r), cast_bool_string (is_male r), show_int (mother_age r),
       plurality_labels ! nat (plurality r - 1), show_int (gestation_weeks r), show_int h] \<and>
    py_split (CHR '','') (csv_line fr ((beam_rowdict r h)(''plurality'' \<mapsto> PStr (plurality_labels ! nat (plurality r - 1))))) =
      [fr (weight_pounds r), py_str_bool (is_male r), show_int (mother_age r),
       plurality_labels ! nat (plurality r - 1), show_int (gestation_weeks r)]"
proof -
  let ?l = "plurality_labels ! nat (plurality r - 1)"
  have l: "csv_quote ?l = ?l" "CHR '','' \<notin> set ?l" using plurality_labels_plain [OF assms(1,2)] by simp_all
  have b: "csv_quote (cast_bool_string b) = cast_bool_string b" "CHR '','' \<notin> set (cast_bool_string b)"
      "CHR '','' \<notin> set (py_str_bool b)" for b
    by (simp_all add: csv_quote_def cast_bool_string_def py_str_bool_def)
  have pw: "plurality_when (plurality r) = ?l" using plurality_when_label [of "plurality r"] assms(1,2) by simp
  have bq: "py_split (CHR '','') (bq_csv_line fr (projr (ultrasound_sel (cte_raw_cols r h)))) =
      [fr (weight_pounds r), cast_bool_string (is_male r), show_int (mother_age r), ?l,
       show_int (gestation_weeks r), show_int h]"
    unfolding bq_csv_line_def ultrasound_sel_cte
    by (subst py_split_join) (simp_all add: pw assms l b)
  have beam: "py_split (CHR '','') (csv_line fr ((beam_rowdict r h)(''plurality'' \<mapsto> PStr ?l))) =
      [fr (weight_pounds r), py_str_bool (is_male r), show_int (mother_age r), ?l, show_int (gestation_weeks r)]"
    unfolding csv_line_def
    by (subst py_split_join) (simp_all add: baby_CSV_COLUMNS_eq csv_field_def beam_rowdict_def assms l b)
  show ?thesis using bq beam by (simp add: ultrasound_sel_cte)
qed

text \<open>
  C33: When the temporary dataset cannot be created (here: the credentials do
  not permit it), the cell still prints that it ``already exists'', and the next cell's
  first query job then fails with \<open>NotFound\<close>, writing no table.
\<close>

theorem failed_dataset_cell_then_tables:
  assumes "temp_dataset_name \<notin> bq_datasets st"
  shows "temp_dataset_cell False p st = (st, ''Dataset '' @ p @ ''.temp_babyweight_dataset already exists'') \<and>
    table_cell fp rows p st = (st, [], Some (NotFound temp_dataset_name))"
  using assms by (simp add: temp_dataset_cell_def create_dataset_def temp_dataset_name_def table_cell_def
                            bq_steps_def table_step_eq)


text \<open>
  When both tables exist, the export cell writes each one to a single CSV
  object \<open>gs://BUCKET/babyweight/bq_data/<step>000000000000.csv\<close>: a header line of
  the column names followed by one line per row.
\<close>

theorem export_cell_objects:
  assumes "bq_tables st (temp_dataset_name, ''babyweight_train'') = Some (cT, tr)"
    "bq_tables st (temp_dataset_name, ''babyweight_eval'') = Some (cE, ev)" "CHR ''*'' \<notin> set B"
  shows "\<exists>g' outs. export_cell fr B P st g = (g', outs, None) \<and>
    map_of (gcs_objects g') (''gs://'' @ B @ ''/babyweight/bq_data/train000000000000.csv'') =
      Some (py_join '','' cT # map (bq_csv_line fr) tr) \<and>
    map_of (gcs_objects g') (''gs://'' @ B @ ''/babyweight/bq_data/eval000000000000.csv'') =
      Some (py_join '','' cE # map (bq_csv_line fr) ev)"
  using assms
  by (simp add: export_cell_def bq_steps_def export_step_def extract_table_def Let_def gcs_write_lookup
                py_replace_char concat_map_char_free)

lemma temp_dataset_cell_reach: "bq_reach st \<Longrightarrow> bq_reach (fst (temp_dataset_cell a p st))"
  by (cases "create_dataset a temp_dataset_name st")
     (auto simp: temp_dataset_cell_def intro: bq_reach.step [where op = "OpCreateDataset a temp_dataset_name"])

lemma table_step_reach:
  "bq_reach st \<Longrightarrow> table_step fp rows p st step = Inr (st', m) \<Longrightarrow> bq_reach st'"
  by (auto simp: table_step_def Let_def bindE_def split: sum.splits
           intro: bq_reach.step [where op = "OpQueryToTable WriteTruncate (temp_dataset_name, ''babyweight_'' @ step)
                                              bq_columns (bq_selquery fp step rows)"])

lemma run_steps_reach:
  assumes step: "\<And>st x st' m. bq_reach st \<Longrightarrow> f st x = Inr (st', m) \<Longrightarrow> bq_reach st'"
  shows "bq_reach st \<Longrightarrow> bq_reach (fst (run_steps f xs st))"
proof (induction xs arbitrary: st)
  case Nil
  then show ?case by simp
next
  case (Cons x xs)
  show ?case
  proof (cases "f st x")
    case (Inl e)
    with Cons.prems show ?thesis by simp
  next
    case (Inr r)
    obtain st' m where r: "r = (st', m)" by (cases r)
    have "bq_reach st'" using step [OF Cons.prems] Inr r by simp
    then have "bq_reach (fst (run_steps f xs st'))" by (rule Cons.IH)
    with Inr r show ?thesis by (cases "run_steps f xs st'") simp
  qed
qed

text \<open>If the train query never finishes, the table cell never returns and the export cell never runs.\<close>

lemma table_cell_wait_hangs:
  "\<forall>n. \<not> qfin ''train'' n \<Longrightarrow> table_cell_wait qfin fp rows p st = None"
  unfolding table_cell_wait_def bq_steps_def by (rule run_steps_wait_hangs)

lemma cte_raw_data_rows:
  "cte_raw_data fp rows = Inr xs \<Longrightarrow> x \<in> set xs \<Longrightarrow> \<exists>r h. x = cte_raw_cols r h"
  unfolding cte_raw_data_def by (rule hash_rows_shape)

lemma plurality_when_nous_type: "has_type TString (plurality_when_nous p)"
  by (simp add: plurality_when_nous_def)

text \<open>
  C12: The two \<open>SELECT\<close>s of the union agree on their column types: every row of the
  union has the columns of the tables the step loop writes, typed FLOAT64, STRING,
  INT64, STRING, INT64, INT64, so \<open>UNION ALL\<close> is well-typed.
\<close>

theorem bq_union_schema:
  assumes "bq_union fp rows = Inr U"
  shows "map fst bq_schema = bq_columns \<and> (\<forall>x \<in> set U. row_schema bq_schema x)"
proof -
  from assms obtain xs a b where xs: "cte_raw_data fp rows = Inr xs"
      and a: "map_result ultrasound_sel xs = Inr a" and b: "map_result no_ultrasound_sel xs = Inr b"
      and U: "U = a @ b"
    by (auto simp: bq_union_def bindE_def split: sum.splits)
  have "row_schema bq_schema x" if xa: "x \<in> set a" for x
  proof -
    obtain c where "c \<in> set xs" "ultrasound_sel c = Inr x" using map_result_Inr_set [OF a xa] by blast
    moreover obtain r h where "c = cte_raw_cols r h" using cte_raw_data_rows [OF xs \<open>c \<in> set xs\<close>] by blast
    ultimately show ?thesis by (auto simp: ultrasound_sel_cte row_schema_def bq_schema_def)
  qed
  moreover have "row_schema bq_schema x" if xb: "x \<in> set b" for x
  proof -
    obtain c where "c \<in> set xs" "no_ultrasound_sel c = Inr x" using map_result_Inr_set [OF b xb] by blast
    moreover obtain r h where "c = cte_raw_cols r h" using cte_raw_data_rows [OF xs \<open>c \<in> set xs\<close>] by blast
    ultimately show ?thesis
      by (auto simp: no_ultrasound_sel_cte row_schema_def bq_schema_def plurality_when_nous_type)
  qed
  ultimately show ?thesis using U by (auto simp: bq_schema_def bq_columns_def)
qed

section \<open>Witnesses\<close>

theorem table_cell_partition_witness:
  "\<exists>U tr ev. bq_union (\<lambda>_. 7) [example_birth] = Inr U \<and>
    length U = 2 * length (filter beam_where [example_birth]) \<and>
    snd (snd (table_cell (\<lambda>_. 7) [example_birth] ''p'' example_bq_state)) = None \<and>
    bq_tables (fst (table_cell (\<lambda>_. 7) [example_birth] ''p'' example_bq_state)) (temp_dataset_name, ''babyweight_train'') = Some (bq_columns, tr) \<and>
    bq_tables (fst (table_cell (\<lambda>_. 7) [example_birth] ''p'' example_bq_state)) (temp_dataset_name, ''babyweight_eval'') = Some (bq_columns, ev) \<and>
    mset tr + mset ev = mset (filter (\<lambda>x. \<exists>h. map_of x ''hashmonth'' = Some (SInt h) \<and> h mod 100 < 90) U)"
proof -
  have d: "temp_dataset_name \<in> bq_datasets example_bq_state" by (simp add: example_bq_state_def)
  have h: "\<forall>r \<in> set [example_birth]. beam_where r \<longrightarrow> hashmonth (\<lambda>_. 7) r = Inr ((\<lambda>_. 7) r)"
    by (simp add: hashmonth_def sql_abs_def int64_min_def)
  show ?thesis using table_cell_partition [OF d h] by blast
qed

theorem bq_plurality_matches_beam_witness:
  "\<exists>row. ultrasound_sel (cte_raw_cols example_birth 7) = Inr row \<and>
    map_of row ''plurality'' = Some (SStr (if plurality example_birth \<le> 5
      then plurality_labels ! nat (plurality example_birth - 1) else ''NULL''))"
  by (rule bq_plurality_matches_beam) (simp add: example_birth_def)

theorem bq_csv_vs_beam_line_witness:
  "\<exists>row. ultrasound_sel (cte_raw_cols example_birth 7) = Inr row \<and>
    py_split (CHR '','') (bq_csv_line example_repr row) =
      [example_repr (weight_pounds example_birth), cast_bool_string (is_male example_birth),
       show_int (mother_age example_birth), plurality_labels ! nat (plurality example_birth - 1),
       show_int (gestation_weeks example_birth), show_int 7] \<and>
    py_split (CHR '','') (csv_line example_repr ((beam_rowdict example_birth 7)(''plurality'' \<mapsto>
      PStr (plurality_labels ! nat (plurality example_birth - 1))))) =
      [example_repr (weight_pounds example_birth), py_str_bool (is_male example_birth),
       show_int (mother_age example_birth), plurality_labels ! nat (plurality example_birth - 1),
       show_int (gestation_weeks example_birth)]"
  by (rule bq_csv_vs_beam_line) (simp_all add: example_birth_def example_repr_def)

theorem failed_dataset_cell_then_tables_witness:
  "temp_dataset_cell False ''p'' bq_empty = (bq_empty, ''Dataset '' @ ''p'' @ ''.temp_babyweight_dataset already exists'') \<and>
    table_cell (\<lambda>_. 7) [example_birth] ''p'' bq_empty = (bq_empty, [], Some (NotFound temp_dataset_name))"
  by (rule failed_dataset_cell_then_tables) (simp add: bq_empty_def)

theorem export_cell_objects_witness:
  "\<exists>g' outs. export_cell example_repr ''bucket'' ''p''
      (bq_empty\<lparr>bq_tables := [(temp_dataset_name, ''babyweight_train'') \<mapsto> (bq_columns, []),
                                (temp_dataset_name, ''babyweight_eval'') \<mapsto> (bq_columns, [])]\<rparr>)
      \<lparr>gcs_buckets = [''bucket''], gcs_objects = []\<rparr> = (g', outs, None) \<and>
    map_of (gcs_objects g') (''gs://'' @ ''bucket'' @ ''/babyweight/bq_data/train000000000000.csv'') =
      Some (py_join '','' bq_columns # map (bq_csv_line example_repr) []) \<and>
    map_of (gcs_objects g') (''gs://'' @ ''bucket'' @ ''/babyweight/bq_data/eval000000000000.csv'') =
      Some (py_join '','' bq_columns # map (bq_csv_line example_repr) [])"
  by (rule export_cell_objects) simp_all

theorem bq_union_schema_witness:
  "map fst bq_schema = bq_columns \<and>
   list_all (row_schema bq_schema) (projr (bq_union (\<lambda>_. 7) [example_birth]))"
proof -
  obtain U where "bq_union (\<lambda>_. 7) [example_birth] = Inr U"
    using bq_union_rows [of "[example_birth]" "\<lambda>_. 7" "\<lambda>_. 7"] by (auto simp: hashmonth_def sql_abs_def int64_min_def)
  then show ?thesis using bq_union_schema [of "\<lambda>_. 7" "[example_birth]" U] by (simp add: list_all_iff)
qed

end
