(* ===== verification/BabyJobs.thy ===== *)
theory BabyJobs
  imports Shell BqPreprocess
begin

text \<open>
  The configuration and shell cells of \<open>part_000\<close>: the Python configuration and
  its copy into \<open>os.environ\<close>, the cell that makes the bucket unless \<open>gsutil ls\<close> lists
  it, and the two \<open>!gsutil ls\<close> cells that show the first shard of each output, of the
  Beam pipeline and of the BigQuery export.
\<close>

section \<open>Definitions\<close>

record baby_config =
  baby_project :: string
  baby_bucket :: string
  baby_region :: string
  baby_tfversion :: string

definition baby_config_cell :: baby_config where
  "baby_config_cell =
     \<lparr>baby_project = ''cloud-training-demos'', baby_bucket = ''cloud-training-bucket'',
      baby_region = ''us-central1'', baby_tfversion = ''1.14''\<rparr>"

definition baby_environ_cell :: "baby_config \<Rightarrow> environ \<Rightarrow> environ" where
  "baby_environ_cell c env =
     set_environ [(''BUCKET'', baby_bucket c), (''PROJECT'', baby_project c), (''REGION'', baby_region c)] env"

text \<open>
  \<open>if ! gsutil ls | grep -q gs://${BUCKET}/; then gsutil mb -l ${REGION} gs://${BUCKET}; fi\<close>:
  make the bucket unless it is listed. A failing \<open>mb\<close> only prints its error.
\<close>

definition mb_cell :: "environ \<Rightarrow> gcs_state \<Rightarrow> gcs_state" where
  "mb_cell env g =
     (if \<not> grep_q (sh_expand env ''gs://${BUCKET}/'') (gsutil_ls_buckets g)
      then (case gsutil_mb (sh_expand env ''${BUCKET}'') g of Inr g' \<Rightarrow> g' | Inl e \<Rightarrow> g)
      else g)"

text \<open>\<open>!gsutil ls gs://$BUCKET/babyweight/preproc/*-00000*\<close>; IPython expands \<open>$BUCKET\<close>.\<close>

definition preproc_ls_cell :: "string \<Rightarrow> gcs_state \<Rightarrow> string list result" where
  "preproc_ls_cell BUCKET g = gsutil_ls (''gs://'' @ BUCKET @ ''/babyweight/preproc/*-00000*'') g"

text \<open>\<open>!gsutil ls gs://$BUCKET/babyweight/bq_data/*000000000000*\<close>.\<close>

definition bq_data_ls_cell :: "string \<Rightarrow> gcs_state \<Rightarrow> string list result" where
  "bq_data_ls_cell BUCKET g = gsutil_ls (''gs://'' @ BUCKET @ ''/babyweight/bq_data/*000000000000*'') g"

section \<open>Properties\<close>

lemma sh_expand_bucket:
  "sh_expand env ''gs://${BUCKET}/'' = ''gs://'' @ env_val env ''BUCKET'' @ ''/''"
  "sh_expand env ''${BUCKET}'' = env_val env ''BUCKET''"
  by (simp_all add: is_name_char_def)

text \<open>
  After the bucket cell, \<open>gsutil ls\<close> lists the configured bucket: the cell either
  found it listed or made it.
\<close>

theorem mb_cell_lists_bucket:
  "grep_q (sh_expand env ''gs://${BUCKET}/'') (gsutil_ls_buckets (mb_cell env g))"
proof (cases "grep_q (sh_expand env ''gs://${BUCKET}/'') (gsutil_ls_buckets g)")
  case True
  then show ?thesis by (simp add: mb_cell_def)
next
  case False
  then have "env_val env ''BUCKET'' \<notin> set (gcs_buckets g)"
    by (auto simp: grep_q_def list_ex_iff gsutil_ls_buckets_def sh_expand_bucket)
  with False show ?thesis
    by (auto simp: mb_cell_def gsutil_mb_def gsutil_ls_buckets_def grep_q_def sh_expand_bucket)
qed

text \<open>
  The \<open>!gsutil ls gs://$BUCKET/babyweight/preproc/*-00000*\<close> cell lists the first
  shard of the training file that the Dataflow run of \<open>preprocess\<close> writes, whatever
  the number of shards, for a bucket name without a wildcard.
\<close>

theorem preproc_ls_first_shards:
  assumes "CHR ''*'' \<notin> set B"
    "text_shard (path_join (plan_output_dir (baby_preprocess False now B P)) ''train.csv'') 0 n \<in> set (map fst (gcs_objects g))"
  shows "\<exists>urls. preproc_ls_cell B g = Inr urls \<and>
    text_shard (path_join (plan_output_dir (baby_preprocess False now B P)) ''train.csv'') 0 n \<in> set urls"
proof -
  let ?w = "''gs://'' @ B @ ''/babyweight/preproc/''"
  have name: "text_shard (path_join (plan_output_dir (baby_preprocess False now B P)) ''train.csv'') 0 n =
      ?w @ ''train.csv-00000-of-'' @ pad5 n"
    by (simp add: text_shard_def baby_output_dir path_join_def pad5_0)
  have "glob ''*-00000*'' (''train.csv-00000-of-'' @ pad5 n)"
    using glob_star_any [OF pad5_digits [of n]] by simp
  then have "glob (?w @ ''*-00000*'') (?w @ ''train.csv-00000-of-'' @ pad5 n)"
    using assms(1) by (subst glob_append_lit) simp_all
  then have gl: "glob (''gs://'' @ B @ ''/babyweight/preproc/*-00000*'') (?w @ ''train.csv-00000-of-'' @ pad5 n)"
    by simp
  define hits where "hits = filter (glob (''gs://'' @ B @ ''/babyweight/preproc/*-00000*'')) (map fst (gcs_objects g))"
  have m: "?w @ ''train.csv-00000-of-'' @ pad5 n \<in> set hits"
    using gl assms(2) name by (simp add: hits_def)
  then have "hits \<noteq> []" by auto
  with m name show ?thesis
    unfolding preproc_ls_cell_def gsutil_ls_def Let_def hits_def [symmetric] by simp
qed

section \<open>Witnesses\<close>

theorem preproc_ls_first_shards_witness:
  "\<exists>urls. preproc_ls_cell ''b''
      \<lparr>gcs_buckets = [''b''],
       gcs_objects = [(text_shard (path_join (plan_output_dir (baby_preprocess False ''t'' ''b'' ''p'')) ''train.csv'') 0 1, [])]\<rparr>
      = Inr urls \<and>
    text_shard (path_join (plan_output_dir (baby_preprocess False ''t'' ''b'' ''p'')) ''train.csv'') 0 1 \<in> set urls"
  by (rule preproc_ls_first_shards) simp_all

end
