(* ===== verification/TaxiQuery.thy ===== *)
theory TaxiQuery
  imports BigQuery
begin

text \<open>
  The taxi-fare query of \<open>a_dataflow.ipynb\<close> (cell \<open>create_query\<close>): the Python
  function that builds the SQL text for a phase by string templating, and the meaning
  of that SQL over the \<open>nyc-tlc.yellow.trips\<close> table: the cleaning conditions, the
  repeatable 1-in-\<open>EVERY_N\<close> sample, and the per-phase hash-bucket filter.
\<close>

section \<open>The query text\<close>

definition basequery :: string where
  "basequery = ''
    SELECT
        (tolls_amount + fare_amount) AS fare_amount,
        EXTRACT(DAYOFWEEK from pickup_datetime) AS dayofweek,
        EXTRACT(HOUR from pickup_datetime) AS hourofday,
        pickup_longitude AS pickuplon,
        pickup_latitude AS pickuplat,
        dropoff_longitude AS dropofflon,
        dropoff_latitude AS dropofflat
    FROM
        `nyc-tlc.yellow.trips`
    WHERE
        trip_distance > 0
        AND fare_amount >= 2.5
        AND pickup_longitude > -78
        AND pickup_longitude < -70
        AND dropoff_longitude > -78
        AND dropoff_longitude < -70
        AND pickup_latitude > 37
        AND pickup_latitude < 45
        AND dropoff_latitude > 37
        AND dropoff_latitude < 45
        AND passenger_count > 0
        AND MOD(ABS(FARM_FINGERPRINT(CAST(pickup_datetime AS STRING))), EVERY_N) = 1
    ''"

text \<open>The \<open>if\<close>/\<open>elif\<close> chain choosing the phase's filter text.\<close>

definition subsample_of :: "string \<Rightarrow> string option" where
  "subsample_of phase =
     (if phase = ''TRAIN'' then Some ''
        AND MOD(ABS(FARM_FINGERPRINT(CAST(pickup_datetime AS STRING))), EVERY_N * 100) >= (EVERY_N * 0)
        AND MOD(ABS(FARM_FINGERPRINT(CAST(pickup_datetime AS STRING))), EVERY_N * 100) <  (EVERY_N * 70)
        ''
      else if phase = ''VALID'' then Some ''
        AND MOD(ABS(FARM_FINGERPRINT(CAST(pickup_datetime AS STRING))), EVERY_N * 100) >= (EVERY_N * 70)
        AND MOD(ABS(FARM_FINGERPRINT(CAST(pickup_datetime AS STRING))), EVERY_N * 100) <  (EVERY_N * 85)
        ''
      else if phase = ''TEST'' then Some ''
        AND MOD(ABS(FARM_FINGERPRINT(CAST(pickup_datetime AS STRING))), EVERY_N * 100) >= (EVERY_N * 85)
        AND MOD(ABS(FARM_FINGERPRINT(CAST(pickup_datetime AS STRING))), EVERY_N * 100) <  (EVERY_N * 100)
        ''
      else None)"

text \<open>
  \<open>create_query(phase, sample_size)\<close>: an unknown phase leaves \<open>subsample\<close>
  unassigned, so \<open>basequery + subsample\<close> raises \<open>UnboundLocalError\<close>.
\<close>

definition create_query :: "string \<Rightarrow> string \<Rightarrow> string result" where
  "create_query phase sample_size =
     (case subsample_of phase of
        None \<Rightarrow> Inl (UnboundLocalError ''subsample'')
      | Some subsample \<Rightarrow> Inr (py_replace (basequery @ subsample) ''EVERY_N'' sample_size))"

section \<open>The meaning of the query\<close>

text \<open>
  A row of \<open>nyc-tlc.yellow.trips\<close>, with the columns the query reads. A TIMESTAMP is
  modelled by what the query reads of it: its \<open>CAST(... AS STRING)\<close> text and its
  \<open>EXTRACT(DAYOFWEEK ...)\<close> (1 = Sunday) and \<open>EXTRACT(HOUR ...)\<close> fields.
  FLOAT64 columns are modelled by the reals they denote.
\<close>

record timestamp =
  ts_string :: string
  ts_dayofweek :: int
  ts_hour :: int

record trip =
  tolls_amount :: real
  fare_amount :: real
  pickup_datetime :: timestamp
  pickup_longitude :: real
  pickup_latitude :: real
  dropoff_longitude :: real
  dropoff_latitude :: real
  trip_distance :: real
  passenger_count :: int

text \<open>The data-cleaning conjuncts of the \<open>WHERE\<close> clause.\<close>

definition taxi_clean :: "trip \<Rightarrow> bool" where
  "taxi_clean t \<longleftrightarrow>
     trip_distance t > 0
     \<and> fare_amount t \<ge> 2.5
     \<and> pickup_longitude t > -78
     \<and> pickup_longitude t < -70
     \<and> dropoff_longitude t > -78
     \<and> dropoff_longitude t < -70
     \<and> pickup_latitude t > 37
     \<and> pickup_latitude t < 45
     \<and> dropoff_latitude t > 37
     \<and> dropoff_latitude t < 45
     \<and> passenger_count t > 0"

text \<open>\<open>ABS(FARM_FINGERPRINT(CAST(pickup_datetime AS STRING)))\<close>.\<close>

definition pickup_hash :: "fingerprint \<Rightarrow> trip \<Rightarrow> int result" where
  "pickup_hash fp t = sql_abs (fp (ts_string (pickup_datetime t)))"

text \<open>
  \<open>MOD(hash, EVERY_N) = 1\<close>, the repeatable 1-in-\<open>EVERY_N\<close> sample. Here and below
  \<open>n\<close> is the INT64 value of the text that replaces \<open>EVERY_N\<close>.
\<close>

definition every_n_filter :: "int \<Rightarrow> int \<Rightarrow> bool result" where
  "every_n_filter n h = bindE (sql_mod h n) (\<lambda>r. Inr (r = 1))"

text \<open>
  A phase's filter: \<open>MOD(hash, EVERY_N * 100) >= (EVERY_N * lo)\<close> and
  \<open>MOD(hash, EVERY_N * 100) < (EVERY_N * hi)\<close>.
\<close>

definition subsample_filter :: "int \<Rightarrow> int \<Rightarrow> int \<Rightarrow> int \<Rightarrow> bool result" where
  "subsample_filter lo hi n h =
     bindE (sql_mul n 100) (\<lambda>m. bindE (sql_mod h m) (\<lambda>r.
     bindE (sql_mul n lo) (\<lambda>a. bindE (sql_mul n hi) (\<lambda>b. Inr (a \<le> r \<and> r < b)))))"

text \<open>The percentages in each phase's filter text.\<close>

definition phase_bounds :: "string \<Rightarrow> (int \<times> int) option" where
  "phase_bounds phase =
     (if phase = ''TRAIN'' then Some (0, 70)
      else if phase = ''VALID'' then Some (70, 85)
      else if phase = ''TEST'' then Some (85, 100)
      else None)"

text \<open>
  The whole \<open>WHERE\<close> clause of \<open>create_query phase n\<close>, on one row. BigQuery may
  evaluate the conjuncts of a \<open>WHERE\<close> in any order and need not stop at a false one;
  this definition evaluates all of them, one of the orders BigQuery may choose. Where
  every expression of the clause is defined, every order gives this value. Where one
  raises an error, the error is certain only when the other conjuncts are true, so the
  theorems about errors are stated for trips that pass the cleaning conjuncts.
\<close>

definition taxi_where :: "fingerprint \<Rightarrow> int \<Rightarrow> string \<Rightarrow> trip \<Rightarrow> bool result" where
  "taxi_where fp n phase t =
     (case phase_bounds phase of
        None \<Rightarrow> Inl (UnboundLocalError ''subsample'')
      | Some (lo, hi) \<Rightarrow>
          bindE (pickup_hash fp t) (\<lambda>h.
          bindE (every_n_filter n h) (\<lambda>s.
          bindE (subsample_filter lo hi n h) (\<lambda>b. Inr (taxi_clean t \<and> s \<and> b)))))"

text \<open>The \<open>SELECT\<close> list, as the dictionary the Beam BigQuery reader hands to Python.\<close>

definition taxi_select :: "trip \<Rightarrow> (string, pyval) dict" where
  "taxi_select t =
     [''fare_amount'' \<mapsto> PFloat (tolls_amount t + fare_amount t),
      ''dayofweek'' \<mapsto> PInt (ts_dayofweek (pickup_datetime t)),
      ''hourofday'' \<mapsto> PInt (ts_hour (pickup_datetime t)),
      ''pickuplon'' \<mapsto> PFloat (pickup_longitude t),
      ''pickuplat'' \<mapsto> PFloat (pickup_latitude t),
      ''dropofflon'' \<mapsto> PFloat (dropoff_longitude t),
      ''dropofflat'' \<mapsto> PFloat (dropoff_latitude t)]"

definition taxi_query :: "fingerprint \<Rightarrow> int \<Rightarrow> string \<Rightarrow> trip list \<Rightarrow> (string, pyval) dict list result" where
  "taxi_query fp n phase rows = bindE (sql_where (taxi_where fp n phase) rows) (\<lambda>rs. Inr (map taxi_select rs))"

text \<open>The \<open>WHERE\<close> clause of \<open>basequery\<close> alone: cleaning and the 1-in-\<open>EVERY_N\<close> sample.\<close>

definition taxi_base_where :: "fingerprint \<Rightarrow> int \<Rightarrow> trip \<Rightarrow> bool result" where
  "taxi_base_where fp n t =
     bindE (pickup_hash fp t) (\<lambda>h. bindE (every_n_filter n h) (\<lambda>s. Inr (taxi_clean t \<and> s)))"

text \<open>Example data for the witnesses: a short ride on Friday 3 January 2014, 10:00.\<close>

definition example_trip :: trip where
  "example_trip =
     \<lparr>tolls_amount = 0, fare_amount = 12.5,
      pickup_datetime = \<lparr>ts_string = ''2014-01-03 10:00:00+00'', ts_dayofweek = 6, ts_hour = 10\<rparr>,
      pickup_longitude = -74.008, pickup_latitude = 40.7434,
      dropoff_longitude = -73.9851, dropoff_latitude = 40.7589,
      trip_distance = 2.1, passenger_count = 1\<rparr>"

section \<open>Properties\<close>

text \<open>For a known phase, the query text is the fixed text of basequery followed by the phase filter, split at the EVERY_N placeholders and joined with sample_size inserted verbatim at each.\<close>

theorem create_query_template:
  "subsample_of p = Some sub \<Longrightarrow>
     create_query p s = Inr (py_join s (split_on ''EVERY_N'' (basequery @ sub)))"
  by (simp add: create_query_def py_replace_split)

lemma in_int64_mul:
  "0 < n \<Longrightarrow> in_int64 (n * 100) \<Longrightarrow> 0 \<le> k \<Longrightarrow> k \<le> 100 \<Longrightarrow> in_int64 (n * k)"
proof -
  assume n: "0 < n" and r: "in_int64 (n * 100)" and k: "0 \<le> k" "k \<le> 100"
  have "0 \<le> n * k" using n k by simp
  moreover have "n * k \<le> n * 100" using n k by (simp add: mult_left_mono)
  ultimately show ?thesis using r by (auto simp: in_int64_def int64_min_def)
qed

lemma phase_bounds_range:
  "phase_bounds p = Some (lo, hi) \<Longrightarrow> 0 \<le> lo \<and> lo \<le> hi \<and> hi \<le> 100"
  by (auto simp: phase_bounds_def split: if_splits)

lemma pickup_hash_nonneg: "pickup_hash fp t = Inr h \<Longrightarrow> 0 \<le> h"
  by (auto simp: pickup_hash_def sql_abs_def split: if_splits)

lemma every_n_filter_eval: "0 < n \<Longrightarrow> 0 \<le> h \<Longrightarrow> every_n_filter n h = Inr (h mod n = 1)"
  by (simp add: every_n_filter_def sql_mod_nonneg)

lemma subsample_filter_eval:
  assumes "0 < n" "in_int64 (n * 100)" "0 \<le> lo" "lo \<le> 100" "0 \<le> hi" "hi \<le> 100" "0 \<le> h"
  shows "subsample_filter lo hi n h = Inr (n * lo \<le> h mod (n * 100) \<and> h mod (n * 100) < n * hi)"
  using assms in_int64_mul [of n] by (simp add: subsample_filter_def sql_mul_ok sql_mod_nonneg)

lemma taxi_where_eval:
  assumes "0 < n" "in_int64 (n * 100)" "phase_bounds p = Some (lo, hi)" "pickup_hash fp t = Inr h"
  shows "taxi_where fp n p t =
    Inr (taxi_clean t \<and> h mod n = 1 \<and> n * lo \<le> h mod (n * 100) \<and> h mod (n * 100) < n * hi)"
proof -
  have "0 \<le> h" using assms(4) by (rule pickup_hash_nonneg)
  moreover have "0 \<le> lo \<and> lo \<le> hi \<and> hi \<le> 100" using assms(3) by (rule phase_bounds_range)
  ultimately show ?thesis
    using assms by (simp add: taxi_where_def every_n_filter_eval subsample_filter_eval)
qed

lemma taxi_where_phases:
  assumes "0 < n" "in_int64 (n * 100)" "pickup_hash fp t = Inr h"
  shows "map (\<lambda>p. taxi_where fp n p t) [''TRAIN'', ''VALID'', ''TEST''] =
    map (\<lambda>b. Inr (taxi_clean t \<and> h mod n = 1 \<and> b))
      [n * 0 \<le> h mod (n * 100) \<and> h mod (n * 100) < n * 70,
       n * 70 \<le> h mod (n * 100) \<and> h mod (n * 100) < n * 85,
       n * 85 \<le> h mod (n * 100) \<and> h mod (n * 100) < n * 100]"
  using assms by (simp add: taxi_where_eval phase_bounds_def)

text \<open>C2: For every trip with a defined hash, the number of phases whose query selects it is one when the base query samples it and zero otherwise: the phase filters are disjoint and cover the sample.\<close>

theorem taxi_phases_partition:
  assumes "0 < n" "in_int64 (n * 100)" "pickup_hash fp t = Inr h"
  shows "length (filter (\<lambda>p. taxi_where fp n p t = Inr True) [''TRAIN'', ''VALID'', ''TEST'']) =
    (if taxi_clean t \<and> h mod n = 1 then 1 else 0)"
proof -
  have b: "phase_bounds ''TRAIN'' = Some (0, 70)" "phase_bounds ''VALID'' = Some (70, 85)"
    "phase_bounds ''TEST'' = Some (85, 100)" by (simp_all add: phase_bounds_def)
  have r: "0 \<le> h mod (n * 100)" "h mod (n * 100) < n * 100" using assms(1) by simp_all
  show ?thesis
    using r by (simp add: taxi_where_eval [OF assms(1,2) _ assms(3)] b) linarith
qed

lemma three_way:
  fixes r n :: int
  assumes "0 < n" "(P \<longleftrightarrow> B \<and> r < n * 70)" "(Q \<longleftrightarrow> B \<and> n * 70 \<le> r \<and> r < n * 85)" "(R \<longleftrightarrow> B \<and> n * 85 \<le> r)"
  shows "(P \<or> Q \<or> R \<longleftrightarrow> B) \<and> \<not> (P \<and> Q) \<and> \<not> (P \<and> R) \<and> \<not> (Q \<and> R)"
  using assms by (auto; linarith)

lemma taxi_row_eval:
  assumes "0 < n" "in_int64 (n * 100)" "pickup_hash fp t = Inr h"
  shows "(taxi_where fp n ''TRAIN'' t = Inr True \<longleftrightarrow> (taxi_clean t \<and> h mod n = 1) \<and> h mod (n * 100) < n * 70)
    \<and> (taxi_where fp n ''VALID'' t = Inr True \<longleftrightarrow> (taxi_clean t \<and> h mod n = 1) \<and> n * 70 \<le> h mod (n * 100) \<and> h mod (n * 100) < n * 85)
    \<and> (taxi_where fp n ''TEST'' t = Inr True \<longleftrightarrow> (taxi_clean t \<and> h mod n = 1) \<and> n * 85 \<le> h mod (n * 100))
    \<and> (taxi_base_where fp n t = Inr True \<longleftrightarrow> taxi_clean t \<and> h mod n = 1)"
proof -
  have "0 \<le> h" using assms(3) by (rule pickup_hash_nonneg)
  moreover have "0 \<le> h mod (n * 100)" "h mod (n * 100) < n * 100" using assms(1) by simp_all
  ultimately show ?thesis
    using assms by (simp add: taxi_where_eval phase_bounds_def taxi_base_where_def every_n_filter_eval)
qed

text \<open>C1: For a positive EVERY_N whose hundredfold fits INT64, and a table with no fingerprint overflow, the TRAIN, VALID and TEST queries all succeed and their results together are exactly, as a multiset, the rows the base query samples: no row is lost or duplicated across the three datasets.\<close>

theorem taxi_split_mset:
  assumes "0 < n" "in_int64 (n * 100)" "\<forall>t \<in> set rows. \<exists>h. pickup_hash fp t = Inr h"
  shows "\<exists>tr va te.
    taxi_query fp n ''TRAIN'' rows = Inr tr \<and> taxi_query fp n ''VALID'' rows = Inr va \<and>
    taxi_query fp n ''TEST'' rows = Inr te \<and>
    mset tr + mset va + mset te =
      mset (map taxi_select (filter (\<lambda>t. taxi_base_where fp n t = Inr True) rows))"
proof -
  let ?W = "\<lambda>p t. taxi_where fp n p t = Inr True"
  let ?B = "\<lambda>t. taxi_base_where fp n t = Inr True"
  have q: "taxi_query fp n p rows = Inr (map taxi_select (filter (?W p) rows))"
    if "phase_bounds p = Some (lo, hi)" for p lo hi
  proof -
    have "\<forall>t \<in> set rows. \<exists>b. taxi_where fp n p t = Inr b"
      using assms that by (blast dest: taxi_where_eval [OF assms(1,2) that])
    then have "sql_where (taxi_where fp n p) rows = Inr (filter (?W p) rows)"
      by (rule sql_where_total)
    then show ?thesis by (simp add: taxi_query_def)
  qed
  have "\<forall>t \<in> set rows. (?W ''TRAIN'' t \<or> ?W ''VALID'' t \<or> ?W ''TEST'' t \<longleftrightarrow> ?B t)
      \<and> \<not> (?W ''TRAIN'' t \<and> ?W ''VALID'' t) \<and> \<not> (?W ''TRAIN'' t \<and> ?W ''TEST'' t)
      \<and> \<not> (?W ''VALID'' t \<and> ?W ''TEST'' t)"
  proof
    fix t assume "t \<in> set rows"
    then obtain h where "pickup_hash fp t = Inr h" using assms(3) by blast
    from taxi_row_eval [OF assms(1,2) this] show "(?W ''TRAIN'' t \<or> ?W ''VALID'' t \<or> ?W ''TEST'' t \<longleftrightarrow> ?B t)
      \<and> \<not> (?W ''TRAIN'' t \<and> ?W ''VALID'' t) \<and> \<not> (?W ''TRAIN'' t \<and> ?W ''TEST'' t)
      \<and> \<not> (?W ''VALID'' t \<and> ?W ''TEST'' t)"
      using three_way [OF assms(1)] by blast
  qed
  then have "mset (filter (?W ''TRAIN'') rows) + mset (filter (?W ''VALID'') rows)
      + mset (filter (?W ''TEST'') rows) = mset (filter ?B rows)"
    by (rule mset_filter_partition3)
  then have "image_mset taxi_select (mset (filter (?W ''TRAIN'') rows) + mset (filter (?W ''VALID'') rows)
      + mset (filter (?W ''TEST'') rows)) = image_mset taxi_select (mset (filter ?B rows))"
    by (rule arg_cong)
  moreover have "phase_bounds ''TRAIN'' = Some (0, 70)" "phase_bounds ''VALID'' = Some (70, 85)"
    "phase_bounds ''TEST'' = Some (85, 100)" by (simp_all add: phase_bounds_def)
  ultimately show ?thesis using q by (simp add: mset_map image_mset_union)
qed

text \<open>
  C27: If a trip that passes every cleaning conjunct has a pickup time that fingerprints
  to the least INT64, then \<open>ABS\<close> overflows on it and every phase query fails on the
  whole table, in whatever order BigQuery evaluates the conjuncts of the \<open>WHERE\<close>: the
  hash must be computed to decide that row.
\<close>

theorem taxi_query_hash_overflow:
  assumes "t \<in> set rows" "taxi_clean t" "sint (fp (ts_string (pickup_datetime t))) = int64_min"
    and "phase_bounds p \<noteq> None"
  shows "\<exists>e. taxi_query fp n p rows = Inl e"
proof -
  have "taxi_where fp n p t = Inl Int64Overflow"
    using assms(3,4) by (auto simp: taxi_where_def pickup_hash_def sql_abs_def)
  then obtain e where "sql_where (taxi_where fp n p) rows = Inl e"
    using sql_where_error [OF assms(1)] by blast
  then show ?thesis by (simp add: taxi_query_def)
qed

lemma bucket_arith:
  fixes n lo hi :: int
  assumes n: "2 \<le> n" and lo: "0 \<le> lo" and hi: "hi \<le> 100"
  shows "{r \<in> {0..<n * 100}. r mod n = 1 \<and> n * lo \<le> r \<and> r < n * hi} = (\<lambda>k. n * k + 1) ` {lo..<hi}"
proof (rule set_eqI, rule iffI)
  fix r assume "r \<in> {r \<in> {0..<n * 100}. r mod n = 1 \<and> n * lo \<le> r \<and> r < n * hi}"
  then have rm: "r mod n = 1" and rlo: "n * lo \<le> r" and rhi: "r < n * hi" by auto
  define k where "k = r div n"
  have rk: "r = n * k + 1" using mult_div_mod_eq [of n r] rm by (simp add: k_def)
  have "lo \<le> k"
  proof (rule ccontr)
    assume "\<not> lo \<le> k"
    then have "n * (k + 1) \<le> n * lo" using n by (intro mult_left_mono) simp_all
    then have "n * k + n \<le> n * lo" by (simp add: distrib_left)
    with rlo rk n show False by linarith
  qed
  moreover have "k < hi"
  proof (rule ccontr)
    assume "\<not> k < hi"
    then have "n * hi \<le> n * k" using n by (intro mult_left_mono) simp_all
    with rhi rk show False by linarith
  qed
  ultimately show "r \<in> (\<lambda>k. n * k + 1) ` {lo..<hi}" using rk by auto
next
  fix r assume "r \<in> (\<lambda>k. n * k + 1) ` {lo..<hi}"
  then obtain k where k: "lo \<le> k" "k < hi" and rk: "r = n * k + 1" by auto
  have a: "n * lo \<le> n * k" using k n by (intro mult_left_mono) simp_all
  have "n * (k + 1) \<le> n * hi" using k n by (intro mult_left_mono) simp_all
  then have b: "n * k + n \<le> n * hi" by (simp add: distrib_left)
  have "n * (k + 1) \<le> n * 100" using k hi n by (intro mult_left_mono) simp_all
  then have c: "n * k + n \<le> n * 100" by (simp add: distrib_left)
  have d: "0 \<le> n * k" using k lo n by simp
  have "(n * k + 1) mod n = 1 mod n" by (simp add: mod_add_left_eq [symmetric])
  also have "\<dots> = 1" using n by simp
  finally have e: "(n * k + 1) mod n = 1" .
  have "0 \<le> r" "r < n * 100" "n * lo \<le> r" "r < n * hi"
    using a b c d rk n by linarith+
  with e rk show "r \<in> {r \<in> {0..<n * 100}. r mod n = 1 \<and> n * lo \<le> r \<and> r < n * hi}"
    by simp
qed

text \<open>C26: For EVERY_N of at least 2, among the hash buckets 0 .. 100*EVERY_N-1 the base sample and a phase filter select exactly hi - lo buckets, so TRAIN, VALID and TEST get 70, 15 and 15 of every 100 sampled buckets.\<close>

theorem phase_bucket_count:
  assumes "2 \<le> n" "in_int64 (n * 100)" "phase_bounds p = Some (lo, hi)"
  shows "card {r \<in> {0..<n * 100}. every_n_filter n r = Inr True \<and> subsample_filter lo hi n r = Inr True} = nat (hi - lo)"
proof -
  have b: "0 \<le> lo" "lo \<le> hi" "hi \<le> 100" using phase_bounds_range [OF assms(3)] by auto
  have "{r \<in> {0..<n * 100}. every_n_filter n r = Inr True \<and> subsample_filter lo hi n r = Inr True} =
      {r \<in> {0..<n * 100}. r mod n = 1 \<and> n * lo \<le> r \<and> r < n * hi}"
    using assms(1,2) b by (auto simp: every_n_filter_eval subsample_filter_eval)
  also have "\<dots> = (\<lambda>k. n * k + 1) ` {lo..<hi}" by (rule bucket_arith [OF assms(1) b(1) b(3)])
  also have "card \<dots> = card {lo..<hi}"
    by (rule card_image) (use assms(1) in \<open>auto simp: inj_on_def\<close>)
  finally show ?thesis by simp
qed

text \<open>C28: With EVERY_N = 1 no phase query selects any row, because MOD(h, 1) = 1 never holds.\<close>

theorem taxi_every_n_one: "taxi_where fp 1 p t \<noteq> Inr True"
  by (auto simp: taxi_where_def every_n_filter_def sql_mod_def bindE_def split: option.splits sum.splits)

section \<open>Witnesses\<close>

theorem create_query_template_witness:
  "\<exists>sub. subsample_of ''TRAIN'' = Some sub \<and>
     create_query ''TRAIN'' ''5000'' = Inr (py_join ''5000'' (split_on ''EVERY_N'' (basequery @ sub)))"
  using create_query_template [of "''TRAIN''" _ "''5000''"] by (simp add: subsample_of_def)

theorem taxi_phases_partition_witness:
  "0 < (5::int) \<and> in_int64 (5 * 100) \<and> pickup_hash (\<lambda>_. 41) example_trip = Inr 41 \<and>
   length (filter (\<lambda>p. taxi_where (\<lambda>_. 41) 5 p example_trip = Inr True) [''TRAIN'', ''VALID'', ''TEST'']) =
     (if taxi_clean example_trip \<and> 41 mod 5 = (1::int) then 1 else 0)"
proof -
  have h: "pickup_hash (\<lambda>_. 41) example_trip = Inr 41"
    by (simp add: pickup_hash_def sql_abs_def int64_min_def)
  have r: "in_int64 (5 * 100)" by (simp add: in_int64_def int64_min_def int64_max_def)
  show ?thesis using taxi_phases_partition [of 5 "\<lambda>_. 41" example_trip 41] h r by simp
qed

theorem taxi_split_mset_witness:
  "0 < (5::int) \<and> in_int64 (5 * 100) \<and> pickup_hash (\<lambda>_. 41) example_trip = Inr 41 \<and>
   (\<exists>tr va te.
    taxi_query (\<lambda>_. 41) 5 ''TRAIN'' [example_trip] = Inr tr \<and> taxi_query (\<lambda>_. 41) 5 ''VALID'' [example_trip] = Inr va \<and>
    taxi_query (\<lambda>_. 41) 5 ''TEST'' [example_trip] = Inr te \<and>
    mset tr + mset va + mset te =
      mset (map taxi_select (filter (\<lambda>t. taxi_base_where (\<lambda>_. 41) 5 t = Inr True) [example_trip])))"
proof -
  have h: "pickup_hash (\<lambda>_. 41) example_trip = Inr 41"
    by (simp add: pickup_hash_def sql_abs_def int64_min_def)
  have r: "in_int64 (5 * 100)" by (simp add: in_int64_def int64_min_def int64_max_def)
  show ?thesis using taxi_split_mset [of 5 "[example_trip]" "\<lambda>_. 41"] h r by auto
qed

theorem taxi_query_hash_overflow_witness:
  "example_trip \<in> set [example_trip] \<and> taxi_clean example_trip \<and>
   sint ((\<lambda>_. 0x8000000000000000 :: 64 word) (ts_string (pickup_datetime example_trip))) = int64_min \<and>
   phase_bounds ''TRAIN'' \<noteq> None \<and>
   (\<exists>e. taxi_query (\<lambda>_. 0x8000000000000000) 5000 ''TRAIN'' [example_trip] = Inl e)"
proof -
  have s: "sint ((\<lambda>_. 0x8000000000000000 :: 64 word) (ts_string (pickup_datetime example_trip))) = int64_min"
    by (simp add: int64_min_def)
  have b: "phase_bounds ''TRAIN'' \<noteq> None" by (simp add: phase_bounds_def)
  have c: "taxi_clean example_trip" by (simp add: taxi_clean_def example_trip_def)
  show ?thesis using taxi_query_hash_overflow [of example_trip "[example_trip]", OF _ c s b] s b c by simp
qed

theorem phase_bucket_count_witness:
  "2 \<le> (2::int) \<and> in_int64 (2 * 100) \<and> phase_bounds ''TRAIN'' = Some (0, 70) \<and>
   card {r \<in> {0..<2 * 100}. every_n_filter 2 r = Inr True \<and> subsample_filter 0 70 2 r = Inr True} = nat (70 - 0)"
proof -
  have r: "in_int64 (2 * 100)" by (simp add: in_int64_def int64_min_def int64_max_def)
  have b: "phase_bounds ''TRAIN'' = Some (0, 70)" by (simp add: phase_bounds_def)
  show ?thesis using phase_bucket_count [of 2 "''TRAIN''" 0 70] r b by simp
qed

end
