(* ===== verification/TaxiCsv.thy ===== *)
theory TaxiCsv
  imports TaxiQuery
begin

text \<open>
  The taxi \<open>to_csv(rowdict)\<close> of \<open>a_dataflow.ipynb\<close>: it reads the seven columns of
  \<open>CSV_COLUMNS\<close> from the row dictionary the BigQuery reader produces and joins their
  \<open>str\<close> with commas. A missing column raises \<open>KeyError\<close>. The local list \<open>days\<close>
  of the source is never read, so it has no counterpart here.
\<close>

section \<open>Definitions\<close>

definition taxi_CSV_COLUMNS :: "string list" where
  "taxi_CSV_COLUMNS =
     py_split (CHR '','') ''fare_amount,dayofweek,hourofday,pickuplon,pickuplat,dropofflon,dropofflat''"

text \<open>\<open>','.join([str(rowdict[k]) for k in CSV_COLUMNS])\<close>.\<close>

definition taxi_to_csv :: "float_repr \<Rightarrow> (string, pyval) dict \<Rightarrow> string result" where
  "taxi_to_csv fr rowdict =
     bindE (map_result (\<lambda>k. bindE (dict_get rowdict k) (\<lambda>v. Inr (py_str fr v))) taxi_CSV_COLUMNS)
       (\<lambda>fields. Inr (py_join '','' fields))"

section \<open>Properties\<close>

lemma taxi_CSV_COLUMNS_eq:
  "taxi_CSV_COLUMNS = [''fare_amount'', ''dayofweek'', ''hourofday'', ''pickuplon'', ''pickuplat'',
     ''dropofflon'', ''dropofflat'']"
  by (simp add: taxi_CSV_COLUMNS_def)

lemma taxi_to_csv_fields:
  assumes "\<forall>k \<in> set taxi_CSV_COLUMNS. d k \<noteq> None"
  shows "taxi_to_csv fr d = Inr (py_join '','' (map (\<lambda>k. py_str fr (the (d k))) taxi_CSV_COLUMNS))"
proof -
  have "map_result (\<lambda>k. bindE (dict_get d k) (\<lambda>v. Inr (py_str fr v))) taxi_CSV_COLUMNS =
      Inr (map (\<lambda>k. py_str fr (the (d k))) taxi_CSV_COLUMNS)"
    by (rule map_result_Inr) (use assms in auto)
  then show ?thesis by (simp add: taxi_to_csv_def)
qed

text \<open>
  When some column is missing, \<open>to_csv\<close> raises \<open>KeyError\<close> for the first missing
  column in \<open>CSV_COLUMNS\<close> order.
\<close>

theorem taxi_to_csv_key_error:
  assumes "taxi_CSV_COLUMNS = ys @ k # zs" "\<forall>y \<in> set ys. d y \<noteq> None" "d k = None"
  shows "taxi_to_csv fr d = Inl (KeyError k)"
proof -
  have "map_result (\<lambda>k. bindE (dict_get d k) (\<lambda>v. Inr (py_str fr v))) (ys @ k # zs) = Inl (KeyError k)"
    by (rule map_result_first_error) (use assms(2,3) in auto)
  then show ?thesis using assms(1) by (simp add: taxi_to_csv_def)
qed

text \<open>
  C29: The line \<open>to_csv\<close> writes for a row of the taxi query holds, in order, the fare
  with tolls, the day of week, the hour, and the four coordinates, when the float
  \<open>repr\<close> never prints a comma.
\<close>

theorem taxi_select_to_csv:
  assumes "\<forall>x. CHR '','' \<notin> set (fr x)"
  shows "map_sum id (py_split (CHR '','')) (taxi_to_csv fr (taxi_select t)) =
    Inr [fr (tolls_amount t + fare_amount t), show_int (ts_dayofweek (pickup_datetime t)),
         show_int (ts_hour (pickup_datetime t)), fr (pickup_longitude t), fr (pickup_latitude t),
         fr (dropoff_longitude t), fr (dropoff_latitude t)]"
proof -
  have "\<forall>k \<in> set taxi_CSV_COLUMNS. taxi_select t k \<noteq> None"
    by (simp add: taxi_CSV_COLUMNS_eq taxi_select_def)
  then have "taxi_to_csv fr (taxi_select t) =
      Inr (py_join '','' (map (\<lambda>k. py_str fr (the (taxi_select t k))) taxi_CSV_COLUMNS))"
    by (rule taxi_to_csv_fields)
  moreover have "py_split (CHR '','') (py_join [CHR '',''] (map (\<lambda>k. py_str fr (the (taxi_select t k))) taxi_CSV_COLUMNS)) =
      map (\<lambda>k. py_str fr (the (taxi_select t k))) taxi_CSV_COLUMNS"
    by (rule py_split_join) (use assms in \<open>auto simp: taxi_CSV_COLUMNS_eq taxi_select_def\<close>)
  ultimately show ?thesis by (simp add: taxi_CSV_COLUMNS_eq taxi_select_def)
qed

section \<open>Witnesses\<close>

theorem taxi_to_csv_key_error_witness:
  "taxi_CSV_COLUMNS = [''fare_amount''] @ ''dayofweek'' # [''hourofday'', ''pickuplon'', ''pickuplat'', ''dropofflon'', ''dropofflat''] \<and>
   [''fare_amount'' \<mapsto> PFloat 12.5] ''fare_amount'' \<noteq> None \<and>
   ([''fare_amount'' \<mapsto> PFloat 12.5] :: (string, pyval) dict) ''dayofweek'' = None \<and>
   taxi_to_csv example_repr [''fare_amount'' \<mapsto> PFloat 12.5] = Inl (KeyError ''dayofweek'')"
proof -
  have c: "taxi_CSV_COLUMNS = [''fare_amount''] @ ''dayofweek'' # [''hourofday'', ''pickuplon'', ''pickuplat'', ''dropofflon'', ''dropofflat'']"
    by (simp add: taxi_CSV_COLUMNS_eq)
  have "taxi_to_csv example_repr [''fare_amount'' \<mapsto> PFloat 12.5] = Inl (KeyError ''dayofweek'')"
    by (rule taxi_to_csv_key_error [OF c]) simp_all
  with c show ?thesis by simp
qed

theorem taxi_select_to_csv_witness:
  "map_sum id (py_split (CHR '','')) (taxi_to_csv example_repr (taxi_select example_trip)) =
    Inr [example_repr (tolls_amount example_trip + fare_amount example_trip),
         show_int (ts_dayofweek (pickup_datetime example_trip)),
         show_int (ts_hour (pickup_datetime example_trip)), example_repr (pickup_longitude example_trip),
         example_repr (pickup_latitude example_trip), example_repr (dropoff_longitude example_trip),
         example_repr (dropoff_latitude example_trip)]"
proof -
  have h: "\<forall>x. CHR '','' \<notin> set (example_repr x)" by (simp add: example_repr_def)
  show ?thesis using taxi_select_to_csv [OF h, of example_trip] by blast
qed

end
