(* ===== verification/TaxiPipeline.thy ===== *)
theory TaxiPipeline
  imports TaxiCsv Beam
begin

text \<open>
  The taxi \<open>preprocess(EVERY_N, RUNNER)\<close> of \<open>a_dataflow.ipynb\<close> and its two calls.
  It names the job from the clock, prints it, builds the pipeline options (reading the
  clock a second time for the options' job name), and for each phase of
  \<open>["TRAIN", "VALID", "TEST"]\<close> builds the phase's query with \<open>create_query\<close> and its
  output file, then applies three labelled transforms; leaving the \<open>with\<close> block runs
  the pipeline and waits for it. The three transforms of a phase are exercise
  \<open>TODO\<close>s in the source: they are modelled as the exercise text states them (read the
  query from BigQuery, \<open>to_csv\<close>, write the text file), under the labels the source gives.
\<close>

section \<open>Definitions\<close>

definition taxi_output_dir :: "string \<Rightarrow> string" where
  "taxi_output_dir BUCKET = ''gs://'' @ BUCKET @ ''/taxifare/ch4/taxi_preproc/''"

definition taxi_phases :: "string list" where
  "taxi_phases = [''TRAIN'', ''VALID'', ''TEST'']"

text \<open>One iteration of the phase loop: the query, the output file and the three stages.\<close>

definition taxi_phase_transforms :: "string \<Rightarrow> string \<Rightarrow> string \<Rightarrow> (string \<times> transform) list result" where
  "taxi_phase_transforms OUTPUT_DIR EVERY_N phase =
     bindE (create_query phase EVERY_N) (\<lambda>query.
       let outfile = path_join OUTPUT_DIR (phase @ ''.csv'') in
       Inr [(''read_'' @ phase, ReadBigQuery query),
            (''tocsv_'' @ phase, MapToCsv),
            (''write_'' @ phase, WriteText outfile)])"

text \<open>
  \<open>preprocess(EVERY_N, RUNNER)\<close>; \<open>now1\<close> and \<open>now2\<close> are the two readings of
  \<open>datetime.now().strftime("%y%m%d-%H%M%S")\<close>, \<open>BUCKET\<close> and \<open>PROJECT\<close> the notebook's
  globals. The pipeline's job name is the one of its options.
\<close>

definition taxi_preprocess ::
  "string \<Rightarrow> string \<Rightarrow> string \<Rightarrow> string \<Rightarrow> string \<Rightarrow> string \<Rightarrow> beam_plan result" where
  "taxi_preprocess EVERY_N RUNNER now1 now2 BUCKET PROJECT =
     (let job_name = ''preprocess-taxifeatures'' @ ''-'' @ now1;
          OUTPUT_DIR = taxi_output_dir BUCKET;
          options_job_name = ''preprocess-taxifeatures'' @ ''-'' @ now2;
          options = [''staging_location'' \<mapsto> PStr (path_join (path_join OUTPUT_DIR ''tmp'') ''staging''),
                     ''temp_location'' \<mapsto> PStr (path_join OUTPUT_DIR ''tmp''),
                     ''job_name'' \<mapsto> PStr options_job_name,
                     ''project'' \<mapsto> PStr PROJECT,
                     ''runner'' \<mapsto> PStr RUNNER]
      in bindE (map_result (taxi_phase_transforms OUTPUT_DIR EVERY_N) taxi_phases) (\<lambda>stages.
         Inr \<lparr>plan_job_name = options_job_name,
              plan_output_dir = OUTPUT_DIR,
              plan_options = options,
              plan_runner = RUNNER,
              plan_transforms = concat stages,
              plan_effects = [Print (''Launching Dataflow job '' @ job_name @ '' ... hang on''),
                              RunPipeline, WaitUntilFinish, Print ''Done'']\<rparr>))"

text \<open>The two calls of the notebook: a local run and a Dataflow run.\<close>

definition taxi_local_run :: "string \<Rightarrow> string \<Rightarrow> string \<Rightarrow> string \<Rightarrow> beam_plan result" where
  "taxi_local_run now1 now2 BUCKET PROJECT = taxi_preprocess ''50*10000'' ''DirectRunner'' now1 now2 BUCKET PROJECT"

definition taxi_cloud_run :: "string \<Rightarrow> string \<Rightarrow> string \<Rightarrow> string \<Rightarrow> beam_plan result" where
  "taxi_cloud_run now1 now2 BUCKET PROJECT = taxi_preprocess ''50*100'' ''DataflowRunner'' now1 now2 BUCKET PROJECT"

section \<open>Properties\<close>

lemma create_query_known:
  "subsample_of p = Some sub \<Longrightarrow> create_query p s = Inr (py_replace (basequery @ sub) ''EVERY_N'' s)"
  by (simp add: create_query_def)

lemma taxi_phase_queries:
  "\<exists>q. create_query ''TRAIN'' s = Inr q" "\<exists>q. create_query ''VALID'' s = Inr q"
  "\<exists>q. create_query ''TEST'' s = Inr q"
  by (simp_all add: create_query_def subsample_of_def)

lemma taxi_preprocess_fields:
  assumes "create_query ''TRAIN'' e = Inr qT" "create_query ''VALID'' e = Inr qV" "create_query ''TEST'' e = Inr qS"
  shows "\<exists>pl. taxi_preprocess e r n1 n2 b p = Inr pl \<and>
    plan_job_name pl = ''preprocess-taxifeatures-'' @ n2 \<and>
    plan_runner pl = r \<and>
    plan_options pl ''runner'' = Some (PStr r) \<and>
    plan_options pl ''job_name'' = Some (PStr (''preprocess-taxifeatures-'' @ n2)) \<and>
    plan_options pl ''temp_location'' = Some (PStr (taxi_output_dir b @ ''tmp'')) \<and>
    plan_options pl ''staging_location'' = Some (PStr (taxi_output_dir b @ ''tmp/staging'')) \<and>
    plan_transforms pl =
      [(''read_TRAIN'', ReadBigQuery qT), (''tocsv_TRAIN'', MapToCsv),
       (''write_TRAIN'', WriteText (taxi_output_dir b @ ''TRAIN.csv'')),
       (''read_VALID'', ReadBigQuery qV), (''tocsv_VALID'', MapToCsv),
       (''write_VALID'', WriteText (taxi_output_dir b @ ''VALID.csv'')),
       (''read_TEST'', ReadBigQuery qS), (''tocsv_TEST'', MapToCsv),
       (''write_TEST'', WriteText (taxi_output_dir b @ ''TEST.csv''))] \<and>
    plan_effects pl =
      [Print (''Launching Dataflow job preprocess-taxifeatures-'' @ n1 @ '' ... hang on''),
       RunPipeline, WaitUntilFinish, Print ''Done'']"
  using assms
  by (simp add: taxi_preprocess_def taxi_phase_transforms_def taxi_phases_def Let_def
                path_join_def taxi_output_dir_def)

text \<open>
  For every \<open>EVERY_N\<close> text and runner, \<open>preprocess\<close> builds its pipeline without
  error: for each of TRAIN, VALID and TEST it reads that phase's \<open>create_query\<close> text,
  converts the rows with \<open>to_csv\<close> and writes \<open>PHASE.csv\<close> under
  \<open>gs://BUCKET/taxifare/ch4/taxi_preproc/\<close>; it runs on the given runner, waits for the
  pipeline and then prints \<open>Done\<close>.
\<close>

theorem taxi_preprocess_plan:
  "\<exists>qT qV qS pl. create_query ''TRAIN'' e = Inr qT \<and> create_query ''VALID'' e = Inr qV \<and>
    create_query ''TEST'' e = Inr qS \<and> taxi_preprocess e r n1 n2 b p = Inr pl \<and>
    plan_runner pl = r \<and> plan_options pl ''runner'' = Some (PStr r) \<and>
    plan_transforms pl =
      [(''read_TRAIN'', ReadBigQuery qT), (''tocsv_TRAIN'', MapToCsv),
       (''write_TRAIN'', WriteText (''gs://'' @ b @ ''/taxifare/ch4/taxi_preproc/TRAIN.csv'')),
       (''read_VALID'', ReadBigQuery qV), (''tocsv_VALID'', MapToCsv),
       (''write_VALID'', WriteText (''gs://'' @ b @ ''/taxifare/ch4/taxi_preproc/VALID.csv'')),
       (''read_TEST'', ReadBigQuery qS), (''tocsv_TEST'', MapToCsv),
       (''write_TEST'', WriteText (''gs://'' @ b @ ''/taxifare/ch4/taxi_preproc/TEST.csv''))] \<and>
    drop 1 (plan_effects pl) = [RunPipeline, WaitUntilFinish, Print ''Done'']"
proof -
  obtain qT qV qS where q: "create_query ''TRAIN'' e = Inr qT" "create_query ''VALID'' e = Inr qV"
      "create_query ''TEST'' e = Inr qS"
    using taxi_phase_queries by blast
  show ?thesis using taxi_preprocess_fields [OF q, of r n1 n2 b p] q by (auto simp: taxi_output_dir_def)
qed

text \<open>
  The nine labels of the taxi pipeline's transforms are pairwise distinct, as Beam
  requires of the labels of one pipeline.
\<close>

theorem taxi_labels_distinct:
  "\<exists>pl. taxi_preprocess e r n1 n2 b p = Inr pl \<and> distinct (map fst (plan_transforms pl))"
proof -
  obtain qT qV qS where q: "create_query ''TRAIN'' e = Inr qT" "create_query ''VALID'' e = Inr qV"
      "create_query ''TEST'' e = Inr qS"
    using taxi_phase_queries by blast
  show ?thesis using taxi_preprocess_fields [OF q, of r n1 n2 b p] by auto
qed

text \<open>
  C32: The job name \<open>preprocess\<close> prints is the name Dataflow gets only when both readings
  of the clock give the same second: the options build the name from a second call of
  \<open>datetime.now()\<close>.
\<close>

theorem taxi_job_name_printed:
  "\<exists>pl. taxi_preprocess e r n1 n2 b p = Inr pl \<and>
    (hd (plan_effects pl) = Print (''Launching Dataflow job '' @ plan_job_name pl @ '' ... hang on'') \<longleftrightarrow> n1 = n2)"
proof -
  obtain qT qV qS where q: "create_query ''TRAIN'' e = Inr qT" "create_query ''VALID'' e = Inr qV"
      "create_query ''TEST'' e = Inr qS"
    using taxi_phase_queries by blast
  show ?thesis using taxi_preprocess_fields [OF q, of r n1 n2 b p] by auto
qed

end
