(* ===== verification/TaxiJobs.thy ===== *)
theory TaxiJobs
  imports Shell TaxiPipeline
begin

text \<open>
  The configuration and shell cells of \<open>a_dataflow.ipynb\<close> around the taxi pipeline:
  the Python configuration and its copy into \<open>os.environ\<close>, the \<open>gcloud config\<close> cell,
  the two cells that clear the pipeline's output directory before a run, the cell that
  prints the head of the first TRAIN shard, the cell that copies the first TRAIN and
  VALID shards into a local \<open>sample/\<close> directory, the local training run on that
  sample, and the Cloud ML Engine training job on the full output. The local disk is a
  store of files by absolute path; \<open>pwd\<close> is the notebook's working directory.
\<close>

section \<open>Definitions\<close>

record taxi_config =
  cfg_project :: string
  cfg_bucket :: string
  cfg_region :: string
  cfg_tfversion :: string

definition taxi_config_cell :: taxi_config where
  "taxi_config_cell =
     \<lparr>cfg_project = ''cloud-training-demos'', cfg_bucket = ''cloud-training-bucket'',
      cfg_region = ''us-central1'', cfg_tfversion = ''1.13''\<rparr>"

definition taxi_environ_cell :: "taxi_config \<Rightarrow> environ \<Rightarrow> environ" where
  "taxi_environ_cell c env =
     set_environ [(''PROJECT'', cfg_project c), (''BUCKET'', cfg_bucket c),
                  (''REGION'', cfg_region c), (''TFVERSION'', cfg_tfversion c)] env"

text \<open>\<open>gcloud config set\<close> of the project, the region and the local Python (\<open>`which python`\<close>).\<close>

definition gcloud_config_cell :: "environ \<Rightarrow> string \<Rightarrow> (string \<times> string) list" where
  "gcloud_config_cell env which_python =
     [(''project'', sh_expand env ''$PROJECT''), (''compute/region'', sh_expand env ''$REGION''),
      (''ml_engine/local_python'', which_python)]"

text \<open>
  The first clean-up cell: \<open>if gsutil ls | grep -q gs://${BUCKET}/taxifare/ch4/taxi_preproc/;
  then gsutil -m rm -rf gs://$BUCKET/taxifare/ch4/taxi_preproc/; fi\<close>. \<open>gsutil ls\<close>
  without an argument lists buckets only.
\<close>

definition taxi_cleanup_cell :: "environ \<Rightarrow> gcs_state \<Rightarrow> gcs_state" where
  "taxi_cleanup_cell env g =
     (if grep_q (sh_expand env ''gs://${BUCKET}/taxifare/ch4/taxi_preproc/'') (gsutil_ls_buckets g)
      then gsutil_rm_rf (sh_expand env ''gs://$BUCKET/taxifare/ch4/taxi_preproc/'') g
      else g)"

text \<open>The second clean-up cell, which lists the bucket recursively: \<open>gsutil ls -r gs://${BUCKET}\<close>.\<close>

definition taxi_cleanup_r_cell :: "environ \<Rightarrow> gcs_state \<Rightarrow> gcs_state" where
  "taxi_cleanup_r_cell env g =
     (if grep_q (sh_expand env ''gs://${BUCKET}/taxifare/ch4/taxi_preproc/'')
           (gsutil_ls_r (sh_expand env ''gs://${BUCKET}'') g)
      then gsutil_rm_rf (sh_expand env ''gs://${BUCKET}/taxifare/ch4/taxi_preproc/'') g
      else g)"

text \<open>\<open>gsutil cat "gs://$BUCKET/taxifare/ch4/taxi_preproc/TRAIN.csv-00000-of-*" | head\<close>.\<close>

definition train_shard0 :: "environ \<Rightarrow> string" where
  "train_shard0 env = sh_expand env ''gs://$BUCKET/taxifare/ch4/taxi_preproc/TRAIN.csv-00000-of-*''"

definition valid_shard0 :: "environ \<Rightarrow> string" where
  "valid_shard0 env = sh_expand env ''gs://$BUCKET/taxifare/ch4/taxi_preproc/VALID.csv-00000-of-*''"

definition head_cell :: "environ \<Rightarrow> gcs_state \<Rightarrow> string list result" where
  "head_cell env g = bindE (gsutil_cat (train_shard0 env) g) (\<lambda>ls. Inr (take 10 ls))"

text \<open>
  The sample cell: \<open>rm -rf sample; mkdir sample\<close>, then \<open>gsutil cat ... > sample/train.csv\<close>
  and the same for \<open>valid.csv\<close>. The shell creates the target file before running the
  command, so a \<open>cat\<close> that matches nothing leaves an empty file.
\<close>

type_synonym local_fs = "(string \<times> string list) list"

definition cat_to_file :: "string \<Rightarrow> string \<Rightarrow> gcs_state \<Rightarrow> local_fs \<Rightarrow> local_fs" where
  "cat_to_file pat file g fs =
     AList.update file (case gsutil_cat pat g of Inr ls \<Rightarrow> ls | Inl e \<Rightarrow> []) fs"

definition sample_cell :: "environ \<Rightarrow> string \<Rightarrow> gcs_state \<Rightarrow> local_fs \<Rightarrow> local_fs" where
  "sample_cell env pwd g fs =
     (let fs1 = filter (\<lambda>(k, _). \<not> prefix (pwd @ ''/sample/'') k) fs;
          fs2 = cat_to_file (train_shard0 env) (pwd @ ''/sample/train.csv'') g fs1
      in cat_to_file (valid_shard0 env) (pwd @ ''/sample/valid.csv'') g fs2)"

text \<open>The local training run: the command line of \<open>python -m taxifaremodel.task\<close>.\<close>

definition local_train_args :: "string \<Rightarrow> string list" where
  "local_train_args pwd =
     [''python'', ''-m'', ''taxifaremodel.task'',
      ''--train_data_path='' @ pwd @ ''/sample/train.csv'',
      ''--eval_data_path='' @ pwd @ ''/sample/valid.csv'',
      ''--output_dir='' @ pwd @ ''/taxi_trained'',
      ''--train_steps=10'', ''--job-dir=/tmp'']"

text \<open>The Cloud ML Engine training job: its data paths, command line and clean-up.\<close>

definition train_data_path :: "environ \<Rightarrow> string" where
  "train_data_path env = sh_expand env ''gs://${BUCKET}/taxifare/ch4/taxi_preproc/TRAIN*''"

definition eval_data_path :: "environ \<Rightarrow> string" where
  "eval_data_path env = sh_expand env ''gs://${BUCKET}/taxifare/ch4/taxi_preproc/VALID*''"

definition training_cell :: "environ \<Rightarrow> string \<Rightarrow> string \<Rightarrow> gcs_state \<Rightarrow> gcs_state \<times> string \<times> string list" where
  "training_cell env date pwd g =
     (let OUTDIR = sh_expand env ''gs://${BUCKET}/taxifare/ch4/taxi_trained'';
          JOBNAME = ''lab4a_'' @ date
      in (gsutil_rm_rf OUTDIR g,
          OUTDIR @ '' '' @ env_val env ''REGION'' @ '' '' @ JOBNAME,
          [''gcloud'', ''ml-engine'', ''jobs'', ''submit'', ''training'', JOBNAME,
           ''--region='' @ env_val env ''REGION'', ''--module-name=taxifaremodel.task'',
           ''--package-path='' @ pwd @ ''/taxifaremodel'', ''--job-dir='' @ OUTDIR,
           ''--staging-bucket=gs://'' @ env_val env ''BUCKET'', ''--scale-tier=BASIC'',
           ''--runtime-version='' @ env_val env ''TFVERSION'', ''--'',
           ''--train_data_path='' @ train_data_path env, ''--eval_data_path='' @ eval_data_path env,
           ''--train_steps=5000'', ''--output_dir='' @ OUTDIR]))"

section \<open>Properties\<close>

lemma sh_expand_taxi:
  "sh_expand env ''gs://${BUCKET}/taxifare/ch4/taxi_preproc/'' = ''gs://'' @ env_val env ''BUCKET'' @ ''/taxifare/ch4/taxi_preproc/''"
  "sh_expand env ''gs://$BUCKET/taxifare/ch4/taxi_preproc/'' = ''gs://'' @ env_val env ''BUCKET'' @ ''/taxifare/ch4/taxi_preproc/''"
  "sh_expand env ''gs://${BUCKET}'' = ''gs://'' @ env_val env ''BUCKET''"
  "train_data_path env = ''gs://'' @ env_val env ''BUCKET'' @ ''/taxifare/ch4/taxi_preproc/TRAIN*''"
  "eval_data_path env = ''gs://'' @ env_val env ''BUCKET'' @ ''/taxifare/ch4/taxi_preproc/VALID*''"
  by (simp_all add: is_name_char_def train_data_path_def eval_data_path_def)

text \<open>
  C34: The first clean-up cell never removes anything: \<open>gsutil ls\<close> without an
  argument prints only \<open>gs://bucket/\<close> lines, which cannot contain the six-slash path
  the cell greps for, so the output directory is not cleared as the text says it is.
\<close>

theorem taxi_cleanup_cell_noop:
  assumes "\<forall>b \<in> set (gcs_buckets g). CHR ''/'' \<notin> set b"
  shows "taxi_cleanup_cell env g = g"
proof -
  let ?P = "''gs://'' @ env_val env ''BUCKET'' @ ''/taxifare/ch4/taxi_preproc/''"
  have "\<not> sublist ?P l" if "l \<in> set (gsutil_ls_buckets g)" for l
  proof
    assume s: "sublist ?P l"
    from that obtain b where "b \<in> set (gcs_buckets g)" "l = ''gs://'' @ b @ ''/''"
      by (auto simp: gsutil_ls_buckets_def)
    with assms have "count_list l (CHR ''/'') = 3" by simp
    moreover have "6 \<le> count_list ?P (CHR ''/'')" by simp
    ultimately show False using sublist_count_le [OF s, of "CHR ''/''"] by simp
  qed
  then show ?thesis by (auto simp: taxi_cleanup_cell_def sh_expand_taxi grep_q_def list_ex_iff)
qed

text \<open>
  The second clean-up cell, which lists the bucket recursively, leaves no
  object under \<open>gs://BUCKET/taxifare/ch4/taxi_preproc/\<close>.
\<close>

theorem taxi_cleanup_r_cell_clears:
  "\<forall>k \<in> set (map fst (gcs_objects (taxi_cleanup_r_cell env g))).
     \<not> prefix (''gs://'' @ env_val env ''BUCKET'' @ ''/taxifare/ch4/taxi_preproc/'') k"
proof -
  let ?P = "''gs://'' @ env_val env ''BUCKET'' @ ''/taxifare/ch4/taxi_preproc/''"
  have dir: "rm_target ?P k \<longleftrightarrow> prefix ?P k" for k by (rule rm_target_dir) simp_all
  show ?thesis
  proof (cases "grep_q ?P (gsutil_ls_r (''gs://'' @ env_val env ''BUCKET'') g)")
    case True
    then have "gcs_objects (taxi_cleanup_r_cell env g) = filter (\<lambda>(k, _). \<not> rm_target ?P k) (gcs_objects g)"
      by (simp add: taxi_cleanup_r_cell_def sh_expand_taxi gsutil_rm_rf_def)
    then show ?thesis using dir by auto
  next
    case False
    have "\<not> prefix ?P k" if "k \<in> set (map fst (gcs_objects g))" for k
    proof
      assume p: "prefix ?P k"
      then have "prefix (''gs://'' @ env_val env ''BUCKET'' @ ''/'') k"
        by (rule prefix_order.trans [rotated]) simp
      with that have "k \<in> set (gsutil_ls_r (''gs://'' @ env_val env ''BUCKET'') g)"
        by (simp add: gsutil_ls_r_def)
      with p False show False by (auto simp: grep_q_def list_ex_iff)
    qed
    with False show ?thesis by (simp add: taxi_cleanup_r_cell_def sh_expand_taxi)
  qed
qed

text \<open>
  C6: The Cloud training job's \<open>--train_data_path\<close> pattern matches every TRAIN
  shard the taxi pipeline writes and no VALID or TEST shard; its \<open>--eval_data_path\<close>
  matches every VALID shard and no TRAIN or TEST shard.
\<close>

theorem training_reads_phase_shards:
  assumes "env_val env ''BUCKET'' = B" "CHR ''*'' \<notin> set B"
  shows "glob (train_data_path env) (text_shard (taxi_output_dir B @ ''TRAIN.csv'') i n) \<and>
    \<not> glob (train_data_path env) (text_shard (taxi_output_dir B @ ''VALID.csv'') i n) \<and>
    \<not> glob (train_data_path env) (text_shard (taxi_output_dir B @ ''TEST.csv'') i n) \<and>
    glob (eval_data_path env) (text_shard (taxi_output_dir B @ ''VALID.csv'') i n) \<and>
    \<not> glob (eval_data_path env) (text_shard (taxi_output_dir B @ ''TRAIN.csv'') i n) \<and>
    \<not> glob (eval_data_path env) (text_shard (taxi_output_dir B @ ''TEST.csv'') i n)"
proof -
  let ?w = "''gs://'' @ B @ ''/taxifare/ch4/taxi_preproc/''"
  have w: "CHR ''*'' \<notin> set ?w" using assms(2) by simp
  have sh: "text_shard (taxi_output_dir B @ ph) i n = ?w @ ph @ ''-'' @ pad5 i @ ''-of-'' @ pad5 n" for ph
    by (simp add: text_shard_def taxi_output_dir_def)
  have tr: "train_data_path env = ?w @ ''TRAIN*''" and ev: "eval_data_path env = ?w @ ''VALID*''"
    using assms(1) by (simp_all add: sh_expand_taxi)
  have free: "CHR ''/'' \<notin> set (''.csv-'' @ pad5 i @ ''-of-'' @ pad5 n)"
    using pad5_digits [of i] pad5_digits [of n] by simp
  show ?thesis
    unfolding sh tr ev glob_append_lit [OF w]
    using glob_star_any [OF free] by simp
qed

text \<open>
  The sample cell leaves \<open>sample/train.csv\<close> holding the lines of the objects
  matching the first-TRAIN-shard pattern, and an empty file when nothing matches.
\<close>

theorem sample_cell_train:
  "map_of (sample_cell env pwd g fs) (pwd @ ''/sample/train.csv'') =
    Some (case gsutil_cat (train_shard0 env) g of Inr ls \<Rightarrow> ls | Inl e \<Rightarrow> [])"
  by (simp add: sample_cell_def cat_to_file_def update_conv' Let_def)

section \<open>Witnesses\<close>

theorem taxi_cleanup_cell_noop_witness:
  "taxi_cleanup_cell [''BUCKET'' \<mapsto> ''b'']
      \<lparr>gcs_buckets = [''b''], gcs_objects = [(''gs://b/taxifare/ch4/taxi_preproc/TRAIN.csv'', [])]\<rparr> =
    \<lparr>gcs_buckets = [''b''], gcs_objects = [(''gs://b/taxifare/ch4/taxi_preproc/TRAIN.csv'', [])]\<rparr>"
  by (rule taxi_cleanup_cell_noop) simp

theorem taxi_cleanup_r_cell_clears_witness:
  "list_all (\<lambda>k. \<not> prefix (''gs://'' @ env_val [''BUCKET'' \<mapsto> ''b''] ''BUCKET'' @ ''/taxifare/ch4/taxi_preproc/'') k)
     (map fst (gcs_objects (taxi_cleanup_r_cell [''BUCKET'' \<mapsto> ''b'']
        \<lparr>gcs_buckets = [''b''], gcs_objects = [(''gs://b/taxifare/ch4/taxi_preproc/TRAIN.csv'', [])]\<rparr>)))"
  using taxi_cleanup_r_cell_clears [of "[''BUCKET'' \<mapsto> ''b'']"
      "\<lparr>gcs_buckets = [''b''], gcs_objects = [(''gs://b/taxifare/ch4/taxi_preproc/TRAIN.csv'', [])]\<rparr>"]
  by (simp only: list_all_iff)

theorem training_reads_phase_shards_witness:
  "glob (train_data_path [''BUCKET'' \<mapsto> ''b'']) (text_shard (taxi_output_dir ''b'' @ ''TRAIN.csv'') 0 1) \<and>
    \<not> glob (train_data_path [''BUCKET'' \<mapsto> ''b'']) (text_shard (taxi_output_dir ''b'' @ ''VALID.csv'') 0 1) \<and>
    \<not> glob (train_data_path [''BUCKET'' \<mapsto> ''b'']) (text_shard (taxi_output_dir ''b'' @ ''TEST.csv'') 0 1) \<and>
    glob (eval_data_path [''BUCKET'' \<mapsto> ''b'']) (text_shard (taxi_output_dir ''b'' @ ''VALID.csv'') 0 1) \<and>
    \<not> glob (eval_data_path [''BUCKET'' \<mapsto> ''b'']) (text_shard (taxi_output_dir ''b'' @ ''TRAIN.csv'') 0 1) \<and>
    \<not> glob (eval_data_path [''BUCKET'' \<mapsto> ''b'']) (text_shard (taxi_output_dir ''b'' @ ''TEST.csv'') 0 1)"
  by (rule training_reads_phase_shards) (simp_all add: env_val_def)

end
