(* ===== verification/TaxiServe.thy ===== *)
theory TaxiServe
  imports TaxiJobs
begin

text \<open>
  The cells of \<open>a_dataflow.ipynb\<close> that inspect and query the trained taxi model: the
  local ones read the export directory \<open>taxi_trained/export/exporter\<close> on the notebook's
  disk with \<open>ls\<close>, the cloud ones read \<open>gs://BUCKET/taxifare/ch4/taxi_trained/export/exporter\<close>
  with \<open>gsutil ls\<close>; each export is a sub-directory named by its time stamp. A cell's
  \<open>model_dir=$(...)\<close> is the command substitution of the listing, and the commands
  \<open>saved_model_cli\<close> and \<open>gcloud ml-engine local predict\<close> are modelled by the argument
  vector the shell passes them after expansion and field splitting; what they print is
  not modelled. \<open>ls\<close> sorts names bytewise, as in the C locale.
\<close>

section \<open>Definitions\<close>

text \<open>\<open>ls dir\<close>: the names directly below \<open>dir\<close>, sorted, each once.\<close>

definition ls_dir :: "string \<Rightarrow> local_fs \<Rightarrow> string list" where
  "ls_dir d fs =
     sort (remdups (map (\<lambda>k. takeWhile (\<lambda>c. c \<noteq> CHR ''/'') (drop (Suc (length d)) k))
                        (filter (prefix (d @ ''/'')) (map fst fs))))"

text \<open>The shell of a cell: the notebook's environment with \<open>PWD\<close> and the cell's own variables.\<close>

definition local_exporter :: "environ \<Rightarrow> string \<Rightarrow> string" where
  "local_exporter env pwd = sh_expand (env(''PWD'' \<mapsto> pwd)) ''${PWD}/taxi_trained/export/exporter''"

text \<open>
  \<open>model_dir=$(ls ${PWD}/taxi_trained/export/exporter | tail -1)\<close>, then
  \<open>saved_model_cli show --dir ${PWD}/taxi_trained/export/exporter/${model_dir} --all\<close>.
\<close>

definition local_saved_model_cell :: "environ \<Rightarrow> string \<Rightarrow> local_fs \<Rightarrow> string list" where
  "local_saved_model_cell env pwd fs =
     (let model_dir = cmd_subst (tail1 (ls_dir (local_exporter env pwd) fs));
          env' = env(''PWD'' \<mapsto> pwd, ''model_dir'' \<mapsto> model_dir)
      in [''saved_model_cli'', ''show'', ''--dir'']
         @ sh_word_fields env' ''${PWD}/taxi_trained/export/exporter/${model_dir}'' @ [''--all''])"

text \<open>\<open>%%writefile /tmp/test.json\<close>: the one-line instance file of the predict cells.\<close>

definition test_json_cell :: "local_fs \<Rightarrow> local_fs" where
  "test_json_cell fs =
     AList.update ''/tmp/test.json''
       [''{\"dayofweek\": 0, \"hourofday\": 17, \"pickuplon\": -73.885262, \"pickuplat\": 40.773008, \"dropofflon\": -73.987232, \"dropofflat\": 40.732403}'']
       fs"

text \<open>
  The local predict cell: \<open>model_dir=$(ls ${PWD}/taxi_trained/export/exporter)\<close>, without
  \<open>tail -1\<close>, then \<open>gcloud ml-engine local predict --model-dir=...${model_dir}
  --json-instances=/tmp/test.json\<close>.
\<close>

definition local_predict_cell :: "environ \<Rightarrow> string \<Rightarrow> local_fs \<Rightarrow> string list" where
  "local_predict_cell env pwd fs =
     (let model_dir = cmd_subst (ls_dir (local_exporter env pwd) fs);
          env' = env(''PWD'' \<mapsto> pwd, ''model_dir'' \<mapsto> model_dir)
      in [''gcloud'', ''ml-engine'', ''local'', ''predict'']
         @ sh_word_fields env' ''--model-dir=${PWD}/taxi_trained/export/exporter/${model_dir}''
         @ [''--json-instances=/tmp/test.json''])"

text \<open>
  \<open>gsutil ls gs://${BUCKET}/taxifare/ch4/taxi_trained/export/exporter | tail -1\<close>: a failing
  \<open>gsutil ls\<close> prints nothing on standard output.
\<close>

definition cloud_exporter :: "environ \<Rightarrow> string" where
  "cloud_exporter env = sh_expand env ''gs://${BUCKET}/taxifare/ch4/taxi_trained/export/exporter''"

definition exporter_ls_cell :: "environ \<Rightarrow> gcs_state \<Rightarrow> string list" where
  "exporter_ls_cell env g =
     tail1 (case gsutil_ls_dir (cloud_exporter env) g of Inl e \<Rightarrow> [] | Inr out \<Rightarrow> out)"

definition cloud_saved_model_cell :: "environ \<Rightarrow> gcs_state \<Rightarrow> string list" where
  "cloud_saved_model_cell env g =
     (let env' = env(''model_dir'' \<mapsto> cmd_subst (exporter_ls_cell env g))
      in [''saved_model_cli'', ''show'', ''--dir''] @ sh_word_fields env' ''${model_dir}'' @ [''--all''])"

definition cloud_predict_cell :: "environ \<Rightarrow> gcs_state \<Rightarrow> string list" where
  "cloud_predict_cell env g =
     (let env' = env(''model_dir'' \<mapsto> cmd_subst (exporter_ls_cell env g))
      in [''gcloud'', ''ml-engine'', ''local'', ''predict'']
         @ sh_word_fields env' ''--model-dir=${model_dir}'' @ [''--json-instances=/tmp/test.json''])"

section \<open>Properties\<close>

subsection \<open>Order of names\<close>

lemma less_append_same: "((p :: 'a :: linorder list) @ u < p @ v) \<longleftrightarrow> u < v"
  by (induction p) simp_all

lemma less_append_eqlen:
  "length (xs :: 'a :: linorder list) = length ys \<Longrightarrow> (xs @ zs < ys @ ws) \<longleftrightarrow> xs < ys \<or> xs = ys \<and> zs < ws"
  by (induction xs ys rule: list_induct2) auto

lemma of_char_digit_char_eq: "d < 10 \<Longrightarrow> of_char (digit_char d) = 48 + d"
  by (drule less_10_cases) (elim disjE; simp add: digit_char_def)

lemma digit_char_less: "a < 10 \<Longrightarrow> b < 10 \<Longrightarrow> digit_char a < digit_char b \<longleftrightarrow> a < b"
  by (simp add: less_char_def of_char_digit_char_eq)

lemma foldl_horner_shift:
  "foldl (\<lambda>acc d. 10 * acc + d) (a::nat) ds = a * 10 ^ length ds + foldl (\<lambda>acc d. 10 * acc + d) 0 ds"
proof (induction ds arbitrary: a)
  case Nil
  then show ?case by simp
next
  case (Cons d ds)
  show ?case using Cons.IH [of "10 * a + d"] Cons.IH [of d] by (simp add: algebra_simps)
qed

lemma foldl_horner_bound:
  "\<forall>d \<in> set ds. d < 10 \<Longrightarrow> foldl (\<lambda>acc d. 10 * acc + d) 0 ds < (10::nat) ^ length ds"
proof (induction ds rule: rev_induct)
  case Nil
  then show ?case by simp
next
  case (snoc d ds)
  then have "foldl (\<lambda>acc d. 10 * acc + d) 0 ds + 1 \<le> 10 ^ length ds" "d < 10" by simp_all
  then show ?case by simp
qed

lemma digits_less:
  assumes "length xs = length ys" "\<forall>d \<in> set xs. d < 10" "\<forall>d \<in> set ys. d < 10"
  shows "map digit_char xs < map digit_char ys \<longleftrightarrow>
    foldl (\<lambda>acc d. 10 * acc + d) 0 xs < foldl (\<lambda>acc d. 10 * acc + d) (0::nat) ys"
  using assms
proof (induction xs ys rule: list_induct2)
  case Nil
  then show ?case by simp
next
  case (Cons x xs y ys)
  let ?h = "foldl (\<lambda>acc d. 10 * acc + d) (0::nat)"
  have hx: "?h xs < 10 ^ length xs" and hy: "?h ys < 10 ^ length ys"
    using Cons.prems by (simp_all add: foldl_horner_bound)
  have vx: "?h (x # xs) = x * 10 ^ length xs + ?h xs" and vy: "?h (y # ys) = y * 10 ^ length xs + ?h ys"
    using foldl_horner_shift [of x xs] foldl_horner_shift [of y ys] Cons.hyps by simp_all
  have "x < y \<Longrightarrow> x * 10 ^ length xs + ?h xs < y * 10 ^ length xs + ?h ys"
  proof -
    assume "x < y"
    then have "(x + 1) * 10 ^ length xs \<le> y * 10 ^ length xs" by (intro mult_right_mono) simp_all
    with hx show ?thesis by (simp add: algebra_simps)
  qed
  moreover have "y < x \<Longrightarrow> y * 10 ^ length xs + ?h ys < x * 10 ^ length xs + ?h xs"
  proof -
    assume "y < x"
    then have "(y + 1) * 10 ^ length xs \<le> x * 10 ^ length xs" by (intro mult_right_mono) simp_all
    with hy Cons.hyps show ?thesis by (simp add: algebra_simps)
  qed
  ultimately show ?case using Cons digit_char_less [of x y] digit_char_less [of y x] vx vy
    by (cases x y rule: linorder_cases) auto
qed

lemma show_nat_less:
  "length (show_nat a) = length (show_nat b) \<Longrightarrow> show_nat a < show_nat b \<longleftrightarrow> a < b"
  using digits_less [of "nat_digits a" "nat_digits b"] nat_digits_lt [of _ a] nat_digits_lt [of _ b]
  by (simp add: show_nat_def horner_nat_digits)

lemma sorted_last_Max: "sorted ys \<Longrightarrow> ys \<noteq> [] \<Longrightarrow> last ys = Max (set ys)"
proof (induction ys)
  case Nil
  then show ?case by simp
next
  case (Cons y ys)
  show ?case
  proof (cases "ys = []")
    case True
    then show ?thesis by simp
  next
    case False
    with Cons have "last ys = Max (set ys)" "\<forall>z \<in> set ys. y \<le> z" by simp_all
    with False show ?thesis by (simp add: Max_insert max_def)
  qed
qed

lemma last_sort_Max: "xs \<noteq> [] \<Longrightarrow> last (sort xs) = Max (set xs)"
  by (metis length_0_conv length_sort set_sort sorted_last_Max sorted_sort)

lemma Max_image_mono:
  "finite A \<Longrightarrow> A \<noteq> {} \<Longrightarrow> \<forall>a \<in> A. \<forall>b \<in> A. a \<le> b \<longrightarrow> f a \<le> f b \<Longrightarrow> Max (f ` A) = f (Max A)"
proof (rule Max_eqI)
  assume "finite A" "A \<noteq> {}" and m: "\<forall>a \<in> A. \<forall>b \<in> A. a \<le> b \<longrightarrow> f a \<le> f b"
  then show "f (Max A) \<in> f ` A" by simp
  fix y assume "y \<in> f ` A"
  then obtain a where "a \<in> A" "y = f a" by blast
  with m \<open>finite A\<close> \<open>A \<noteq> {}\<close> show "y \<le> f (Max A)" by simp
qed simp

subsection \<open>Listings\<close>

lemma show_nat_no_slash: "CHR ''/'' \<notin> set (show_nat n)"
  using show_nat_digits [of n] by auto

lemma show_nat_no_ifs: "\<forall>x \<in> set (show_nat n). \<not> is_ifs x"
  using show_nat_digits [of n] by (auto simp: is_ifs_def)

lemma gsutil_ls_dir_exports:
  assumes "X \<notin> set (map fst (gcs_objects g))"
    "filter (prefix (X @ ''/'')) (map fst (gcs_objects g)) = map (\<lambda>(t, f). X @ ''/'' @ show_nat t @ ''/'' @ f) exps"
    "exps \<noteq> []"
  shows "gsutil_ls_dir X g = Inr (sort (remdups (map (\<lambda>(t, f). X @ ''/'' @ show_nat t @ ''/'') exps)))"
proof -
  have ex: "filter (\<lambda>k. k = X) (map fst (gcs_objects g)) = []"
    using assms(1) by (force simp: filter_empty_conv)
  have tw: "takeWhile (\<lambda>c. c \<noteq> CHR ''/'') (show_nat t @ ''/'' @ f) = show_nat t" for t f
    using show_nat_no_slash [of t] by (subst takeWhile_append2) auto
  have "ls_entry X (X @ ''/'' @ show_nat t @ ''/'' @ f) = X @ ''/'' @ show_nat t @ ''/''" for t f
    using tw [of t f] by (simp add: ls_entry_def Let_def)
  then have "map (ls_entry X) (map (\<lambda>(t, f). X @ ''/'' @ show_nat t @ ''/'' @ f) exps) =
      map (\<lambda>(t, f). X @ ''/'' @ show_nat t @ ''/'') exps"
    by (induction exps) auto
  then have m: "map (ls_entry X) (filter (prefix (X @ ''/'')) (map fst (gcs_objects g))) =
      map (\<lambda>(t, f). X @ ''/'' @ show_nat t @ ''/'') exps"
    unfolding assms(2) .
  show ?thesis using assms(2,3) unfolding gsutil_ls_dir_def Let_def ex m by simp
qed

lemma show_nat_slash_mono:
  assumes "length (show_nat a) = length (show_nat b)" "a \<le> b"
  shows "P @ show_nat a @ ''/'' \<le> P @ show_nat b @ ''/''"
proof (cases "a = b")
  case False
  with assms have "show_nat a < show_nat b" by (simp add: show_nat_less)
  then show ?thesis using assms(1) by (simp add: less_append_same less_append_eqlen order_less_imp_le)
qed simp

lemma sh_expand_model_dir:
  "sh_expand (env(''PWD'' \<mapsto> pwd, ''model_dir'' \<mapsto> v)) ''${PWD}/taxi_trained/export/exporter/${model_dir}'' =
     pwd @ ''/taxi_trained/export/exporter/'' @ v"
  "sh_expand (env(''PWD'' \<mapsto> pwd, ''model_dir'' \<mapsto> v)) ''--model-dir=${PWD}/taxi_trained/export/exporter/${model_dir}'' =
     ''--model-dir='' @ pwd @ ''/taxi_trained/export/exporter/'' @ v"
  "sh_expand (env(''model_dir'' \<mapsto> v)) ''--model-dir=${model_dir}'' = ''--model-dir='' @ v"
  "sh_expand (env(''model_dir'' \<mapsto> v)) ''${model_dir}'' = v"
  "local_exporter env pwd = pwd @ ''/taxi_trained/export/exporter''"
  "cloud_exporter env = ''gs://'' @ env_val env ''BUCKET'' @ ''/taxifare/ch4/taxi_trained/export/exporter''"
  by (simp_all add: is_name_char_def env_val_def local_exporter_def cloud_exporter_def)

lemma exporter_ls_latest:
  assumes "cloud_exporter env \<notin> set (map fst (gcs_objects g))"
    "filter (prefix (cloud_exporter env @ ''/'')) (map fst (gcs_objects g)) =
       map (\<lambda>(t, f). cloud_exporter env @ ''/'' @ show_nat t @ ''/'' @ f) exps"
    "exps \<noteq> []" "\<forall>t \<in> fst ` set exps. length (show_nat t) = n"
  shows "exporter_ls_cell env g = [cloud_exporter env @ ''/'' @ show_nat (Max (fst ` set exps)) @ ''/'']"
proof -
  let ?X = "cloud_exporter env"
  let ?f = "\<lambda>t. ?X @ ''/'' @ show_nat t @ ''/''"
  define L where "L = map (\<lambda>(t, f). ?X @ ''/'' @ show_nat t @ ''/'') exps"
  have "L = map ?f (map fst exps)" by (simp add: L_def case_prod_beta comp_def)
  then have L: "set L = ?f ` (fst ` set exps)" "L \<noteq> []" using assms(3) by (simp_all add: image_image)
  have m: "Max (?f ` (fst ` set exps)) = ?f (Max (fst ` set exps))"
  proof (rule Max_image_mono)
    show "\<forall>a \<in> fst ` set exps. \<forall>b \<in> fst ` set exps. a \<le> b \<longrightarrow> ?f a \<le> ?f b"
    proof (intro ballI impI)
      fix a b assume "a \<in> fst ` set exps" "b \<in> fst ` set exps" "a \<le> b"
      then show "?f a \<le> ?f b" using show_nat_slash_mono [of a b "?X @ ''/''"] assms(4) by simp
    qed
  qed (use assms(3) in simp_all)
  have "gsutil_ls_dir ?X g = Inr (sort (remdups L))"
    unfolding L_def by (rule gsutil_ls_dir_exports [OF assms(1-3)])
  moreover have "sort (remdups L) \<noteq> []" using L(2) by (metis set_empty set_remdups set_sort)
  ultimately show ?thesis using L m last_sort_Max [of "remdups L"]
    by (simp add: exporter_ls_cell_def tail1_def)
qed

text \<open>
  C9: When the cloud export directory holds only time-stamp sub-directories whose
  names have the same number of digits, the cloud predict cell runs
  \<open>gcloud ml-engine local predict\<close> on the newest export: the one with the greatest
  time stamp.
\<close>

theorem cloud_predict_latest:
  assumes "cloud_exporter env \<notin> set (map fst (gcs_objects g))"
    "filter (prefix (cloud_exporter env @ ''/'')) (map fst (gcs_objects g)) =
       map (\<lambda>(t, f). cloud_exporter env @ ''/'' @ show_nat t @ ''/'' @ f) exps"
    "exps \<noteq> []" "\<forall>t \<in> fst ` set exps. length (show_nat t) = n"
    "\<forall>c \<in> set (env_val env ''BUCKET''). \<not> is_ifs c"
  shows "cloud_predict_cell env g =
    [''gcloud'', ''ml-engine'', ''local'', ''predict'',
     ''--model-dir='' @ cloud_exporter env @ ''/'' @ show_nat (Max (fst ` set exps)) @ ''/'',
     ''--json-instances=/tmp/test.json'']"
proof -
  define E where "E = cloud_exporter env @ ''/'' @ show_nat (Max (fst ` set exps)) @ ''/''"
  have nf: "\<forall>c \<in> set E. \<not> is_ifs c"
    using assms(5) show_nat_no_ifs [of "Max (fst ` set exps)"]
    by (auto simp: E_def sh_expand_model_dir is_ifs_def)
  have nf2: "\<forall>c \<in> set (''--model-dir='' @ E). \<not> is_ifs c" using nf by (auto simp: is_ifs_def)
  have c: "cmd_subst [E] = E" using nf by (intro trans [OF cmd_subst_join]) (auto simp: E_def is_ifs_def)
  have ls: "exporter_ls_cell env g = [E]" unfolding E_def by (rule exporter_ls_latest [OF assms(1-4)])
  have f: "ifs_fields [] (''--model-dir='' @ E) = [''--model-dir='' @ E]"
    using nf2 by (simp add: ifs_fields_free)
  show ?thesis unfolding E_def [symmetric]
    unfolding cloud_predict_cell_def sh_word_fields_def Let_def ls c sh_expand_model_dir(3) f by simp
qed

text \<open>
  C21: The local \<open>saved_model_cli\<close> cell inspects the last export the listing shows, but
  the local predict cell, whose \<open>ls\<close> lacks \<open>| tail -1\<close>, passes the first export as
  \<open>--model-dir\<close> and every further export as a stray argument of its own.
\<close>

theorem local_model_dir_cells:
  assumes "ls_dir (pwd @ ''/taxi_trained/export/exporter'') fs = e # es"
    "\<forall>x \<in> set (e # es). x \<noteq> [] \<and> (\<forall>c \<in> set x. \<not> is_ifs c)" "\<forall>c \<in> set pwd. \<not> is_ifs c"
  shows "local_saved_model_cell env pwd fs =
      [''saved_model_cli'', ''show'', ''--dir'', pwd @ ''/taxi_trained/export/exporter/'' @ last (e # es), ''--all''] \<and>
    local_predict_cell env pwd fs =
      [''gcloud'', ''ml-engine'', ''local'', ''predict'', ''--model-dir='' @ pwd @ ''/taxi_trained/export/exporter/'' @ e]
      @ es @ [''--json-instances=/tmp/test.json'']"
proof -
  have nl: "\<forall>x \<in> set xs. x \<noteq> [] \<and> CHR 10 \<notin> set x"
    if "\<forall>x \<in> set xs. x \<noteq> [] \<and> (\<forall>c \<in> set x. \<not> is_ifs c)" for xs
    using that by (auto simp: is_ifs_def)
  have a2: "\<forall>x \<in> set [last (e # es)]. x \<noteq> [] \<and> (\<forall>c \<in> set x. \<not> is_ifs c)"
    using assms(2) last_in_set [of "e # es"] by (metis empty_iff empty_set list.distinct(1) set_ConsD)
  have c1: "cmd_subst [last (e # es)] = py_join [CHR 10] [last (e # es)]"
    using nl [OF a2] by (intro cmd_subst_join) simp_all
  have c2: "cmd_subst (e # es) = py_join [CHR 10] (e # es)"
    using nl [OF assms(2)] by (intro cmd_subst_join) simp_all
  have p1: "\<forall>c \<in> set (pwd @ ''/taxi_trained/export/exporter/''). \<not> is_ifs c"
    and p2: "\<forall>c \<in> set (''--model-dir='' @ pwd @ ''/taxi_trained/export/exporter/''). \<not> is_ifs c"
    using assms(3) by (auto simp: is_ifs_def)
  have t: "tail1 (e # es) = [last (e # es)]" by (simp add: tail1_def)
  have f1: "ifs_fields [] (pwd @ ''/taxi_trained/export/exporter/'' @ py_join [CHR 10] [last (e # es)]) =
      [pwd @ ''/taxi_trained/export/exporter/'' @ last (e # es)]"
    using ifs_fields_join [OF a2 _ p1] by simp
  have f2: "ifs_fields [] (''--model-dir='' @ pwd @ ''/taxi_trained/export/exporter/'' @ py_join [CHR 10] (e # es)) =
      (''--model-dir='' @ pwd @ ''/taxi_trained/export/exporter/'' @ e) # es"
    using ifs_fields_join [OF assms(2) _ p2] by simp
  show ?thesis
    unfolding local_saved_model_cell_def local_predict_cell_def sh_word_fields_def Let_def
      sh_expand_model_dir(5) assms(1) t c1 c2 sh_expand_model_dir(1,2) f1 f2
    by simp
qed


section \<open>Witnesses\<close>

theorem cloud_predict_latest_witness:
  "cloud_predict_cell [''BUCKET'' \<mapsto> ''b'']
     \<lparr>gcs_buckets = [''b''],
      gcs_objects = [(''gs://b/taxifare/ch4/taxi_trained/export/exporter/3/m'', []),
                     (''gs://b/taxifare/ch4/taxi_trained/export/exporter/7/m'', [])]\<rparr> =
   [''gcloud'', ''ml-engine'', ''local'', ''predict'',
    ''--model-dir=gs://b/taxifare/ch4/taxi_trained/export/exporter/7/'', ''--json-instances=/tmp/test.json'']"
proof -
  let ?env = "[''BUCKET'' \<mapsto> ''b'']"
  let ?g = "\<lparr>gcs_buckets = [''b''],
      gcs_objects = [(''gs://b/taxifare/ch4/taxi_trained/export/exporter/3/m'', []),
                     (''gs://b/taxifare/ch4/taxi_trained/export/exporter/7/m'', [])]\<rparr>"
  have X: "cloud_exporter ?env = ''gs://b/taxifare/ch4/taxi_trained/export/exporter''"
    by (simp add: sh_expand_model_dir(6) env_val_def)
  have s: "show_nat 3 = ''3''" "show_nat 7 = ''7''"
    by (simp_all add: show_nat_def nat_digits.simps digit_char_def)
  have h1: "cloud_exporter ?env \<notin> set (map fst (gcs_objects ?g))" unfolding X by simp
  have h2: "filter (prefix (cloud_exporter ?env @ ''/'')) (map fst (gcs_objects ?g)) =
       map (\<lambda>(t, f). cloud_exporter ?env @ ''/'' @ show_nat t @ ''/'' @ f) [(3::nat, ''m''), (7, ''m'')]"
    unfolding X by (simp add: s)
  have h4: "\<forall>t \<in> fst ` set [(3::nat, ''m''), (7, ''m'')]. length (show_nat t) = 1" by (simp add: s)
  have h5: "\<forall>c \<in> set (env_val ?env ''BUCKET''). \<not> is_ifs c" by (simp add: env_val_def is_ifs_def)
  show ?thesis using cloud_predict_latest [OF h1 h2 _ h4 h5] unfolding X by (simp add: s)
qed

theorem local_model_dir_cells_witness:
  "local_saved_model_cell Map.empty ''/w''
     [(''/w/taxi_trained/export/exporter/3/m'', []), (''/w/taxi_trained/export/exporter/7/m'', [])] =
     [''saved_model_cli'', ''show'', ''--dir'', ''/w/taxi_trained/export/exporter/7'', ''--all''] \<and>
   local_predict_cell Map.empty ''/w''
     [(''/w/taxi_trained/export/exporter/3/m'', []), (''/w/taxi_trained/export/exporter/7/m'', [])] =
     [''gcloud'', ''ml-engine'', ''local'', ''predict'', ''--model-dir=/w/taxi_trained/export/exporter/3'',
      ''7'', ''--json-instances=/tmp/test.json'']"
proof -
  have l: "ls_dir (''/w'' @ ''/taxi_trained/export/exporter'')
     [(''/w/taxi_trained/export/exporter/3/m'', []), (''/w/taxi_trained/export/exporter/7/m'', [])] = ''3'' # [''7'']"
    by (simp add: ls_dir_def)
  show ?thesis using local_model_dir_cells [OF l] by (simp add: is_ifs_def)
qed
end
