(* ===== verification/TaxiFiles.thy ===== *)
theory TaxiFiles
  imports TaxiServe
begin

text \<open>
  The cells of \<open>a_dataflow.ipynb\<close> that work on files around training. \<open>gsutil ls -l\<close>
  lists the preprocessed shards with their sizes. The model-copy cell copies the
  \<open>taxifaremodel\<close> package of the previous lab next to the notebook. Two \<open>grep -A\<close>
  cells show parts of its \<open>model.py\<close>, and \<open>ls -R\<close> lists the local export directory.
  The disk is the association list \<open>local_fs\<close> of \<open>TaxiJobs\<close> from absolute file paths
  to lines, so directories exist through the files below them. Paths with \<open>..\<close> are
  resolved segment by segment, without symbolic links.
\<close>

section \<open>Definitions\<close>

subsection \<open>Paths and the model copy\<close>

text \<open>Path resolution: empty segments and \<open>.\<close> are dropped, \<open>..\<close> goes up one directory.\<close>

fun norm_segs :: "string list \<Rightarrow> string list \<Rightarrow> string list" where
  "norm_segs acc [] = acc"
| "norm_segs acc (s # ss) =
     (if s = [] \<or> s = ''.'' then norm_segs acc ss
      else if s = ''..'' then norm_segs (butlast acc) ss
      else norm_segs (acc @ [s]) ss)"

definition resolve_path :: "string \<Rightarrow> string" where
  "resolve_path p = ''/'' @ py_join ''/'' (norm_segs [] (py_split (CHR ''/'') p))"

text \<open>The shell's \<open>*\<close> skips names that start with a dot.\<close>

definition hidden_name :: "string \<Rightarrow> bool" where
  "hidden_name e \<longleftrightarrow> e \<noteq> [] \<and> hd e = CHR ''.''"

text \<open>
  \<open>cp -r SRC/* DST\<close> into the directory \<open>DST\<close>: each file below \<open>SRC\<close> whose first
  segment is not hidden is written at the same relative path below \<open>DST\<close>; other
  files of \<open>DST\<close> stay.
\<close>

definition cp_r_into :: "string \<Rightarrow> string \<Rightarrow> local_fs \<Rightarrow> local_fs" where
  "cp_r_into src dst fs =
     fold (\<lambda>(k, c). AList.update k c)
       (map (\<lambda>(k, c). (dst @ drop (length src) k, c))
          (filter (\<lambda>(k, c). prefix (src @ ''/'') k \<and> \<not> hidden_name (drop (Suc (length src)) k)) fs))
       fs"

definition model_src :: "string \<Rightarrow> string" where
  "model_src pwd = resolve_path (pwd @ ''/../../03_model_performance/taxifaremodel'')"

text \<open>
  \<open>MODELDIR=./taxifaremodel; test -d $MODELDIR || mkdir $MODELDIR;
  cp -r ../../03_model_performance/taxifaremodel/* $MODELDIR\<close>. A glob without a match
  is passed on literally and \<open>cp\<close> fails. When \<open>MODELDIR\<close> is a regular file, \<open>mkdir\<close>
  fails; \<open>cp\<close> then overwrites it with a single source file and fails otherwise. The
  cell's status is that of \<open>cp\<close>.
\<close>

definition model_copy_cell :: "string \<Rightarrow> local_fs \<Rightarrow> local_fs result" where
  "model_copy_cell pwd fs =
     (let MODELDIR = pwd @ ''/taxifaremodel'';
          src = model_src pwd;
          names = filter (\<lambda>e. \<not> hidden_name e) (ls_dir src fs)
      in if names = [] then Inl (CalledProcessError ''cp'')
         else if MODELDIR \<in> set (map fst fs) then
           (case names of
              [e] \<Rightarrow> (case map_of fs (src @ ''/'' @ e) of
                       Some c \<Rightarrow> Inr (AList.update MODELDIR c fs)
                     | None \<Rightarrow> Inl (CalledProcessError ''cp''))
            | _ \<Rightarrow> Inl (CalledProcessError ''cp''))
         else Inr (cp_r_into src MODELDIR fs))"

subsection \<open>grep -A\<close>

text \<open>
  \<open>grep -A n PAT\<close>: the lines that contain \<open>PAT\<close> and the \<open>n\<close> lines after each,
  every line once, with \<open>--\<close> between groups that are not adjacent. No match is exit
  status 1, which makes the \<open>%%bash\<close> cell fail.
\<close>

definition grep_sel :: "nat \<Rightarrow> string \<Rightarrow> string list \<Rightarrow> nat list" where
  "grep_sel n pat ls = filter (\<lambda>i. list_ex (\<lambda>j. sublist pat (ls ! j)) [i - n..<Suc i]) [0..<length ls]"

fun grep_seps :: "string list \<Rightarrow> nat option \<Rightarrow> nat list \<Rightarrow> string list" where
  "grep_seps ls prev [] = []"
| "grep_seps ls prev (i # is) =
     (case prev of Some p \<Rightarrow> if Suc p < i then [''--''] else [] | None \<Rightarrow> [])
     @ ls ! i # grep_seps ls (Some i) is"

definition grep_A :: "nat \<Rightarrow> string \<Rightarrow> string list \<Rightarrow> string list result" where
  "grep_A n pat ls =
     (let is = grep_sel n pat ls
      in if is = [] then Inl (CalledProcessError ''grep'') else Inr (grep_seps ls None is))"

text \<open>\<open>grep -A n PAT file\<close> relative to the notebook directory; a missing file is status 2.\<close>

definition grep_file_cell :: "nat \<Rightarrow> string \<Rightarrow> string \<Rightarrow> string \<Rightarrow> local_fs \<Rightarrow> string list result" where
  "grep_file_cell n pat file pwd fs =
     (case map_of fs (pwd @ ''/'' @ file) of
        None \<Rightarrow> Inl (CalledProcessError ''grep'')
      | Some ls \<Rightarrow> grep_A n pat ls)"

definition feature_cols_cell :: "string \<Rightarrow> local_fs \<Rightarrow> string list result" where
  "feature_cols_cell pwd fs = grep_file_cell 15 ''feature_cols ='' ''taxifaremodel/model.py'' pwd fs"

definition engineered_grep_cell :: "string \<Rightarrow> local_fs \<Rightarrow> string list result" where
  "engineered_grep_cell pwd fs = grep_file_cell 5 ''add_engineered_features('' ''taxifaremodel/model.py'' pwd fs"

subsection \<open>ls -R\<close>

text \<open>
  The directories that hold the file \<open>k\<close> below \<open>base\<close>, as segment lists relative to
  \<open>base\<close>, \<open>base\<close> itself being \<open>[]\<close>.
\<close>

definition file_dirs :: "string \<Rightarrow> string \<Rightarrow> string list list" where
  "file_dirs base k =
     (let ss = py_split (CHR ''/'') (drop (Suc (length base)) k) in map (\<lambda>j. take j ss) [0..<length ss])"

text \<open>
  \<open>ls -R arg\<close>: a section per directory, headed \<open>dir:\<close> and listing its names as \<open>ls\<close>
  does, sections separated by an empty line. \<open>ls -R\<close> visits a directory, then its
  sub-directories in name order, which is the lexicographic order of their segment lists.
\<close>

definition ls_R :: "string \<Rightarrow> string \<Rightarrow> local_fs \<Rightarrow> string list result" where
  "ls_R arg base fs =
     (let ds = sort (remdups (concat (map (file_dirs base) (filter (prefix (base @ ''/'')) (map fst fs)))))
      in if ds = [] then Inl (CalledProcessError ''ls'')
         else Inr (tl (concat (map (\<lambda>d. let rel = concat (map (\<lambda>s. ''/'' @ s) d)
                                        in [[], arg @ rel @ '':''] @ ls_dir (base @ rel) fs) ds))))"

definition ls_R_export_cell :: "string \<Rightarrow> local_fs \<Rightarrow> string list result" where
  "ls_R_export_cell pwd fs = ls_R ''taxi_trained/export'' (pwd @ ''/taxi_trained/export'') fs"

subsection \<open>gsutil ls -l\<close>

text \<open>
  \<open>gsutil ls -l url/\<close>: the entries directly below \<open>url\<close> in name order, an object as
  its size right-aligned in ten columns, its creation time and its URL, a
  sub-directory as its URL after 33 blanks; then the line \<open>TOTAL\<close>. An object's size is
  its text with a newline after each line. Creation times and the human-readable size
  are parameters.
\<close>

definition rjust :: "nat \<Rightarrow> string \<Rightarrow> string" where
  "rjust w s = replicate (w - length s) (CHR '' '') @ s"

definition obj_size :: "string list \<Rightarrow> nat" where
  "obj_size ls = sum_list (map (\<lambda>l. length l + 1) ls)"

definition gsutil_ls_l :: "(string \<Rightarrow> string) \<Rightarrow> (nat \<Rightarrow> string) \<Rightarrow> string \<Rightarrow> gcs_state \<Rightarrow> string list result" where
  "gsutil_ls_l ts human url st =
     (let d = (if url \<noteq> [] \<and> last url = CHR ''/'' then butlast url else url);
          below = filter (\<lambda>(k, _). prefix (d @ ''/'') k) (gcs_objects st);
          entries = sort (remdups (map (\<lambda>(k, _). ls_entry d k) below));
          objs = filter (\<lambda>(k, _). ls_entry d k = k) below;
          bytes = sum_list (map (\<lambda>(_, ls). obj_size ls) objs)
      in if entries = [] then Inl (CommandException url)
         else Inr (map (\<lambda>e. case map_of objs e of
                              Some ls \<Rightarrow> rjust 10 (show_nat (obj_size ls)) @ ''  '' @ ts e @ ''  '' @ e
                            | None \<Rightarrow> replicate 33 (CHR '' '') @ e) entries
                   @ [''TOTAL: '' @ show_nat (length objs) @ '' objects, '' @ show_nat bytes
                      @ '' bytes ('' @ human bytes @ '')'']))"

definition preproc_ls_l_cell :: "environ \<Rightarrow> (string \<Rightarrow> string) \<Rightarrow> (nat \<Rightarrow> string) \<Rightarrow> gcs_state \<Rightarrow> string list result" where
  "preproc_ls_l_cell env ts human g = gsutil_ls_l ts human (sh_expand env ''gs://$BUCKET/taxifare/ch4/taxi_preproc/'') g"

text \<open>A disk with the previous lab's package next to the notebook directory \<open>/h/d/04/labs\<close>.\<close>

definition example_model_fs :: local_fs where
  "example_model_fs =
     [(''/h/d/03_model_performance/taxifaremodel/model.py'',
       [''feature_cols = ['', ''  tf.feature_column.numeric_column('dayofweek'),'', '']'',
        ''def add_engineered_features(features):'', ''  return features'']),
      (''/h/d/03_model_performance/taxifaremodel/.ipynb_checkpoints'', [])]"

section \<open>Properties\<close>

subsection \<open>The model copy\<close>

lemma map_of_fold_update:
  "map_of (fold (\<lambda>(k, v). AList.update k v) xs al) = map_of al ++ map_of (rev xs)"
  by (induction xs arbitrary: al) (auto simp: update_conv' map_add_def fun_eq_iff split: option.split)

lemma ls_dir_name:
  assumes "map_of fs (d @ ''/'' @ e) = Some c" "CHR ''/'' \<notin> set e"
  shows "e \<in> set (ls_dir d fs)"
proof -
  have "(d @ ''/'' @ e, c) \<in> set fs" using assms(1) by (rule map_of_SomeD)
  then have k: "d @ ''/'' @ e \<in> set (filter (prefix (d @ ''/'')) (map fst fs))"
    by (simp add: rev_image_eqI)
  have t: "takeWhile (\<lambda>c. c \<noteq> CHR ''/'') (drop (Suc (length d)) (d @ ''/'' @ e)) = e"
    using assms(2) by (auto simp: takeWhile_eq_all_conv)
  show ?thesis unfolding ls_dir_def set_sort set_remdups set_map
    by (rule image_eqI [where f = "\<lambda>k. takeWhile (\<lambda>c. c \<noteq> CHR ''/'') (drop (Suc (length d)) k)", OF t [symmetric] k])
qed

lemma cp_r_into_keys:
  "map fst (map (\<lambda>(k, c). (dst @ drop (length src) k, c)) xs) = map (\<lambda>k. dst @ drop (length src) k) (map fst xs)"
  by (induction xs) auto

lemma cp_r_into_inj:
  "inj_on (\<lambda>k. dst @ drop (length src) k) {k. prefix (src @ ''/'') k}"
  by (rule inj_onI) (auto simp: prefix_def)

lemma cp_r_into_copied:
  assumes "distinct (map fst fs)" "map_of fs (src @ ''/'' @ rel) = Some c" "\<not> hidden_name rel"
  shows "map_of (cp_r_into src dst fs) (dst @ ''/'' @ rel) = Some c"
proof -
  let ?P = "\<lambda>(k, c). prefix (src @ ''/'') k \<and> \<not> hidden_name (drop (Suc (length src)) k)"
  let ?g = "\<lambda>(k, c). (dst @ drop (length src) k, c)"
  let ?ys = "map ?g (filter ?P fs)"
  have "distinct (map fst (filter ?P fs))" using assms(1) by (simp add: distinct_map_filter)
  moreover have "inj_on (\<lambda>k. dst @ drop (length src) k) (set (map fst (filter ?P fs)))"
    by (rule inj_on_subset [OF cp_r_into_inj]) auto
  ultimately have "distinct (map fst ?ys)" by (simp only: cp_r_into_keys distinct_map)
  then have dr: "distinct (map fst (rev ?ys))" by (simp add: rev_map [symmetric])
  have "(src @ ''/'' @ rel, c) \<in> set fs" using assms(2) by (rule map_of_SomeD)
  then have "(src @ ''/'' @ rel, c) \<in> set (filter ?P fs)" using assms(3) by simp
  moreover have "(dst @ ''/'' @ rel, c) = ?g (src @ ''/'' @ rel, c)" by simp
  ultimately have "(dst @ ''/'' @ rel, c) \<in> set (rev ?ys)" unfolding set_rev set_map by (rule rev_image_eqI)
  then have "map_of (rev ?ys) (dst @ ''/'' @ rel) = Some c" using dr by (simp only: map_of_eq_Some_iff)
  then show ?thesis by (simp add: cp_r_into_def map_of_fold_update)
qed

lemma cp_r_into_other:
  "\<not> prefix (dst @ ''/'') k \<Longrightarrow> map_of (cp_r_into src dst fs) k = map_of fs k"
  by (auto simp: cp_r_into_def map_of_fold_update map_add_def prefix_def rev_map [symmetric]
           split: option.split dest!: map_of_SomeD)

lemma model_copy_cell_dir:
  assumes "pwd @ ''/taxifaremodel'' \<notin> set (map fst fs)" "map_of fs (model_src pwd @ ''/model.py'') = Some code"
  shows "model_copy_cell pwd fs = Inr (cp_r_into (model_src pwd) (pwd @ ''/taxifaremodel'') fs)"
proof -
  have "''model.py'' \<in> set (filter (\<lambda>e. \<not> hidden_name e) (ls_dir (model_src pwd) fs))"
    using ls_dir_name [of fs "model_src pwd" "''model.py''"] assms(2) by (simp add: hidden_name_def)
  then have "filter (\<lambda>e. \<not> hidden_name e) (ls_dir (model_src pwd) fs) \<noteq> []" by force
  with assms(1) show ?thesis by (simp add: model_copy_cell_def Let_def)
qed

subsection \<open>grep -A\<close>

lemma grep_seps_nth: "i \<in> set is \<Longrightarrow> ls ! i \<in> set (grep_seps ls p is)"
  by (induction ls p "is" rule: grep_seps.induct) auto

lemma grep_sel_Nil: "grep_sel n pat ls = [] \<longleftrightarrow> \<not> list_ex (sublist pat) ls"
proof
  assume e: "grep_sel n pat ls = []"
  show "\<not> list_ex (sublist pat) ls"
  proof
    assume "list_ex (sublist pat) ls"
    then obtain i where "i < length ls" "sublist pat (ls ! i)" by (auto simp: list_ex_iff in_set_conv_nth)
    then have "i \<in> set (grep_sel n pat ls)" by (auto simp: grep_sel_def list_ex_iff intro!: bexI [of _ i])
    with e show False by simp
  qed
next
  assume "\<not> list_ex (sublist pat) ls"
  then show "grep_sel n pat ls = []"
    by (auto simp: grep_sel_def list_ex_iff filter_empty_conv)
qed

lemma grep_sel_after:
  assumes "sublist pat (ls ! i)" "k \<le> n" "i + k < length ls"
  shows "i + k \<in> set (grep_sel n pat ls)"
proof -
  have "i \<in> set [i + k - n..<Suc (i + k)]" using assms(2) by auto
  then show ?thesis using assms by (auto simp: grep_sel_def list_ex_iff)
qed

subsection \<open>ls -R\<close>

lemma file_dirs_not_Nil: "file_dirs base k \<noteq> []"
  using py_split_not_Nil [of "CHR ''/''" "drop (Suc (length base)) k"]
  by (simp add: file_dirs_def Let_def del: py_split_not_Nil)

lemma ls_R_Inl:
  "(\<exists>e. ls_R arg base fs = Inl e) \<longleftrightarrow> (\<forall>k \<in> set (map fst fs). \<not> prefix (base @ ''/'') k)"
proof -
  have s: "\<And>ys. sort ys = [] \<longleftrightarrow> ys = []" by (metis length_0_conv length_sort)
  show ?thesis using file_dirs_not_Nil by (auto simp: ls_R_def Let_def s filter_empty_conv)
qed

text \<open>
  C10: When \<open>taxifaremodel\<close> is not a file next to the notebook and the previous lab's
  package has a \<open>model.py\<close>, the model-copy cell succeeds: every file of the package
  whose first segment is not hidden is found at the same relative path below
  \<open>taxifaremodel\<close>, files elsewhere are untouched, and the two \<open>grep\<close> cells then read
  the copied \<open>model.py\<close>, so they print what \<open>grep -A\<close> prints on the original.
\<close>

theorem model_copy_then_grep:
  assumes "distinct (map fst fs)" "pwd @ ''/taxifaremodel'' \<notin> set (map fst fs)"
    and "map_of fs (model_src pwd @ ''/model.py'') = Some code"
  shows "\<exists>fs'. model_copy_cell pwd fs = Inr fs' \<and>
           (\<forall>rel c. \<not> hidden_name rel \<longrightarrow> map_of fs (model_src pwd @ ''/'' @ rel) = Some c \<longrightarrow>
              map_of fs' (pwd @ ''/taxifaremodel/'' @ rel) = Some c) \<and>
           (\<forall>k. \<not> prefix (pwd @ ''/taxifaremodel/'') k \<longrightarrow> map_of fs' k = map_of fs k) \<and>
           feature_cols_cell pwd fs' = grep_A 15 ''feature_cols ='' code \<and>
           engineered_grep_cell pwd fs' = grep_A 5 ''add_engineered_features('' code"
proof (intro exI conjI allI impI)
  let ?fs' = "cp_r_into (model_src pwd) (pwd @ ''/taxifaremodel'') fs"
  show "model_copy_cell pwd fs = Inr ?fs'" using assms(2,3) by (rule model_copy_cell_dir)
  show "map_of ?fs' (pwd @ ''/taxifaremodel/'' @ rel) = Some c"
    if "\<not> hidden_name rel" "map_of fs (model_src pwd @ ''/'' @ rel) = Some c" for rel c
    using cp_r_into_copied [OF assms(1) that(2,1), of "pwd @ ''/taxifaremodel''"] by simp
  show "map_of ?fs' k = map_of fs k" if "\<not> prefix (pwd @ ''/taxifaremodel/'') k" for k
    using that by (simp add: cp_r_into_other)
  have "map_of ?fs' (pwd @ ''/taxifaremodel/model.py'') = Some code"
    using cp_r_into_copied [where rel = "''model.py''" and dst = "pwd @ ''/taxifaremodel''"] assms(1,3)
    by (simp add: hidden_name_def)
  then show "feature_cols_cell pwd ?fs' = grep_A 15 ''feature_cols ='' code"
    and "engineered_grep_cell pwd ?fs' = grep_A 5 ''add_engineered_features('' code"
    by (simp_all add: feature_cols_cell_def engineered_grep_cell_def grep_file_cell_def)
qed

text \<open>
  \<open>grep -A n PAT\<close> fails exactly when no line contains \<open>PAT\<close>; otherwise it prints
  every matching line together with each of the \<open>n\<close> lines after it that the file has.
\<close>

theorem grep_A_context:
  "(grep_A n pat ls = Inl (CalledProcessError ''grep'') \<longleftrightarrow> \<not> list_ex (sublist pat) ls) \<and>
   (grep_A n pat ls = Inr out \<longrightarrow> sublist pat (ls ! i) \<longrightarrow> k \<le> n \<longrightarrow> i + k < length ls \<longrightarrow>
      ls ! (i + k) \<in> set out)"
proof (intro conjI impI)
  show "grep_A n pat ls = Inl (CalledProcessError ''grep'') \<longleftrightarrow> \<not> list_ex (sublist pat) ls"
    using grep_sel_Nil [of n pat ls] by (auto simp: grep_A_def Let_def)
  assume "grep_A n pat ls = Inr out" "sublist pat (ls ! i)" "k \<le> n" "i + k < length ls"
  then show "ls ! (i + k) \<in> set out"
    by (auto simp: grep_A_def Let_def split: if_splits intro: grep_seps_nth grep_sel_after)
qed

section \<open>Witnesses\<close>

theorem model_copy_then_grep_witness:
  "\<exists>fs'. model_copy_cell ''/h/d/04/labs'' example_model_fs = Inr fs' \<and>
     map_of fs' ''/h/d/04/labs/taxifaremodel/model.py'' =
       map_of example_model_fs ''/h/d/03_model_performance/taxifaremodel/model.py'' \<and>
     map_of fs' ''/h/d/03_model_performance/taxifaremodel/.ipynb_checkpoints'' = Some [] \<and>
     feature_cols_cell ''/h/d/04/labs'' fs' =
       grep_A 15 ''feature_cols ='' (the (map_of example_model_fs ''/h/d/03_model_performance/taxifaremodel/model.py'')) \<and>
     engineered_grep_cell ''/h/d/04/labs'' fs' =
       grep_A 5 ''add_engineered_features('' (the (map_of example_model_fs ''/h/d/03_model_performance/taxifaremodel/model.py''))"
proof -
  define code where "code = the (map_of example_model_fs ''/h/d/03_model_performance/taxifaremodel/model.py'')"
  have d: "distinct (map fst example_model_fs)" by (simp add: example_model_fs_def)
  have n: "''/h/d/04/labs'' @ ''/taxifaremodel'' \<notin> set (map fst example_model_fs)"
    by (simp add: example_model_fs_def)
  have src: "model_src ''/h/d/04/labs'' = ''/h/d/03_model_performance/taxifaremodel''" by code_simp
  have m: "map_of example_model_fs (model_src ''/h/d/04/labs'' @ ''/model.py'') = Some code"
    unfolding src code_def by (simp add: example_model_fs_def)
  obtain fs' where c: "model_copy_cell ''/h/d/04/labs'' example_model_fs = Inr fs'"
    and cp: "\<forall>rel c. \<not> hidden_name rel \<longrightarrow> map_of example_model_fs (model_src ''/h/d/04/labs'' @ ''/'' @ rel) = Some c \<longrightarrow>
               map_of fs' (''/h/d/04/labs'' @ ''/taxifaremodel/'' @ rel) = Some c"
    and keep: "\<forall>k. \<not> prefix (''/h/d/04/labs'' @ ''/taxifaremodel/'') k \<longrightarrow> map_of fs' k = map_of example_model_fs k"
    and g: "feature_cols_cell ''/h/d/04/labs'' fs' = grep_A 15 ''feature_cols ='' code"
           "engineered_grep_cell ''/h/d/04/labs'' fs' = grep_A 5 ''add_engineered_features('' code"
    using model_copy_then_grep [OF d n m] by blast
  have "map_of fs' ''/h/d/04/labs/taxifaremodel/model.py'' = Some code"
    using cp m by (simp add: hidden_name_def)
  moreover have "map_of fs' ''/h/d/03_model_performance/taxifaremodel/.ipynb_checkpoints'' = Some []"
    using keep by (simp add: example_model_fs_def)
  ultimately show ?thesis using c g by (auto simp: code_def example_model_fs_def)
qed

theorem grep_A_context_witness:
  "(grep_A 1 ''a'' [''a'', ''x'', ''y''] = Inl (CalledProcessError ''grep'') \<longleftrightarrow>
      \<not> list_ex (sublist ''a'') [''a'', ''x'', ''y'']) \<and>
   [''a'', ''x'', ''y''] ! (0 + 1) \<in> set [''a'', ''x'']"
proof -
  have "grep_A 1 ''a'' [''a'', ''x'', ''y''] = Inr [''a'', ''x'']" by code_simp
  moreover have "sublist ''a'' ([''a'', ''x'', ''y''] ! 0)" by simp
  ultimately show ?thesis
    using grep_A_context [of 1 "''a''" "[''a'', ''x'', ''y'']" "[''a'', ''x'']" 0 1] by simp
qed

end
