(* ===== verification/DataflowRun.thy ===== *)
theory DataflowRun
  imports BabyJobs TaxiFiles
begin

text \<open>
  The babyweight \<open>preprocess\<close> of \<open>part_000\<close> run against the cloud: the notebook's
  cells and the Dataflow jobs they start interleave. \<open>p.run()\<close> only submits a job;
  in test mode the cell then blocks in \<open>job.wait_until_finish()\<close>, in cloud mode it
  returns at once and the job finishes at some later point, between any two cells.
  The state is the object store, the local disk, the running jobs and the lines printed.
  A job is its name and its outcome: the objects \<open>WriteToText\<close> writes when the job
  succeeds, or the exception that fails it. The step relation \<open>df_step\<close> has one rule
  per kind of step: the \<open>preprocess\<close> cell in either mode, and the completion of any
  running job. How \<open>WriteToText\<close> splits a step's lines into shards is the runner's
  choice, a parameter of each run. Before it submits a job, the Dataflow runner uploads
  the job's files to the \<open>staging_location\<close> option, \<open>OUTPUT_DIR/tmp/staging\<close>; which
  files it uploads is the runner's choice too, a parameter of the environment.
\<close>

section \<open>Definitions\<close>

record df_env =
  de_fr :: float_repr
  de_fp :: fingerprint
  de_rows :: "natality list"
  de_bucket :: string
  de_project :: string
  de_pwd :: string
  de_staged :: "string \<Rightarrow> (string \<times> string list) list"  \<comment> \<open>the files staged for a job name\<close>

record df_state =
  df_gcs :: gcs_state
  df_disk :: local_fs
  df_jobs :: "(string \<times> (string \<times> string list) list result) list"
  df_out :: "string list"

type_synonym sharding = "string \<Rightarrow> string list \<Rightarrow> string list list"

text \<open>A sharding the runner may choose: at least one shard, and together the step's lines.\<close>

definition valid_sharding :: "sharding \<Rightarrow> bool" where
  "valid_sharding shard \<longleftrightarrow> (\<forall>step ls. shard step ls \<noteq> [] \<and> mset (concat (shard step ls)) = mset ls)"

subsection \<open>What a job writes\<close>

text \<open>
  A step's lines from the inner query's rows: its \<open>WHERE MOD(hashmonth, 100) ...\<close>,
  then \<open>FlatMap(to_csv)\<close>.
\<close>

definition step_lines :: "float_repr \<Rightarrow> string \<Rightarrow> (natality \<times> int) list \<Rightarrow> string list result" where
  "step_lines fr step xs =
     bindE (sql_where (\<lambda>(r, h). split_where step h) xs) (\<lambda>ys.
     bindE (map_result (baby_to_csv fr) (map (\<lambda>(r, h). beam_rowdict r h) ys)) (\<lambda>lss. Inr (concat lss)))"

text \<open>\<open>WriteToText(path)\<close> of lines split into shards: shard \<open>i\<close> of \<open>n\<close> is \<open>text_shard path i n\<close>.\<close>

definition shard_objects :: "string \<Rightarrow> string list list \<Rightarrow> (string \<times> string list) list" where
  "shard_objects path parts = map (\<lambda>i. (text_shard path i (length parts), parts ! i)) [0..<length parts]"

text \<open>
  The outcome of the pipeline: for each step in order, the rows its \<open>ReadFromBigQuery\<close>
  reads (\<open>reads step\<close>), its lines and their shards under the output directory; the
  first exception fails the whole job.
\<close>

definition job_outcome ::
  "float_repr \<Rightarrow> sharding \<Rightarrow> string \<Rightarrow> (string \<Rightarrow> (natality \<times> int) list result) \<Rightarrow>
     (string \<times> string list) list result" where
  "job_outcome fr shard out reads =
     bindE (map_result (\<lambda>step. bindE (reads step) (\<lambda>xs. bindE (step_lines fr step xs) (\<lambda>ls.
              Inr (shard_objects (path_join out (step @ ''.csv'')) (shard step ls))))) baby_steps)
       (\<lambda>objs. Inr (concat objs))"

text \<open>
  The objects \<open>p.run()\<close> uploads under the \<open>staging_location\<close> of the options, for the
  runner's files \<open>files\<close>: a file name joined to the location with \<open>/\<close>.
\<close>

definition staging_objects ::
  "(string, pyval) dict \<Rightarrow> (string \<times> string list) list \<Rightarrow> (string \<times> string list) list" where
  "staging_objects opts files =
     (case opts ''staging_location'' of
        Some (PStr loc) \<Rightarrow> map (\<lambda>(f, c). (loc @ ''/'' @ f, c)) files
      | _ \<Rightarrow> [])"

subsection \<open>Effects on the state\<close>

text \<open>A local path of the code, relative to the notebook's directory \<open>pwd\<close>.\<close>

definition local_path :: "string \<Rightarrow> string \<Rightarrow> string" where
  "local_path pwd d = resolve_path (pwd @ ''/'' @ d)"

text \<open>A finished job's objects: \<open>gs://\<close> URLs go to the object store, others to the disk.\<close>

fun write_obj :: "string \<Rightarrow> df_state \<Rightarrow> string \<times> string list \<Rightarrow> df_state" where
  "write_obj pwd st (url, ls) =
     (if prefix ''gs://'' url then st\<lparr>df_gcs := gcs_write url ls (df_gcs st)\<rparr>
      else st\<lparr>df_disk := AList.update (local_path pwd url) ls (df_disk st)\<rparr>)"

definition apply_writes :: "string \<Rightarrow> (string \<times> string list) list \<Rightarrow> df_state \<Rightarrow> df_state" where
  "apply_writes pwd ws st = foldl (write_obj pwd) st ws"

text \<open>Job \<open>i\<close> (if there is one) finishes: it leaves the running jobs and, when it succeeded, writes its objects.\<close>

definition finish_job :: "string \<Rightarrow> nat \<Rightarrow> df_state \<Rightarrow> df_state" where
  "finish_job pwd i st =
     (if length (df_jobs st) \<le> i then st
      else let st' = st\<lparr>df_jobs := take i (df_jobs st) @ drop (Suc i) (df_jobs st)\<rparr>
           in case snd (df_jobs st ! i) of Inr ws \<Rightarrow> apply_writes pwd ws st' | Inl e \<Rightarrow> st')"

text \<open>
  The effects of \<open>preprocess\<close> in order, for the job it builds. \<open>shutil.rmtree\<close> with
  \<open>ignore_errors=True\<close> removes the files below the directory; \<open>os.makedirs\<close> fails when
  a file has the directory's name; \<open>gsutil -m rm -r\<close> inside \<open>try: ... except: pass\<close>
  removes the objects below the directory; \<open>p.run()\<close> uploads the staged objects
  \<open>staged\<close> and submits the job;
  \<open>job.wait_until_finish()\<close> blocks until the job just submitted finishes and raises its
  exception when it failed.
\<close>

fun run_effects ::
  "string \<Rightarrow> string \<Rightarrow> (string \<times> string list) list result \<Rightarrow> (string \<times> string list) list \<Rightarrow> effect list \<Rightarrow>
     df_state \<Rightarrow> df_state \<times> error option" where
  "run_effects pwd name job staged [] st = (st, None)"
| "run_effects pwd name job staged (Print s # es) st = run_effects pwd name job staged es (st\<lparr>df_out := df_out st @ [s]\<rparr>)"
| "run_effects pwd name job staged (RmTree d # es) st =
     run_effects pwd name job staged es (st\<lparr>df_disk := filter (\<lambda>(k, _). \<not> prefix (local_path pwd d @ ''/'') k) (df_disk st)\<rparr>)"
| "run_effects pwd name job staged (MakeDirs d # es) st =
     (if local_path pwd d \<in> set (map fst (df_disk st)) then (st, Some (OSError d))
      else run_effects pwd name job staged es st)"
| "run_effects pwd name job staged (GsutilRm d # es) st =
     run_effects pwd name job staged es (st\<lparr>df_gcs := gsutil_rm_rf d (df_gcs st)\<rparr>)"
| "run_effects pwd name job staged (RunPipeline # es) st =
     run_effects pwd name job staged es ((apply_writes pwd staged st)\<lparr>df_jobs := df_jobs st @ [(name, job)]\<rparr>)"
| "run_effects pwd name job staged (WaitUntilFinish # es) st =
     (let st' = finish_job pwd (length (df_jobs st) - 1) st
      in case job of Inl e \<Rightarrow> (st', Some e) | Inr ws \<Rightarrow> run_effects pwd name job staged es st')"

text \<open>
  The cell that calls \<open>preprocess(in_test_mode)\<close>; \<open>now\<close> is the time stamp of the job
  name, \<open>shard\<close> the runner's sharding and \<open>reads\<close> what each step's query returns.
  Only the \<open>DataflowRunner\<close> stages files; the \<open>DirectRunner\<close> of test mode runs locally.
\<close>

definition baby_preprocess_cell ::
  "df_env \<Rightarrow> sharding \<Rightarrow> bool \<Rightarrow> string \<Rightarrow> (string \<Rightarrow> (natality \<times> int) list result) \<Rightarrow>
     df_state \<Rightarrow> df_state \<times> error option" where
  "baby_preprocess_cell E shard in_test_mode now reads st =
     (let plan = baby_preprocess in_test_mode now (de_bucket E) (de_project E)
      in run_effects (de_pwd E) (plan_job_name plan)
           (job_outcome (de_fr E) shard (plan_output_dir plan) reads)
           (if plan_runner plan = ''DataflowRunner''
            then staging_objects (plan_options plan) (de_staged E (plan_job_name plan)) else [])
           (plan_effects plan) st)"

subsection \<open>Interleaving of cells and jobs\<close>

text \<open>
  In cloud mode every step's query reads the whole inner query. In test mode the inner
  query ends in \<open>LIMIT 100\<close>, and each step's \<open>SELECT * FROM (query) WHERE ...\<close> is a query
  of its own, so each step reads its own choice of at most 100 inner rows. A job may
  finish whenever it runs.
\<close>

inductive df_step :: "df_env \<Rightarrow> df_state \<Rightarrow> df_state \<Rightarrow> bool" for E where
  cloud_cell: "valid_sharding shard \<Longrightarrow>
     df_step E st (fst (baby_preprocess_cell E shard False now (\<lambda>_. beam_inner (de_fp E) (de_rows E)) st))"
| test_cell: "valid_sharding shard \<Longrightarrow> \<forall>step. sql_limit_res 100 (beam_inner (de_fp E) (de_rows E)) (reads step) \<Longrightarrow>
     df_step E st (fst (baby_preprocess_cell E shard True now reads st))"
| job_done: "i < length (df_jobs st) \<Longrightarrow> df_step E st (finish_job (de_pwd E) i st)"

inductive df_reach :: "df_env \<Rightarrow> df_state \<Rightarrow> df_state \<Rightarrow> bool" for E where
  reach_refl: "df_reach E s s"
| reach_step: "df_step E s t \<Longrightarrow> df_reach E t u \<Longrightarrow> df_reach E s u"

definition preproc_dir :: "df_env \<Rightarrow> string" where
  "preproc_dir E = ''gs://'' @ de_bucket E @ ''/babyweight/preproc/''"

text \<open>
  An object below the Dataflow output directory that belongs there: shard \<open>i\<close> of \<open>n\<close>
  of \<open>train.csv\<close> or \<open>eval.csv\<close> whose lines are, with their multiplicities, among
  the lines of that step over the whole inner query; or a file the runner staged for
  some job, under \<open>tmp/staging/\<close>.
\<close>

definition shard_ok :: "df_env \<Rightarrow> string \<Rightarrow> string list \<Rightarrow> bool" where
  "shard_ok E k c \<longleftrightarrow>
     (\<exists>step \<in> set baby_steps. \<exists>i n ls. i < n \<and> k = text_shard (preproc_dir E @ step @ ''.csv'') i n \<and>
        bindE (beam_inner (de_fp E) (de_rows E)) (step_lines (de_fr E) step) = Inr ls \<and> mset c \<subseteq># mset ls)"

definition staged_ok :: "df_env \<Rightarrow> string \<Rightarrow> string list \<Rightarrow> bool" where
  "staged_ok E k c \<longleftrightarrow> (\<exists>name f. (f, c) \<in> set (de_staged E name) \<and> k = preproc_dir E @ ''tmp/staging/'' @ f)"

definition preproc_ok :: "df_env \<Rightarrow> string \<Rightarrow> string list \<Rightarrow> bool" where
  "preproc_ok E k c \<longleftrightarrow> (prefix (preproc_dir E) k \<longrightarrow> shard_ok E k c \<or> staged_ok E k c)"

text \<open>A job whose objects, if it succeeds, all belong there.\<close>

definition job_ok :: "df_env \<Rightarrow> (string \<times> string list) list result \<Rightarrow> bool" where
  "job_ok E out \<longleftrightarrow> (\<forall>ws. out = Inr ws \<longrightarrow> (\<forall>(k, c) \<in> set ws. preproc_ok E k c))"

definition preproc_inv :: "df_env \<Rightarrow> df_state \<Rightarrow> bool" where
  "preproc_inv E s \<longleftrightarrow>
     (\<forall>(k, c) \<in> set (gcs_objects (df_gcs s)). preproc_ok E k c) \<and> (\<forall>j \<in> set (df_jobs s). job_ok E (snd j))"

text \<open>
  Example data: the notebook in \<open>/home/j\<close> with bucket \<open>b\<close>, one natality row, a store
  with the bucket and nothing else, and two shardings the runner may choose.
\<close>

definition example_df_env :: df_env where
  "example_df_env =
     \<lparr>de_fr = example_repr, de_fp = (\<lambda>_. 7), de_rows = [example_birth],
      de_bucket = ''b'', de_project = ''p'', de_pwd = ''/home/j'',
      de_staged = (\<lambda>_. [(''pipeline.pb'', [''pipeline''])])\<rparr>"

definition example_df_state :: df_state where
  "example_df_state =
     \<lparr>df_gcs = \<lparr>gcs_buckets = [''b''], gcs_objects = []\<rparr>, df_disk = [], df_jobs = [], df_out = []\<rparr>"

text \<open>
  The objects of a store whose names match a pattern, in listing order: what
  \<open>gsutil ls\<close> and \<open>gsutil cat\<close> of the pattern read.
\<close>

definition objs_matching :: "string \<Rightarrow> gcs_state \<Rightarrow> (string \<times> string list) list" where
  "objs_matching pat g = filter (\<lambda>(k, _). glob pat k) (gcs_objects g)"

definition one_shard :: sharding where
  "one_shard step ls = [ls]"

definition two_shards :: sharding where
  "two_shards step ls = [take 1 ls, drop 1 ls]"


section \<open>Properties\<close>

subsection \<open>The cells\<close>

lemma baby_preprocess_cloud_cell:
  "baby_preprocess_cell E shard False now reads st =
     ((apply_writes (de_pwd E) (map (\<lambda>(f, c). (preproc_dir E @ ''tmp/staging/'' @ f, c))
                                 (de_staged E (''preprocess-babyweight-features-'' @ now)))
        (st\<lparr>df_out := df_out st @ [''Launching Dataflow job preprocess-babyweight-features-'' @ now @ '' ... hang on''],
            df_gcs := gsutil_rm_rf (preproc_dir E) (df_gcs st)\<rparr>))
      \<lparr>df_jobs := df_jobs st @ [(''preprocess-babyweight-features-'' @ now,
                                 job_outcome (de_fr E) shard (preproc_dir E) reads)]\<rparr>,
      None)"
  by (simp add: baby_preprocess_cell_def baby_preprocess_def preproc_dir_def staging_objects_def path_join_def Let_def)

lemma baby_preprocess_test_cell:
  "baby_preprocess_cell E shard True now reads st =
     run_effects (de_pwd E) (''preprocess-babyweight-features-'' @ now) (job_outcome (de_fr E) shard ''./preproc'' reads) []
       [Print ''Launching local job ... hang on'', RmTree ''./preproc'', MakeDirs ''./preproc'',
        RunPipeline, WaitUntilFinish, Print ''Done!''] st"
  unfolding baby_preprocess_cell_def Let_def baby_output_dir by (simp add: baby_preprocess_def Let_def)

lemma finish_last:
  "finish_job pwd (length js) (st\<lparr>df_jobs := js @ [(n, out)]\<rparr>) =
     (case out of Inr ws \<Rightarrow> apply_writes pwd ws (st\<lparr>df_jobs := js\<rparr>) | Inl e \<Rightarrow> st\<lparr>df_jobs := js\<rparr>)"
  by (simp add: finish_job_def Let_def)

lemma apply_writes_jobs [simp]: "df_jobs (apply_writes pwd ws st) = df_jobs st"
  by (induction ws arbitrary: st) (auto simp: apply_writes_def)

lemma apply_writes_out [simp]: "df_out (apply_writes pwd ws st) = df_out st"
  by (induction ws arbitrary: st) (auto simp: apply_writes_def)

lemma apply_writes_Nil [simp]: "apply_writes pwd [] st = st"
  by (simp add: apply_writes_def)

lemma apply_writes_Cons [simp]: "apply_writes pwd (w # ws) st = apply_writes pwd ws (write_obj pwd st w)"
  by (simp add: apply_writes_def)

subsection \<open>What a pattern matches in the store\<close>

lemma filter_glob_keys: "filter (glob pat) (map fst xs) = map fst (filter (\<lambda>(k, _). glob pat k) xs)"
  by (induction xs) auto

lemma map_of_filter_glob: "glob pat u \<Longrightarrow> map_of (filter (\<lambda>(k, _). glob pat k) xs) u = map_of xs u"
  by (induction xs) auto

lemma gsutil_ls_matching:
  "gsutil_ls pat g = (if objs_matching pat g = [] then Inl (CommandException pat) else Inr (map fst (objs_matching pat g)))"
  by (simp add: gsutil_ls_def objs_matching_def filter_glob_keys Let_def)

lemma map_of_keys_values: "distinct (map fst xs) \<Longrightarrow> map (\<lambda>u. the (map_of xs u)) (map fst xs) = map snd xs"
proof (induction xs)
  case (Cons x xs)
  obtain k v where x: "x = (k, v)" by fastforce
  have "map (\<lambda>u. the (map_of ((k, v) # xs) u)) (map fst xs) = map (\<lambda>u. the (map_of xs u)) (map fst xs)"
    using Cons.prems x by (auto intro!: map_cong)
  with Cons x show ?case by simp
qed simp

text \<open>\<open>gsutil cat\<close> of a pattern whose matching objects have distinct names: their lines in listing order.\<close>

lemma gsutil_cat_matching:
  assumes "objs_matching pat g \<noteq> []" "distinct (map fst (objs_matching pat g))"
  shows "gsutil_cat pat g = Inr (concat (map snd (objs_matching pat g)))"
proof -
  have "gsutil_cat pat g = Inr (concat (map (\<lambda>u. the (map_of (gcs_objects g) u)) (map fst (objs_matching pat g))))"
    using assms(1) by (simp add: gsutil_cat_def gsutil_ls_matching del: map_map)
  also have "map (\<lambda>u. the (map_of (gcs_objects g) u)) (map fst (objs_matching pat g)) =
        map (\<lambda>u. the (map_of (objs_matching pat g) u)) (map fst (objs_matching pat g))"
    by (rule map_cong [OF HOL.refl]) (auto simp: objs_matching_def map_of_filter_glob)
  also have "\<dots> = map snd (objs_matching pat g)" using assms(2) by (rule map_of_keys_values)
  finally show ?thesis .
qed

lemma update_new: "k \<notin> set (map fst al) \<Longrightarrow> AList.update k v al = al @ [(k, v)]"
  by (induction al) auto

lemma filter_update_other: "\<not> P (k, v) \<Longrightarrow> (\<forall>v'. P (k, v') = P (k, v)) \<Longrightarrow> filter P (AList.update k v al) = filter P al"
  by (induction al) auto

lemma matching_write_other: "\<not> glob pat k \<Longrightarrow> objs_matching pat (gcs_write k c g) = objs_matching pat g"
  unfolding objs_matching_def gcs_write_def by (simp add: filter_update_other)

lemma matching_write_new:
  assumes "glob pat k" "k \<notin> set (map fst (objs_matching pat g))"
  shows "objs_matching pat (gcs_write k c g) = objs_matching pat g @ [(k, c)]"
proof -
  have "k \<notin> set (map fst (gcs_objects g))" using assms by (force simp: objs_matching_def)
  then show ?thesis using assms(1) by (simp add: objs_matching_def gcs_write_def update_new)
qed

text \<open>Writing objects adds the ones that match, in order, when their names are new.\<close>

lemma apply_writes_matching:
  assumes "\<forall>(k, c) \<in> set ws. glob pat k \<longrightarrow> prefix ''gs://'' k \<and> k \<notin> set (map fst (objs_matching pat (df_gcs st)))"
    and "distinct (map fst (filter (\<lambda>(k, _). glob pat k) ws))"
  shows "objs_matching pat (df_gcs (apply_writes pwd ws st)) = objs_matching pat (df_gcs st) @ filter (\<lambda>(k, _). glob pat k) ws"
  using assms
proof (induction ws arbitrary: st)
  case (Cons w ws)
  obtain k c where w: "w = (k, c)" by fastforce
  show ?case
  proof (cases "glob pat k")
    case True
    then have m: "objs_matching pat (df_gcs (write_obj pwd st w)) = objs_matching pat (df_gcs st) @ [(k, c)]"
      using Cons.prems(1) w by (simp add: matching_write_new)
    have "objs_matching pat (df_gcs (apply_writes pwd ws (write_obj pwd st w))) =
            objs_matching pat (df_gcs (write_obj pwd st w)) @ filter (\<lambda>(k, _). glob pat k) ws"
      by (rule Cons.IH) (use Cons.prems w True m in \<open>auto simp: image_iff\<close>)
    then show ?thesis using m w True by simp
  next
    case False
    then have m: "objs_matching pat (df_gcs (write_obj pwd st w)) = objs_matching pat (df_gcs st)"
      using w by (simp add: matching_write_other)
    have "objs_matching pat (df_gcs (apply_writes pwd ws (write_obj pwd st w))) =
            objs_matching pat (df_gcs (write_obj pwd st w)) @ filter (\<lambda>(k, _). glob pat k) ws"
      by (rule Cons.IH) (use Cons.prems w m False in auto)
    then show ?thesis using m w False by simp
  qed
qed simp

subsection \<open>Shard and staging names\<close>

lemma glob_lit_prefix: "CHR ''*'' \<notin> set w \<Longrightarrow> glob (w @ p) s \<Longrightarrow> prefix w s"
  by (auto simp: glob_refines glob_ref_def fill_append_lit)

lemma preproc_dir_last: "preproc_dir E \<noteq> [] \<and> last (preproc_dir E) = CHR ''/''"
  by (simp add: preproc_dir_def)

lemma preproc_dir_star: "CHR ''*'' \<notin> set (de_bucket E) \<Longrightarrow> CHR ''*'' \<notin> set (preproc_dir E)"
  by (simp add: preproc_dir_def)

lemma preproc_dir_gs: "prefix ''gs://'' (preproc_dir E @ s)"
  by (simp add: preproc_dir_def)

lemma preproc_join: "s \<noteq> [] \<Longrightarrow> hd s \<noteq> CHR ''/'' \<Longrightarrow> path_join (preproc_dir E) s = preproc_dir E @ s"
  by (cases s) (simp_all add: path_join_def preproc_dir_def)

lemma rm_preproc_empty:
  "prefix (preproc_dir E) k \<Longrightarrow> k \<notin> set (map fst (gcs_objects (gsutil_rm_rf (preproc_dir E) g)))"
  using preproc_dir_last [of E] by (auto simp: gsutil_rm_rf_def rm_target_dir)

lemma filter_none: "(\<And>k c. (k, c) \<in> set xs \<Longrightarrow> \<not> P k) \<Longrightarrow> filter (\<lambda>(k, _). P k) xs = []"
  by (induction xs) auto

text \<open>After \<open>gsutil -m rm -r\<close> of the output directory, no pattern inside it matches anything.\<close>

lemma matching_rm:
  assumes "CHR ''*'' \<notin> set (de_bucket E)"
  shows "objs_matching (preproc_dir E @ p) (gsutil_rm_rf (preproc_dir E) g) = []"
proof -
  have "\<not> glob (preproc_dir E @ p) k" if "k \<in> set (map fst (gcs_objects (gsutil_rm_rf (preproc_dir E) g)))" for k
    using that glob_lit_prefix [OF preproc_dir_star [OF assms]] rm_preproc_empty by blast
  then show ?thesis by (force simp: objs_matching_def filter_empty_conv)
qed

text \<open>
  The cloud cell leaves nothing that a pattern of the output directory matches, when no
  staged file matches it: the directory was emptied, and only staged files were added.
\<close>

lemma cloud_cell_matching:
  assumes "CHR ''*'' \<notin> set (de_bucket E)" "\<And>f. \<not> glob (preproc_dir E @ p) (preproc_dir E @ ''tmp/staging/'' @ f)"
  shows "objs_matching (preproc_dir E @ p) (df_gcs (fst (baby_preprocess_cell E shard False now reads st))) = []"
proof -
  let ?st1 = "st\<lparr>df_out := df_out st @ [''Launching Dataflow job preprocess-babyweight-features-'' @ now @ '' ... hang on''],
                 df_gcs := gsutil_rm_rf (preproc_dir E) (df_gcs st)\<rparr>"
  let ?sw = "map (\<lambda>(f, c). (preproc_dir E @ ''tmp/staging/'' @ f, c)) (de_staged E (''preprocess-babyweight-features-'' @ now))"
  have nm: "\<not> glob (preproc_dir E @ p) k" if "(k, c) \<in> set ?sw" for k c
  proof -
    have "\<exists>f. k = preproc_dir E @ ''tmp/staging/'' @ f" using that by (auto simp: image_iff)
    then obtain f where "k = preproc_dir E @ ''tmp/staging/'' @ f" by blast
    then show ?thesis using assms(2) [of f] by blast
  qed
  then have fe: "filter (\<lambda>(k, _). glob (preproc_dir E @ p) k) ?sw = []" by (rule filter_none)
  have "objs_matching (preproc_dir E @ p) (df_gcs (apply_writes (de_pwd E) ?sw ?st1)) =
          objs_matching (preproc_dir E @ p) (df_gcs ?st1) @ filter (\<lambda>(k, _). glob (preproc_dir E @ p) k) ?sw"
  proof (rule apply_writes_matching)
    show "\<forall>(k, c) \<in> set ?sw. glob (preproc_dir E @ p) k \<longrightarrow>
            prefix ''gs://'' k \<and> k \<notin> set (map fst (objs_matching (preproc_dir E @ p) (df_gcs ?st1)))"
      using nm by blast
  qed (simp only: fe list.map(1) distinct.simps(1))
  also have "\<dots> = []" using matching_rm [OF assms(1)] fe by simp
  finally show ?thesis by (simp add: baby_preprocess_cloud_cell)
qed

lemma staged_no_shard0: "CHR ''*'' \<notin> set w \<Longrightarrow> \<not> glob (w @ ''*-00000*'') (w @ ''tmp/staging/'' @ f)"
  by (simp add: glob_append_lit)

lemma staged_no_train: "CHR ''*'' \<notin> set w \<Longrightarrow> \<not> glob (w @ ''train.csv*'') (w @ ''tmp/staging/'' @ f)"
  by (simp add: glob_append_lit)

lemma read_nat_zeros: "read_nat (replicate k (CHR ''0'') @ s) = read_nat s"
  by (induction k) (simp_all add: read_nat_def)

lemma pad5_inj: "pad5 i = pad5 j \<Longrightarrow> i = j"
  by (metis pad5_def read_nat_zeros read_show_nat)

lemma pad5_digit_set: "set (pad5 k) \<subseteq> set ''0123456789''"
  using show_nat_digits [of k] by (auto simp: pad5_def)

lemma digits_sep:
  "set p \<subseteq> set ''0123456789'' \<Longrightarrow> set q \<subseteq> set ''0123456789'' \<Longrightarrow>
     p @ CHR ''-'' # r = q @ CHR ''-'' # r' \<Longrightarrow> p = q \<and> r = r'"
proof (induction p arbitrary: q)
  case Nil
  then show ?case by (cases q) auto
next
  case (Cons x p)
  then show ?case by (cases q) auto
qed

text \<open>Two shard names of one file are equal only for the same index and the same count.\<close>

lemma text_shard_inj: "text_shard a i n = text_shard a j m \<Longrightarrow> i = j \<and> n = m"
  using digits_sep [OF pad5_digit_set [of i] pad5_digit_set [of j], of "''of-'' @ pad5 n" "''of-'' @ pad5 m"]
  by (auto simp: text_shard_def dest: pad5_inj)

lemma shard_objects_keys:
  "distinct (map fst (shard_objects path parts)) \<and> map snd (shard_objects path parts) = parts"
proof
  show "distinct (map fst (shard_objects path parts))"
    by (auto simp: shard_objects_def distinct_map inj_on_def dest: text_shard_inj)
  show "map snd (shard_objects path parts) = parts"
    by (simp add: shard_objects_def comp_def map_nth)
qed

lemma shard_objects_mem:
  "(k, c) \<in> set (shard_objects path parts) \<Longrightarrow> \<exists>i < length parts. k = text_shard path i (length parts) \<and> c = parts ! i"
  by (auto simp: shard_objects_def)

text \<open>\<open>train.csv*\<close> in the output directory matches the train shards and no eval shard.\<close>

lemma glob_step_shard:
  assumes "CHR ''*'' \<notin> set w" "step \<in> set baby_steps"
  shows "glob (w @ ''train.csv*'') (text_shard (w @ step @ ''.csv'') i n) \<longleftrightarrow> step = ''train''"
proof -
  have t: "text_shard (w @ step @ ''.csv'') i n = w @ step @ ''.csv-'' @ pad5 i @ ''-of-'' @ pad5 n"
    by (simp add: text_shard_def)
  have "CHR ''/'' \<notin> set (''-'' @ pad5 i @ ''-of-'' @ pad5 n)"
    using pad5_digits [of i] pad5_digits [of n] by simp
  then have "glob ''*'' (''-'' @ pad5 i @ ''-of-'' @ pad5 n)" by (rule glob_star_any)
  with assms(2) show ?thesis
    unfolding t glob_append_lit [OF assms(1)] by (auto simp: baby_steps_def)
qed

lemma filter_train_shards:
  assumes "CHR ''*'' \<notin> set w" "step \<in> set baby_steps"
  shows "filter (\<lambda>(k, _). glob (w @ ''train.csv*'') k) (shard_objects (w @ step @ ''.csv'') parts) =
           (if step = ''train'' then shard_objects (w @ step @ ''.csv'') parts else [])"
proof (cases "step = ''train''")
  case True
  then show ?thesis using glob_step_shard [OF assms]
    by (auto simp: filter_id_conv dest!: shard_objects_mem)
next
  case False
  then show ?thesis using glob_step_shard [OF assms]
    by (auto intro!: filter_none dest!: shard_objects_mem)
qed

subsection \<open>Listing while the job runs\<close>

text \<open>
  C15: The cloud-mode cell returns while its job runs, after \<open>gsutil -m rm -r\<close> has
  emptied the output directory and the runner has staged the job's files below
  \<open>tmp/staging/\<close>. The listing cell run right after it therefore fails with
  \<open>CommandException\<close>, and the new job is still running: the notebook depends on the
  reader waiting for the job, as its text asks, and the code does not wait.
\<close>

theorem cloud_cell_ls_race:
  assumes "CHR ''*'' \<notin> set (de_bucket E)"
  shows "preproc_ls_cell (de_bucket E) (df_gcs (fst (baby_preprocess_cell E shard False now reads st))) =
           Inl (CommandException (''gs://'' @ de_bucket E @ ''/babyweight/preproc/*-00000*'')) \<and>
         df_jobs (fst (baby_preprocess_cell E shard False now reads st)) =
           df_jobs st @ [(''preprocess-babyweight-features-'' @ now,
                          job_outcome (de_fr E) shard (preproc_dir E) reads)]"
proof -
  have "objs_matching (preproc_dir E @ ''*-00000*'') (df_gcs (fst (baby_preprocess_cell E shard False now reads st))) = []"
    by (rule cloud_cell_matching [OF assms staged_no_shard0 [OF preproc_dir_star [OF assms]]])
  then show ?thesis
    by (simp add: baby_preprocess_cloud_cell preproc_ls_cell_def gsutil_ls_matching preproc_dir_def)
qed

subsection \<open>The output directory holds only full-run shards and staged files\<close>

lemma job_outcome_mem:
  assumes "job_outcome fr shard out reads = Inr ws" "(k, c) \<in> set ws"
  shows "\<exists>step \<in> set baby_steps. \<exists>xs ls i. reads step = Inr xs \<and> step_lines fr step xs = Inr ls \<and>
           i < length (shard step ls) \<and> k = text_shard (path_join out (step @ ''.csv'')) i (length (shard step ls)) \<and>
           c = shard step ls ! i"
proof -
  let ?f = "\<lambda>step. bindE (reads step) (\<lambda>xs. bindE (step_lines fr step xs) (\<lambda>ls.
              Inr (shard_objects (path_join out (step @ ''.csv'')) (shard step ls))))"
  obtain objs where m: "map_result ?f baby_steps = Inr objs" and ws: "ws = concat objs"
    using assms(1) by (auto simp: job_outcome_def bindE_def split: sum.splits)
  obtain obj where "obj \<in> set objs" "(k, c) \<in> set obj" using assms(2) ws by auto
  then obtain step where st: "step \<in> set baby_steps" "?f step = Inr obj" "(k, c) \<in> set obj"
    using map_result_Inr_set [OF m] by blast
  then obtain xs ls where "reads step = Inr xs" "step_lines fr step xs = Inr ls"
      "obj = shard_objects (path_join out (step @ ''.csv'')) (shard step ls)"
    by (auto simp: bindE_def split: sum.splits)
  with st(1,3) shard_objects_mem show ?thesis by blast
qed








lemma preproc_inv_out_disk [simp]:
  "preproc_inv E (st\<lparr>df_out := o'\<rparr>) = preproc_inv E st"
  "preproc_inv E (st\<lparr>df_disk := d'\<rparr>) = preproc_inv E st"
  by (simp_all add: preproc_inv_def)











subsection \<open>Finishing the job makes the listing succeed\<close>

lemma write_obj_keys:
  "set (map fst (gcs_objects (df_gcs st))) \<subseteq> set (map fst (gcs_objects (df_gcs (write_obj pwd st w))))"
  by (cases w) (auto simp: gcs_write_def dom_update)

lemma apply_writes_keys:
  "set (map fst (gcs_objects (df_gcs st))) \<subseteq> set (map fst (gcs_objects (df_gcs (apply_writes pwd ws st))))"
proof (induction ws arbitrary: st)
  case (Cons w ws)
  show ?case using write_obj_keys [of st pwd w] Cons.IH [of "write_obj pwd st w"]
    by (simp add: apply_writes_def)
qed (simp add: apply_writes_def)

lemma apply_writes_mem:
  "(k, c) \<in> set ws \<Longrightarrow> prefix ''gs://'' k \<Longrightarrow> k \<in> set (map fst (gcs_objects (df_gcs (apply_writes pwd ws st))))"
proof (induction ws arbitrary: st)
  case (Cons w ws)
  show ?case
  proof (cases "w = (k, c)")
    case True
    have "k \<in> set (map fst (gcs_objects (df_gcs (write_obj pwd st w))))"
      using True Cons.prems(2) by (simp add: gcs_write_def dom_update)
    then show ?thesis using apply_writes_keys [of "write_obj pwd st w" pwd ws]
      by (auto simp: apply_writes_def simp del: write_obj.simps)
  next
    case False
    then show ?thesis using Cons by (simp add: apply_writes_def del: write_obj.simps)
  qed
qed simp

lemma job_outcome_full:
  "beam_inner fp rows = Inr xs \<Longrightarrow> step_lines fr ''train'' xs = Inr lt \<Longrightarrow> step_lines fr ''eval'' xs = Inr le \<Longrightarrow>
   job_outcome fr shard out (\<lambda>_. beam_inner fp rows) =
     Inr (shard_objects (path_join out ''train.csv'') (shard ''train'' lt) @
          shard_objects (path_join out ''eval.csv'') (shard ''eval'' le))"
  by (simp add: job_outcome_def baby_steps_def)

text \<open>
  C14: When the training and evaluation lines can be computed, the cloud-mode cell
  followed by the completion of its job are two steps of the run, no job of the cell
  remains, and the listing cell then shows the first shard of \<open>train.csv\<close>, however
  many shards the runner chose.
\<close>

theorem cloud_run_then_ls:
  assumes "CHR ''*'' \<notin> set (de_bucket E)" "valid_sharding shard"
    and "beam_inner (de_fp E) (de_rows E) = Inr xs"
    and "step_lines (de_fr E) ''train'' xs = Inr lt" "step_lines (de_fr E) ''eval'' xs = Inr le"
  shows "let s1 = fst (baby_preprocess_cell E shard False now (\<lambda>_. beam_inner (de_fp E) (de_rows E)) st);
             s2 = finish_job (de_pwd E) (length (df_jobs st)) s1
         in df_step E st s1 \<and> df_step E s1 s2 \<and> df_jobs s2 = df_jobs st \<and>
            (\<exists>urls. preproc_ls_cell (de_bucket E) (df_gcs s2) = Inr urls \<and>
               text_shard (preproc_dir E @ ''train.csv'') 0 (length (shard ''train'' lt)) \<in> set urls)"
proof -
  let ?s1 = "fst (baby_preprocess_cell E shard False now (\<lambda>_. beam_inner (de_fp E) (de_rows E)) st)"
  let ?ws = "shard_objects (path_join (preproc_dir E) ''train.csv'') (shard ''train'' lt) @
             shard_objects (path_join (preproc_dir E) ''eval.csv'') (shard ''eval'' le)"
  have j: "job_outcome (de_fr E) shard (preproc_dir E) (\<lambda>_. beam_inner (de_fp E) (de_rows E)) = Inr ?ws"
    using assms(3-5) by (rule job_outcome_full)
  have s1: "df_jobs ?s1 = df_jobs st @ [(''preprocess-babyweight-features-'' @ now, Inr ?ws)]"
    using j by (simp add: baby_preprocess_cloud_cell)
  have step1: "df_step E st ?s1" using assms(2) by (rule df_step.cloud_cell)
  have step2: "df_step E ?s1 (finish_job (de_pwd E) (length (df_jobs st)) ?s1)"
    by (rule df_step.job_done) (simp add: s1)
  have s2: "finish_job (de_pwd E) (length (df_jobs st)) ?s1 = apply_writes (de_pwd E) ?ws (?s1\<lparr>df_jobs := df_jobs st\<rparr>)"
    using s1 by (simp add: finish_job_def)
  have p: "path_join (preproc_dir E) ''train.csv'' = preproc_dir E @ ''train.csv''"
    by (simp add: path_join_def preproc_dir_def)
  have ne: "shard ''train'' lt \<noteq> []" using assms(2) by (simp add: valid_sharding_def)
  then have "(text_shard (preproc_dir E @ ''train.csv'') 0 (length (shard ''train'' lt)), shard ''train'' lt ! 0) \<in> set ?ws"
    by (auto simp: shard_objects_def p intro!: image_eqI [of _ _ 0])
  then have "text_shard (preproc_dir E @ ''train.csv'') 0 (length (shard ''train'' lt))
               \<in> set (map fst (gcs_objects (df_gcs (finish_job (de_pwd E) (length (df_jobs st)) ?s1))))"
    unfolding s2 by (rule apply_writes_mem) (simp add: text_shard_def preproc_dir_def)
  then have "\<exists>urls. preproc_ls_cell (de_bucket E) (df_gcs (finish_job (de_pwd E) (length (df_jobs st)) ?s1)) = Inr urls \<and>
               text_shard (preproc_dir E @ ''train.csv'') 0 (length (shard ''train'' lt)) \<in> set urls"
    using preproc_ls_first_shards [OF assms(1), of now "de_project E" "length (shard ''train'' lt)"]
    by (simp add: baby_output_dir preproc_dir_def path_join_def)
  with step1 step2 s1 s2 show ?thesis by (simp add: Let_def)
qed

subsection \<open>Test mode waits\<close>

lemma apply_writes_local:
  "\<forall>(k, c) \<in> set ws. \<not> prefix ''gs://'' k \<Longrightarrow>
     df_gcs (apply_writes pwd ws st) = df_gcs st \<and> df_out (apply_writes pwd ws st) = df_out st"
  by (induction ws arbitrary: st) (auto simp: apply_writes_def)

lemma test_job_local:
  "job_outcome fr shard ''./preproc'' reads = Inr ws \<Longrightarrow> \<forall>(k, c) \<in> set ws. \<not> prefix ''gs://'' k"
proof (clarify)
  fix k c
  assume "job_outcome fr shard ''./preproc'' reads = Inr ws" "(k, c) \<in> set ws" "prefix ''gs://'' k"
  from job_outcome_mem [OF this(1,2)] obtain step where
    "step \<in> set baby_steps" "\<exists>i n. k = text_shard (path_join ''./preproc'' (step @ ''.csv'')) i n"
    by blast
  with \<open>prefix ''gs://'' k\<close> show False by (auto simp: baby_steps_def path_join_def text_shard_def)
qed

text \<open>
  C18: In test mode the cell blocks until its job has finished: unless a file is named
  like the local output directory, it leaves the running jobs as they were, it raises
  exactly the job's exception, it prints \<open>Done!\<close> only when the job succeeded, and it
  does not touch the bucket, so the listing cell that follows does not see this run.
\<close>

theorem test_cell_waits:
  assumes "local_path (de_pwd E) ''./preproc'' \<notin> set (map fst (df_disk st))"
  shows "df_jobs (fst (baby_preprocess_cell E shard True now reads st)) = df_jobs st \<and>
         df_gcs (fst (baby_preprocess_cell E shard True now reads st)) = df_gcs st \<and>
         snd (baby_preprocess_cell E shard True now reads st) =
           (case job_outcome (de_fr E) shard ''./preproc'' reads of Inl e \<Rightarrow> Some e | Inr ws \<Rightarrow> None) \<and>
         df_out (fst (baby_preprocess_cell E shard True now reads st)) =
           df_out st @ [''Launching local job ... hang on''] @
           (case job_outcome (de_fr E) shard ''./preproc'' reads of Inl e \<Rightarrow> [] | Inr ws \<Rightarrow> [''Done!''])"
proof -
  let ?j = "job_outcome (de_fr E) shard ''./preproc'' reads"
  let ?lp = "local_path (de_pwd E) ''./preproc''"
  let ?st1 = "st\<lparr>df_out := df_out st @ [''Launching local job ... hang on''],
                 df_disk := filter (\<lambda>(k, _). \<not> prefix (?lp @ ''/'') k) (df_disk st)\<rparr>"
  have nd: "?lp \<notin> set (map fst (filter (\<lambda>(k, _). \<not> prefix (?lp @ ''/'') k) (df_disk st)))"
    using assms by auto
  let ?st2 = "?st1\<lparr>df_jobs := df_jobs st @ [(''preprocess-babyweight-features-'' @ now, ?j)]\<rparr>"
  have fin: "finish_job (de_pwd E) (length (df_jobs ?st2) - 1) ?st2 =
               (case ?j of Inr ws \<Rightarrow> apply_writes (de_pwd E) ws (?st1\<lparr>df_jobs := df_jobs st\<rparr>)
                         | Inl e \<Rightarrow> ?st1\<lparr>df_jobs := df_jobs st\<rparr>)"
    by (simp add: finish_job_def Let_def split: sum.split)
  show ?thesis
  proof (cases ?j)
    case (Inl e)
    then show ?thesis using nd fin by (simp add: baby_preprocess_test_cell)
  next
    case (Inr ws)
    then have "df_gcs (apply_writes (de_pwd E) ws (?st1\<lparr>df_jobs := df_jobs st\<rparr>)) = df_gcs st \<and>
               df_out (apply_writes (de_pwd E) ws (?st1\<lparr>df_jobs := df_jobs st\<rparr>)) = df_out ?st1"
      using apply_writes_local [OF test_job_local [OF Inr]] by simp
    then show ?thesis using Inr nd fin by (simp add: baby_preprocess_test_cell)
  qed
qed

subsection \<open>Overlapping runs\<close>

lemma valid_one_shard: "valid_sharding one_shard"
  by (simp add: valid_sharding_def one_shard_def)

lemma valid_two_shards: "valid_sharding two_shards"
  by (simp add: valid_sharding_def two_shards_def mset_append [symmetric] del: mset_append)

text \<open>The train shards a finished cloud job adds to the objects \<open>train.csv*\<close> matches.\<close>

lemma finish_cloud_job_matching:
  assumes "CHR ''*'' \<notin> set (de_bucket E)"
    and "\<forall>k \<in> set (map fst (shard_objects (preproc_dir E @ ''train.csv'') pt)).
           k \<notin> set (map fst (objs_matching (preproc_dir E @ ''train.csv*'') (df_gcs st)))"
  shows "objs_matching (preproc_dir E @ ''train.csv*'')
           (df_gcs (apply_writes pwd (shard_objects (path_join (preproc_dir E) ''train.csv'') pt @
                                      shard_objects (path_join (preproc_dir E) ''eval.csv'') pe) st)) =
         objs_matching (preproc_dir E @ ''train.csv*'') (df_gcs st) @ shard_objects (preproc_dir E @ ''train.csv'') pt"
proof -
  let ?pat = "preproc_dir E @ ''train.csv*''"
  have w: "CHR ''*'' \<notin> set (preproc_dir E)" using assms(1) by (rule preproc_dir_star)
  have ft: "filter (\<lambda>(k, _). glob ?pat k) (shard_objects (preproc_dir E @ ''train'' @ ''.csv'') pt) =
              shard_objects (preproc_dir E @ ''train'' @ ''.csv'') pt"
    using filter_train_shards [OF w, of "''train''" pt] by (simp add: baby_steps_def)
  have fe: "filter (\<lambda>(k, _). glob ?pat k) (shard_objects (preproc_dir E @ ''eval'' @ ''.csv'') pe) = []"
    using filter_train_shards [OF w, of "''eval''" pe] by (simp add: baby_steps_def)
  have j: "path_join (preproc_dir E) ''train.csv'' = preproc_dir E @ ''train'' @ ''.csv''"
    "path_join (preproc_dir E) ''eval.csv'' = preproc_dir E @ ''eval'' @ ''.csv''"
    by (simp_all add: preproc_join)
  have "objs_matching ?pat (df_gcs (apply_writes pwd (shard_objects (preproc_dir E @ ''train'' @ ''.csv'') pt @
                                      shard_objects (preproc_dir E @ ''eval'' @ ''.csv'') pe) st)) =
        objs_matching ?pat (df_gcs st) @ filter (\<lambda>(k, _). glob ?pat k)
          (shard_objects (preproc_dir E @ ''train'' @ ''.csv'') pt @ shard_objects (preproc_dir E @ ''eval'' @ ''.csv'') pe)"
  proof (rule apply_writes_matching)
    show "\<forall>(k, c) \<in> set (shard_objects (preproc_dir E @ ''train'' @ ''.csv'') pt @
                         shard_objects (preproc_dir E @ ''eval'' @ ''.csv'') pe).
            glob ?pat k \<longrightarrow> prefix ''gs://'' k \<and> k \<notin> set (map fst (objs_matching ?pat (df_gcs st)))"
    proof (clarify)
      fix k c assume "(k, c) \<in> set (shard_objects (preproc_dir E @ ''train'' @ ''.csv'') pt @
                                   shard_objects (preproc_dir E @ ''eval'' @ ''.csv'') pe)" "glob ?pat k"
      then have kt: "(k, c) \<in> set (shard_objects (preproc_dir E @ ''train'' @ ''.csv'') pt)"
        using fe by (auto simp: filter_empty_conv)
      then have "prefix ''gs://'' k" by (auto simp: shard_objects_def text_shard_def preproc_dir_def)
      moreover have "k \<notin> set (map fst (objs_matching ?pat (df_gcs st)))"
        using assms(2) kt by force
      ultimately show "prefix ''gs://'' k \<and> k \<notin> set (map fst (objs_matching ?pat (df_gcs st)))" ..
    qed
    show "distinct (map fst (filter (\<lambda>(k, _). glob ?pat k)
            (shard_objects (preproc_dir E @ ''train'' @ ''.csv'') pt @ shard_objects (preproc_dir E @ ''eval'' @ ''.csv'') pe)))"
      using shard_objects_keys [of "preproc_dir E @ ''train'' @ ''.csv''" pt] by (simp only: filter_append ft fe append_Nil2)
  qed
  then show ?thesis by (simp only: j filter_append ft fe append_Nil2) simp
qed

text \<open>
  C16: \<open>gsutil -m rm -r\<close> at the start of \<open>preprocess\<close> does not stop a job still
  running from an earlier call. When the cloud cell is run a second time before the
  first job has finished, both jobs succeed and the runner splits the training lines
  into a different number of shards in the two runs, then after both jobs have finished
  (in the order they were submitted) no job of the cells is left, and a reader of
  \<open>train.csv*\<close> gets every training line twice.
\<close>

theorem overlapping_runs_stale_shards:
  assumes "CHR ''*'' \<notin> set (de_bucket E)" "valid_sharding sh1" "valid_sharding sh2"
    and "beam_inner (de_fp E) (de_rows E) = Inr xs"
    and "step_lines (de_fr E) ''train'' xs = Inr lt" "step_lines (de_fr E) ''eval'' xs = Inr le"
    and "length (sh1 ''train'' lt) \<noteq> length (sh2 ''train'' lt)"
  shows "let R = (\<lambda>_. beam_inner (de_fp E) (de_rows E));
             s1 = fst (baby_preprocess_cell E sh1 False now1 R st);
             s2 = fst (baby_preprocess_cell E sh2 False now2 R s1);
             s4 = finish_job (de_pwd E) (length (df_jobs st)) (finish_job (de_pwd E) (length (df_jobs st)) s2)
         in df_reach E st s4 \<and> df_jobs s4 = df_jobs st \<and>
            (\<exists>ys. gsutil_cat (preproc_dir E @ ''train.csv*'') (df_gcs s4) = Inr ys \<and> mset ys = mset lt + mset lt)"
proof -
  let ?R = "\<lambda>_::string. beam_inner (de_fp E) (de_rows E)"
  let ?n = "length (df_jobs st)"
  let ?pat = "preproc_dir E @ ''train.csv*''"
  let ?s1 = "fst (baby_preprocess_cell E sh1 False now1 ?R st)"
  let ?s2 = "fst (baby_preprocess_cell E sh2 False now2 ?R ?s1)"
  let ?s3 = "finish_job (de_pwd E) ?n ?s2"
  let ?s4 = "finish_job (de_pwd E) ?n ?s3"
  let ?T1 = "shard_objects (preproc_dir E @ ''train.csv'') (sh1 ''train'' lt)"
  let ?T2 = "shard_objects (preproc_dir E @ ''train.csv'') (sh2 ''train'' lt)"
  let ?ws1 = "shard_objects (path_join (preproc_dir E) ''train.csv'') (sh1 ''train'' lt) @
              shard_objects (path_join (preproc_dir E) ''eval.csv'') (sh1 ''eval'' le)"
  let ?ws2 = "shard_objects (path_join (preproc_dir E) ''train.csv'') (sh2 ''train'' lt) @
              shard_objects (path_join (preproc_dir E) ''eval.csv'') (sh2 ''eval'' le)"
  have j1: "job_outcome (de_fr E) sh1 (preproc_dir E) ?R = Inr ?ws1" using assms(4-6) by (rule job_outcome_full)
  have j2: "job_outcome (de_fr E) sh2 (preproc_dir E) ?R = Inr ?ws2" using assms(4-6) by (rule job_outcome_full)
  obtain a1 a2 where jobs2: "df_jobs ?s2 = df_jobs st @ [(a1, Inr ?ws1), (a2, Inr ?ws2)]"
    using j1 j2 by (simp add: baby_preprocess_cloud_cell)
  have s3: "?s3 = apply_writes (de_pwd E) ?ws1 (?s2\<lparr>df_jobs := df_jobs st @ [(a2, Inr ?ws2)]\<rparr>)"
    using jobs2 by (simp add: finish_job_def nth_append)
  have jobs3: "df_jobs ?s3 = df_jobs st @ [(a2, Inr ?ws2)]" by (simp add: s3)
  have s4: "?s4 = apply_writes (de_pwd E) ?ws2 (?s3\<lparr>df_jobs := df_jobs st\<rparr>)"
    using jobs3 by (simp add: finish_job_def)
  have r: "df_reach E st ?s4"
  proof -
    have "df_step E st ?s1" using assms(2) by (rule df_step.cloud_cell)
    moreover have "df_step E ?s1 ?s2" using assms(3) by (rule df_step.cloud_cell)
    moreover have "df_step E ?s2 ?s3" by (rule df_step.job_done) (simp add: jobs2)
    moreover have "df_step E ?s3 ?s4" by (rule df_step.job_done) (simp add: jobs3)
    ultimately show ?thesis by (blast intro: df_reach.intros)
  qed
  have m2: "objs_matching ?pat (df_gcs ?s2) = []"
    by (rule cloud_cell_matching [OF assms(1) staged_no_train [OF preproc_dir_star [OF assms(1)]]])
  have m3: "objs_matching ?pat (df_gcs ?s3) = ?T1"
    using finish_cloud_job_matching [OF assms(1), of "sh1 ''train'' lt" "?s2\<lparr>df_jobs := df_jobs st @ [(a2, Inr ?ws2)]\<rparr>"] m2
    by (simp add: s3)
  have fresh: "k \<notin> set (map fst ?T1)" if "k \<in> set (map fst ?T2)" for k
    using that assms(7) by (auto simp: shard_objects_def dest: text_shard_inj)
  have m4: "objs_matching ?pat (df_gcs ?s4) = ?T1 @ ?T2"
    using finish_cloud_job_matching [OF assms(1), of "sh2 ''train'' lt" "?s3\<lparr>df_jobs := df_jobs st\<rparr>"] m3 fresh
    by (simp add: s4)
  have ne: "sh1 ''train'' lt \<noteq> []" using assms(2) by (simp add: valid_sharding_def)
  have d: "distinct (map fst (?T1 @ ?T2))"
    using shard_objects_keys [of "preproc_dir E @ ''train.csv''" "sh1 ''train'' lt"]
          shard_objects_keys [of "preproc_dir E @ ''train.csv''" "sh2 ''train'' lt"] fresh
    by auto
  have "gsutil_cat ?pat (df_gcs ?s4) = Inr (concat (map snd (?T1 @ ?T2)))"
    using gsutil_cat_matching [of ?pat "df_gcs ?s4"] m4 d ne by (simp add: shard_objects_def)
  moreover have "mset (concat (map snd (?T1 @ ?T2))) = mset lt + mset lt"
    using shard_objects_keys [of "preproc_dir E @ ''train.csv''" "sh1 ''train'' lt"]
          shard_objects_keys [of "preproc_dir E @ ''train.csv''" "sh2 ''train'' lt"] assms(2,3)
    by (simp add: valid_sharding_def)
  moreover have "df_jobs ?s4 = df_jobs st" by (simp add: s4)
  ultimately show ?thesis using r by (simp add: Let_def)
qed

text \<open>
  C17: Waiting does what overlapping runs fail to do. When the cloud cell is run a
  second time after the first job has finished, its \<open>gsutil -m rm -r\<close> removes the
  first run's shards: once the second job has finished, whatever shard counts the two
  runs had, \<open>train.csv*\<close> reads exactly the second run's training shards, that is,
  each training line once.
\<close>

theorem sequential_runs_replace_shards:
  assumes "CHR ''*'' \<notin> set (de_bucket E)" "valid_sharding sh1" "valid_sharding sh2"
    and "beam_inner (de_fp E) (de_rows E) = Inr xs"
    and "step_lines (de_fr E) ''train'' xs = Inr lt" "step_lines (de_fr E) ''eval'' xs = Inr le"
  shows "let R = (\<lambda>_. beam_inner (de_fp E) (de_rows E));
             s1 = fst (baby_preprocess_cell E sh1 False now1 R st);
             s2 = finish_job (de_pwd E) (length (df_jobs st)) s1;
             s3 = fst (baby_preprocess_cell E sh2 False now2 R s2);
             s4 = finish_job (de_pwd E) (length (df_jobs st)) s3
         in df_reach E st s4 \<and> df_jobs s4 = df_jobs st \<and>
            gsutil_cat (preproc_dir E @ ''train.csv*'') (df_gcs s4) = Inr (concat (sh2 ''train'' lt))"
proof -
  let ?R = "\<lambda>_::string. beam_inner (de_fp E) (de_rows E)"
  let ?n = "length (df_jobs st)"
  let ?pat = "preproc_dir E @ ''train.csv*''"
  let ?s1 = "fst (baby_preprocess_cell E sh1 False now1 ?R st)"
  let ?s2 = "finish_job (de_pwd E) ?n ?s1"
  let ?s3 = "fst (baby_preprocess_cell E sh2 False now2 ?R ?s2)"
  let ?s4 = "finish_job (de_pwd E) ?n ?s3"
  let ?T2 = "shard_objects (preproc_dir E @ ''train.csv'') (sh2 ''train'' lt)"
  let ?ws1 = "shard_objects (path_join (preproc_dir E) ''train.csv'') (sh1 ''train'' lt) @
              shard_objects (path_join (preproc_dir E) ''eval.csv'') (sh1 ''eval'' le)"
  let ?ws2 = "shard_objects (path_join (preproc_dir E) ''train.csv'') (sh2 ''train'' lt) @
              shard_objects (path_join (preproc_dir E) ''eval.csv'') (sh2 ''eval'' le)"
  have j1: "job_outcome (de_fr E) sh1 (preproc_dir E) ?R = Inr ?ws1" using assms(4-6) by (rule job_outcome_full)
  have j2: "job_outcome (de_fr E) sh2 (preproc_dir E) ?R = Inr ?ws2" using assms(4-6) by (rule job_outcome_full)
  obtain a1 where jobs1: "df_jobs ?s1 = df_jobs st @ [(a1, Inr ?ws1)]"
    using j1 by (simp add: baby_preprocess_cloud_cell)
  have jobs2: "df_jobs ?s2 = df_jobs st" using jobs1 by (simp add: finish_job_def)
  obtain a2 where jobs3: "df_jobs ?s3 = df_jobs st @ [(a2, Inr ?ws2)]"
    using j2 jobs2 by (simp add: baby_preprocess_cloud_cell)
  have s4: "?s4 = apply_writes (de_pwd E) ?ws2 (?s3\<lparr>df_jobs := df_jobs st\<rparr>)"
    using jobs3 by (simp add: finish_job_def)
  have r: "df_reach E st ?s4"
  proof -
    have "df_step E st ?s1" using assms(2) by (rule df_step.cloud_cell)
    moreover have "df_step E ?s1 ?s2" by (rule df_step.job_done) (simp add: jobs1)
    moreover have "df_step E ?s2 ?s3" using assms(3) by (rule df_step.cloud_cell)
    moreover have "df_step E ?s3 ?s4" by (rule df_step.job_done) (simp add: jobs3)
    ultimately show ?thesis by (blast intro: df_reach.intros)
  qed
  have m3: "objs_matching ?pat (df_gcs ?s3) = []"
    by (rule cloud_cell_matching [OF assms(1) staged_no_train [OF preproc_dir_star [OF assms(1)]]])
  have m4: "objs_matching ?pat (df_gcs ?s4) = ?T2"
    using finish_cloud_job_matching [OF assms(1), of "sh2 ''train'' lt" "?s3\<lparr>df_jobs := df_jobs st\<rparr>"] m3
    by (simp add: s4)
  have ne: "sh2 ''train'' lt \<noteq> []" using assms(3) by (simp add: valid_sharding_def)
  have "gsutil_cat ?pat (df_gcs ?s4) = Inr (concat (map snd ?T2))"
    using gsutil_cat_matching [of ?pat "df_gcs ?s4"] m4 ne
          shard_objects_keys [of "preproc_dir E @ ''train.csv''" "sh2 ''train'' lt"]
    by (simp add: shard_objects_def)
  also have "map snd ?T2 = sh2 ''train'' lt" by (rule conjunct2 [OF shard_objects_keys])
  finally show ?thesis using r by (simp add: s4 Let_def)
qed

section \<open>Witnesses\<close>

theorem cloud_cell_ls_race_witness:
  "preproc_ls_cell (de_bucket example_df_env) (df_gcs (fst (baby_preprocess_cell example_df_env one_shard False ''190101-000000'' (\<lambda>_. beam_inner (de_fp example_df_env) (de_rows example_df_env)) example_df_state))) =
     Inl (CommandException (''gs://'' @ de_bucket example_df_env @ ''/babyweight/preproc/*-00000*'')) \<and>
   df_jobs (fst (baby_preprocess_cell example_df_env one_shard False ''190101-000000'' (\<lambda>_. beam_inner (de_fp example_df_env) (de_rows example_df_env)) example_df_state)) =
     df_jobs example_df_state @ [(''preprocess-babyweight-features-'' @ ''190101-000000'',
       job_outcome (de_fr example_df_env) one_shard (preproc_dir example_df_env)
         (\<lambda>_. beam_inner (de_fp example_df_env) (de_rows example_df_env)))]"
  by (rule cloud_cell_ls_race) (simp add: example_df_env_def)


theorem cloud_run_then_ls_witness:
  "let s1 = fst (baby_preprocess_cell example_df_env one_shard False ''190101-000000'' (\<lambda>_. beam_inner (de_fp example_df_env) (de_rows example_df_env)) example_df_state);
       s2 = finish_job (de_pwd example_df_env) (length (df_jobs example_df_state)) s1
   in df_step example_df_env example_df_state s1 \<and> df_step example_df_env s1 s2 \<and>
      df_jobs s2 = df_jobs example_df_state \<and>
      (\<exists>urls. preproc_ls_cell (de_bucket example_df_env) (df_gcs s2) = Inr urls \<and>
         text_shard (preproc_dir example_df_env @ ''train.csv'') 0 (length (one_shard ''train'' [''1.5,Unknown,28,Single(1),39'', ''1.5,True,28,Single(1),39''])) \<in> set urls)"
proof (rule cloud_run_then_ls [where xs = "[(example_birth, 7)]" and le = "[]"])
  show "CHR ''*'' \<notin> set (de_bucket example_df_env)" by (simp add: example_df_env_def)
  show "valid_sharding one_shard" by (rule valid_one_shard)
  show "beam_inner (de_fp example_df_env) (de_rows example_df_env) = Inr [(example_birth, 7)]" by code_simp
  show "step_lines (de_fr example_df_env) ''train'' [(example_birth, 7)] = Inr [''1.5,Unknown,28,Single(1),39'', ''1.5,True,28,Single(1),39'']" by code_simp
  show "step_lines (de_fr example_df_env) ''eval'' [(example_birth, 7)] = Inr []" by code_simp
qed

theorem test_cell_waits_witness:
  "df_jobs (fst (baby_preprocess_cell example_df_env one_shard True ''190101-000000'' (\<lambda>_. Inr []) example_df_state)) =
     df_jobs example_df_state \<and>
   df_gcs (fst (baby_preprocess_cell example_df_env one_shard True ''190101-000000'' (\<lambda>_. Inr []) example_df_state)) =
     df_gcs example_df_state \<and>
   snd (baby_preprocess_cell example_df_env one_shard True ''190101-000000'' (\<lambda>_. Inr []) example_df_state) =
     (case job_outcome (de_fr example_df_env) one_shard ''./preproc'' (\<lambda>_. Inr []) of Inl e \<Rightarrow> Some e | Inr ws \<Rightarrow> None) \<and>
   df_out (fst (baby_preprocess_cell example_df_env one_shard True ''190101-000000'' (\<lambda>_. Inr []) example_df_state)) =
     df_out example_df_state @ [''Launching local job ... hang on''] @
     (case job_outcome (de_fr example_df_env) one_shard ''./preproc'' (\<lambda>_. Inr []) of Inl e \<Rightarrow> [] | Inr ws \<Rightarrow> [''Done!''])"
  by (rule test_cell_waits) (simp add: example_df_state_def)

theorem overlapping_runs_stale_shards_witness:
  "let R = (\<lambda>_. beam_inner (de_fp example_df_env) (de_rows example_df_env));
       s1 = fst (baby_preprocess_cell example_df_env two_shards False ''190101-000000'' R example_df_state);
       s2 = fst (baby_preprocess_cell example_df_env one_shard False ''190101-001500'' R s1);
       s4 = finish_job (de_pwd example_df_env) (length (df_jobs example_df_state))
              (finish_job (de_pwd example_df_env) (length (df_jobs example_df_state)) s2)
   in df_reach example_df_env example_df_state s4 \<and> df_jobs s4 = df_jobs example_df_state \<and>
      (\<exists>ys. gsutil_cat (preproc_dir example_df_env @ ''train.csv*'') (df_gcs s4) = Inr ys \<and>
         mset ys = mset [''1.5,Unknown,28,Single(1),39'', ''1.5,True,28,Single(1),39''] +
                   mset [''1.5,Unknown,28,Single(1),39'', ''1.5,True,28,Single(1),39''])"
proof (rule overlapping_runs_stale_shards [where xs = "[(example_birth, 7)]" and le = "[]"])
  show "CHR ''*'' \<notin> set (de_bucket example_df_env)" by (simp add: example_df_env_def)
  show "valid_sharding two_shards" by (rule valid_two_shards)
  show "valid_sharding one_shard" by (rule valid_one_shard)
  show "beam_inner (de_fp example_df_env) (de_rows example_df_env) = Inr [(example_birth, 7)]" by code_simp
  show "step_lines (de_fr example_df_env) ''train'' [(example_birth, 7)] = Inr [''1.5,Unknown,28,Single(1),39'', ''1.5,True,28,Single(1),39'']" by code_simp
  show "step_lines (de_fr example_df_env) ''eval'' [(example_birth, 7)] = Inr []" by code_simp
  show "length (two_shards ''train'' [''1.5,Unknown,28,Single(1),39'', ''1.5,True,28,Single(1),39'']) \<noteq>
        length (one_shard ''train'' [''1.5,Unknown,28,Single(1),39'', ''1.5,True,28,Single(1),39''])"
    by (simp add: two_shards_def one_shard_def)
qed

theorem sequential_runs_replace_shards_witness:
  "let R = (\<lambda>_. beam_inner (de_fp example_df_env) (de_rows example_df_env));
       s1 = fst (baby_preprocess_cell example_df_env two_shards False ''190101-000000'' R example_df_state);
       s2 = finish_job (de_pwd example_df_env) (length (df_jobs example_df_state)) s1;
       s3 = fst (baby_preprocess_cell example_df_env one_shard False ''190101-001500'' R s2);
       s4 = finish_job (de_pwd example_df_env) (length (df_jobs example_df_state)) s3
   in df_reach example_df_env example_df_state s4 \<and> df_jobs s4 = df_jobs example_df_state \<and>
      gsutil_cat (preproc_dir example_df_env @ ''train.csv*'') (df_gcs s4) =
        Inr (concat (one_shard ''train'' [''1.5,Unknown,28,Single(1),39'', ''1.5,True,28,Single(1),39'']))"
proof (rule sequential_runs_replace_shards [where xs = "[(example_birth, 7)]" and le = "[]"])
  show "CHR ''*'' \<notin> set (de_bucket example_df_env)" by (simp add: example_df_env_def)
  show "valid_sharding two_shards" by (rule valid_two_shards)
  show "valid_sharding one_shard" by (rule valid_one_shard)
  show "beam_inner (de_fp example_df_env) (de_rows example_df_env) = Inr [(example_birth, 7)]" by code_simp
  show "step_lines (de_fr example_df_env) ''train'' [(example_birth, 7)] = Inr [''1.5,Unknown,28,Single(1),39'', ''1.5,True,28,Single(1),39'']" by code_simp
  show "step_lines (de_fr example_df_env) ''eval'' [(example_birth, 7)] = Inr []" by code_simp
qed

end
