(* ===== verification/Packages.thy ===== *)
theory Packages
  imports Shell
begin

text \<open>
  The Python environment the notebooks run in: the installed distributions with their
  versions. The first cells of each notebook guard an installation with
  \<open>pip freeze | grep PAT || pip install SPEC\<close>: \<open>grep\<close> succeeds when some line of the
  freeze output contains \<open>PAT\<close>, and only otherwise does \<open>pip install\<close> run. The import
  cells and \<open>%load_ext\<close> need the distribution that provides the module. What
  \<open>pip install\<close> downloads is not modelled; it installs the version it is asked for.
\<close>

section \<open>Definitions\<close>

type_synonym packages = "(string \<times> string) list"

text \<open>\<open>pip freeze\<close>: one line \<open>name==version\<close> per installed distribution.\<close>

definition pip_freeze :: "packages \<Rightarrow> string list" where
  "pip_freeze pkgs = map (\<lambda>(n, v). n @ ''=='' @ v) pkgs"

text \<open>
  \<open>!pip freeze | grep PAT || pip install NAME==VERSION\<close>: the lines \<open>grep\<close> prints, and
  the environment after the cell.
\<close>

definition pip_guard_install :: "string \<Rightarrow> string \<Rightarrow> string \<Rightarrow> packages \<Rightarrow> packages \<times> string list" where
  "pip_guard_install pat name ver pkgs =
     (let hits = filter (sublist pat) (pip_freeze pkgs)
      in if hits \<noteq> [] then (pkgs, hits) else (AList.update name ver pkgs, []))"

text \<open>\<open>!pip freeze | grep apache-beam || sudo pip install apache-beam[gcp]==2.12.0\<close> in the taxi notebook.\<close>

definition beam_pip_cell :: "packages \<Rightarrow> packages \<times> string list" where
  "beam_pip_cell pkgs = pip_guard_install ''apache-beam'' ''apache-beam'' ''2.12.0'' pkgs"

text \<open>The same cell in the babyweight notebook.\<close>

definition baby_beam_pip_cell :: "packages \<Rightarrow> packages \<times> string list" where
  "baby_beam_pip_cell pkgs = pip_guard_install ''apache-beam'' ''apache-beam'' ''2.12.0'' pkgs"

text \<open>\<open>!pip freeze | grep google-cloud-bigquery==1.21.0 || pip install google-cloud-bigquery==1.21.0\<close>.\<close>

definition bigquery_pip_cell :: "packages \<Rightarrow> packages \<times> string list" where
  "bigquery_pip_cell pkgs =
     pip_guard_install ''google-cloud-bigquery==1.21.0'' ''google-cloud-bigquery'' ''1.21.0'' pkgs"

text \<open>
  \<open>import tensorflow as tf; import apache_beam as beam; import shutil; import os;
  print(tf.__version__)\<close>: \<open>shutil\<close> and \<open>os\<close> are in the standard library.
\<close>

definition import_cell :: "packages \<Rightarrow> string result" where
  "import_cell pkgs =
     (case map_of pkgs ''tensorflow'' of
        None \<Rightarrow> Inl (ModuleNotFoundError ''tensorflow'')
      | Some tfv \<Rightarrow> (if map_of pkgs ''apache-beam'' = None then Inl (ModuleNotFoundError ''apache_beam'')
                    else Inr tfv))"

text \<open>The babyweight notebook's identical import cell.\<close>

definition baby_import_cell :: "packages \<Rightarrow> string result" where
  "baby_import_cell pkgs =
     (case map_of pkgs ''tensorflow'' of
        None \<Rightarrow> Inl (ModuleNotFoundError ''tensorflow'')
      | Some tfv \<Rightarrow> (if map_of pkgs ''apache-beam'' = None then Inl (ModuleNotFoundError ''apache_beam'')
                    else Inr tfv))"

text \<open>\<open>%load_ext google.cloud.bigquery\<close>: the magics come with \<open>google-cloud-bigquery\<close>.\<close>

definition load_ext_cell :: "packages \<Rightarrow> unit result" where
  "load_ext_cell pkgs =
     (if map_of pkgs ''google-cloud-bigquery'' = None then Inl (ModuleNotFoundError ''google.cloud.bigquery'')
      else Inr ())"

section \<open>Properties\<close>

lemma pip_guard_install_hit:
  "list_ex (sublist pat) (pip_freeze pkgs) \<Longrightarrow> fst (pip_guard_install pat name ver pkgs) = pkgs"
  by (auto simp: pip_guard_install_def Let_def list_ex_iff filter_empty_conv)

lemma pip_guard_install_miss:
  "\<not> list_ex (sublist pat) (pip_freeze pkgs) \<Longrightarrow>
     fst (pip_guard_install pat name ver pkgs) = AList.update name ver pkgs"
  by (auto simp: pip_guard_install_def Let_def list_ex_iff filter_empty_conv)

lemma freeze_has_name:
  "map_of pkgs n = Some v \<Longrightarrow> list_ex (sublist n) (pip_freeze pkgs)"
  by (auto simp: pip_freeze_def list_ex_iff dest!: map_of_SomeD intro!: bexI [of _ "(n, v)"])

lemma import_cell_beam:
  "map_of pkgs ''apache-beam'' \<noteq> None \<Longrightarrow>
     import_cell pkgs = (case map_of pkgs ''tensorflow'' of
                           None \<Rightarrow> Inl (ModuleNotFoundError ''tensorflow'') | Some t \<Rightarrow> Inr t)"
  by (auto simp: import_cell_def split: option.split)

text \<open>
  C11: The beam cell is commented ``Ensure that we have the correct version of Apache Beam
  installed'', but when any version \<open>v\<close> of \<open>apache-beam\<close> is installed the \<open>grep\<close>
  succeeds and nothing is installed: the environment keeps version \<open>v\<close>. Whatever was
  installed, the import cell that follows imports \<open>apache_beam\<close>, and it fails exactly
  when \<open>tensorflow\<close> is missing.
\<close>

theorem beam_pip_cell_keeps_version:
  assumes "map_of pkgs ''apache-beam'' = Some v"
  shows "fst (beam_pip_cell pkgs) = pkgs \<and>
         import_cell (fst (beam_pip_cell pkgs)) =
           (case map_of pkgs ''tensorflow'' of None \<Rightarrow> Inl (ModuleNotFoundError ''tensorflow'') | Some t \<Rightarrow> Inr t)"
proof -
  have keep: "fst (beam_pip_cell pkgs) = pkgs"
    using pip_guard_install_hit [OF freeze_has_name [OF assms]] by (simp add: beam_pip_cell_def)
  then show ?thesis using import_cell_beam [of pkgs] assms by simp
qed

text \<open>
  The BigQuery client cell pins the version in its pattern: when no freeze line
  contains \<open>google-cloud-bigquery==1.21.0\<close> it installs that version, and when version
  1.21.0 is installed it changes nothing; in both cases \<open>%load_ext google.cloud.bigquery\<close>
  then succeeds.
\<close>

theorem bigquery_pip_load_ext:
  "(\<not> list_ex (sublist ''google-cloud-bigquery==1.21.0'') (pip_freeze pkgs) \<longrightarrow>
      map_of (fst (bigquery_pip_cell pkgs)) ''google-cloud-bigquery'' = Some ''1.21.0'' \<and>
      load_ext_cell (fst (bigquery_pip_cell pkgs)) = Inr ()) \<and>
   (map_of pkgs ''google-cloud-bigquery'' = Some ''1.21.0'' \<longrightarrow>
      fst (bigquery_pip_cell pkgs) = pkgs \<and> load_ext_cell (fst (bigquery_pip_cell pkgs)) = Inr ())"
proof (intro conjI impI)
  assume "\<not> list_ex (sublist ''google-cloud-bigquery==1.21.0'') (pip_freeze pkgs)"
  then have "fst (bigquery_pip_cell pkgs) = AList.update ''google-cloud-bigquery'' ''1.21.0'' pkgs"
    by (simp add: bigquery_pip_cell_def pip_guard_install_miss)
  then show "map_of (fst (bigquery_pip_cell pkgs)) ''google-cloud-bigquery'' = Some ''1.21.0''"
    and "load_ext_cell (fst (bigquery_pip_cell pkgs)) = Inr ()"
    by (simp_all add: update_conv' load_ext_cell_def)
next
  assume v: "map_of pkgs ''google-cloud-bigquery'' = Some ''1.21.0''"
  have "list_ex (sublist ''google-cloud-bigquery==1.21.0'') (pip_freeze pkgs)"
    using map_of_SomeD [OF v]
    by (auto simp: pip_freeze_def list_ex_iff intro!: bexI [of _ "(''google-cloud-bigquery'', ''1.21.0'')"])
  then show keep: "fst (bigquery_pip_cell pkgs) = pkgs"
    by (simp add: bigquery_pip_cell_def pip_guard_install_hit)
  show "load_ext_cell (fst (bigquery_pip_cell pkgs)) = Inr ()"
    using keep v by (simp add: load_ext_cell_def)
qed

section \<open>Witnesses\<close>

theorem beam_pip_cell_keeps_version_witness:
  "fst (beam_pip_cell [(''apache-beam'', ''2.5.0''), (''tensorflow'', ''1.13.1'')])
     = [(''apache-beam'', ''2.5.0''), (''tensorflow'', ''1.13.1'')] \<and>
   import_cell (fst (beam_pip_cell [(''apache-beam'', ''2.5.0''), (''tensorflow'', ''1.13.1'')])) = Inr ''1.13.1''"
proof -
  have m: "map_of [(''apache-beam'', ''2.5.0''), (''tensorflow'', ''1.13.1'')] ''apache-beam'' = Some ''2.5.0''"
    by simp
  note k = beam_pip_cell_keeps_version [OF m]
  show ?thesis using k by (simp only: k) simp
qed

theorem bigquery_pip_load_ext_witness:
  "map_of (fst (bigquery_pip_cell [(''google-cloud-bigquery'', ''1.9.0'')])) ''google-cloud-bigquery'' = Some ''1.21.0'' \<and>
   load_ext_cell (fst (bigquery_pip_cell [(''google-cloud-bigquery'', ''1.9.0'')])) = Inr () \<and>
   fst (bigquery_pip_cell [(''google-cloud-bigquery'', ''1.21.0'')]) = [(''google-cloud-bigquery'', ''1.21.0'')]"
proof -
  have "\<not> list_ex (sublist ''google-cloud-bigquery==1.21.0'') (pip_freeze [(''google-cloud-bigquery'', ''1.9.0'')])"
    by (simp add: pip_freeze_def sublist_code)
  then show ?thesis
    using bigquery_pip_load_ext [of "[(''google-cloud-bigquery'', ''1.9.0'')]"]
          bigquery_pip_load_ext [of "[(''google-cloud-bigquery'', ''1.21.0'')]"]
    by simp
qed

end
