(* ===== verification/TaxiBqml.thy ===== *)
theory TaxiBqml
  imports TaxiQuery BqProject Shell
begin

text \<open>
  The BigQuery ML notebook that closes \<open>a_dataflow.ipynb\<close>: its configuration cells,
  the cell that creates the dataset \<open>bqml_taxifare\<close> with the Python client inside a
  bare \<open>try\<close>/\<open>except\<close>, the \<open>CREATE OR REPLACE MODEL\<close> cell that trains a linear model
  on a cleaned 1-in-5000 sample of the taxi trips, the \<open>ML.TRAINING_INFO\<close> cell and the
  \<open>ML.PREDICT\<close> cell on one hand-written ride. The cells act on the project state of
  \<open>BqProject\<close>; the trips are the rows of \<open>nyc-tlc.yellow.trips\<close> of \<open>TaxiQuery\<close>.
\<close>

section \<open>Definitions\<close>

record bqml_config =
  bcfg_project :: string
  bcfg_region :: string

definition taxi_bqml_config_cell :: bqml_config where
  "taxi_bqml_config_cell = \<lparr>bcfg_project = ''cloud-training-demos'', bcfg_region = ''us-central1''\<rparr>"

definition taxi_bqml_environ_cell :: "bqml_config \<Rightarrow> environ \<Rightarrow> environ" where
  "taxi_bqml_environ_cell c env =
     set_environ [(''PROJECT'', bcfg_project c), (''REGION'', bcfg_region c)] env"

text \<open>
  \<open>bq.create_dataset(dataset)\<close> then \<open>print("Dataset created")\<close>; the bare \<open>except:\<close>
  catches every error of the call and prints \<open>Dataset already exists\<close>.
\<close>

definition taxi_dataset_cell :: "bool \<Rightarrow> bq_project \<Rightarrow> bq_project \<times> string" where
  "taxi_dataset_cell allowed st =
     (case create_dataset allowed ''bqml_taxifare'' st of
        Inr st' \<Rightarrow> (st', ''Dataset created'')
      | Inl e \<Rightarrow> (st, ''Dataset already exists''))"

text \<open>
  The \<open>WHERE\<close> clause of the training query, its conjuncts in the order of the source,
  ending with \<open>MOD(ABS(FARM_FINGERPRINT(CAST(pickup_datetime AS STRING))), 5000) = 1\<close>.
\<close>

definition taxi_model_where :: "fingerprint \<Rightarrow> trip \<Rightarrow> bool result" where
  "taxi_model_where fp t =
     bindE (pickup_hash fp t) (\<lambda>h. bindE (sql_mod h 5000) (\<lambda>r.
       Inr (trip_distance t > 0
            \<and> passenger_count t > 0
            \<and> fare_amount t \<ge> 2.5
            \<and> pickup_longitude t > -78
            \<and> pickup_longitude t < -70
            \<and> dropoff_longitude t > -78
            \<and> dropoff_longitude t < -70
            \<and> pickup_latitude t > 37
            \<and> pickup_latitude t < 45
            \<and> dropoff_latitude t > 37
            \<and> dropoff_latitude t < 45
            \<and> r = 1)))"

text \<open>The \<open>SELECT\<close> list of the training query: the label and five feature columns.\<close>

definition taxi_model_cols :: "string list" where
  "taxi_model_cols = [''label'', ''pickup_datetime'', ''pickup_longitude'', ''pickup_latitude'',
                      ''dropoff_longitude'', ''dropoff_latitude'']"

definition taxi_model_row :: "trip \<Rightarrow> sqlrow" where
  "taxi_model_row t =
     [(''label'', SFloat (tolls_amount t + fare_amount t)),
      (''pickup_datetime'', STime (ts_string (pickup_datetime t))),
      (''pickup_longitude'', SFloat (pickup_longitude t)),
      (''pickup_latitude'', SFloat (pickup_latitude t)),
      (''dropoff_longitude'', SFloat (dropoff_longitude t)),
      (''dropoff_latitude'', SFloat (dropoff_latitude t))]"

definition taxi_model_query :: "fingerprint \<Rightarrow> trip list \<Rightarrow> sqlrow list result" where
  "taxi_model_query fp trips =
     bindE (sql_where (taxi_model_where fp) trips) (\<lambda>rs. Inr (map taxi_model_row rs))"

definition taxifare_model :: model_name where
  "taxifare_model = (''bqml_taxifare'', ''taxifare_model'')"

text \<open>\<open>CREATE or REPLACE MODEL bqml_taxifare.taxifare_model OPTIONS(model_type = "linear_reg", input_label_cols = ["label"]) AS ...\<close>.\<close>

definition taxi_create_model_cell :: "fingerprint \<Rightarrow> trip list \<Rightarrow> bq_project \<Rightarrow> bq_project result" where
  "taxi_create_model_cell fp trips st =
     create_or_replace_model taxifare_model ''linear_reg'' [''label''] taxi_model_cols
       (taxi_model_query fp trips) st"

text \<open>\<open>SELECT * FROM ML.TRAINING_INFO(MODEL `bqml_taxifare.taxifare_model`)\<close>.\<close>

definition taxi_training_info_cell :: "(bq_model \<Rightarrow> sqlrow list) \<Rightarrow> bq_project \<Rightarrow> sqlrow list result" where
  "taxi_training_info_cell info st = training_info info taxifare_model st"

text \<open>The one-row input of \<open>ML.PREDICT\<close>: 10:00 on 3 January 2014, from the office to JFK.\<close>

definition taxi_predict_input :: sqlrow where
  "taxi_predict_input =
     [(''pickup_datetime'', STime ''2014-01-03 10:00:00''),
      (''pickup_longitude'', SFloat (-74.0080)),
      (''pickup_latitude'', SFloat 40.7434),
      (''dropoff_longitude'', SFloat (-73.7781)),
      (''dropoff_latitude'', SFloat 40.6413)]"

definition taxi_predict_cell :: "(bq_model \<Rightarrow> sqlrow \<Rightarrow> real) \<Rightarrow> bq_project \<Rightarrow> sqlrow list result" where
  "taxi_predict_cell predict st =
     bindE (ml_predict predict taxifare_model [taxi_predict_input] st)
       (\<lambda>rows. map_result (sql_project [''predicted_label'']) rows)"

text \<open>The model the create-model cell stores for the training rows \<open>rows\<close>.\<close>

definition taxi_trained_model :: "sqlrow list \<Rightarrow> bq_model" where
  "taxi_trained_model rows =
     \<lparr>model_type = ''linear_reg'', model_labels = [''label''],
      model_features = [''pickup_datetime'', ''pickup_longitude'', ''pickup_latitude'',
                        ''dropoff_longitude'', ''dropoff_latitude''],
      model_data = rows\<rparr>"

section \<open>Properties\<close>

lemma taxi_dataset_cell_exists:
  "allowed \<or> ''bqml_taxifare'' \<in> bq_datasets st \<Longrightarrow>
     ''bqml_taxifare'' \<in> bq_datasets (fst (taxi_dataset_cell allowed st))"
  by (auto simp: taxi_dataset_cell_def create_dataset_def)

lemma taxi_create_model_ok:
  assumes "''bqml_taxifare'' \<in> bq_datasets st" "taxi_model_query fp trips = Inr rows"
  shows "taxi_create_model_cell fp trips st =
           Inr (st\<lparr>bq_models := (bq_models st)(taxifare_model \<mapsto> taxi_trained_model rows)\<rparr>)"
  using assms by (simp add: taxi_create_model_cell_def create_or_replace_model_def taxifare_model_def
                            taxi_model_cols_def taxi_trained_model_def)

lemma taxi_predict_ok:
  assumes "bq_models st taxifare_model = Some (taxi_trained_model rows)"
  shows "taxi_predict_cell predict st =
           Inr [[(''predicted_label'', SFloat (predict (taxi_trained_model rows) taxi_predict_input))]]"
  using assms by (simp add: taxi_predict_cell_def ml_predict_def taxi_trained_model_def
                            taxi_predict_input_def sql_project_def sql_col_def)

text \<open>
  C8: When the notebook may create datasets or \<open>bqml_taxifare\<close> exists already, and the
  training query succeeds with rows \<open>rows\<close>, the dataset cell followed by the model
  cell stores a linear model trained on exactly those rows, and the predict cell then
  returns one row holding only \<open>predicted_label\<close>, the model's prediction for the ride.
\<close>

theorem taxi_bqml_cells:
  assumes "allowed \<or> ''bqml_taxifare'' \<in> bq_datasets st" "taxi_model_query fp trips = Inr rows"
  shows "\<exists>st'. taxi_create_model_cell fp trips (fst (taxi_dataset_cell allowed st)) = Inr st' \<and>
           bq_models st' taxifare_model = Some (taxi_trained_model rows) \<and>
           taxi_predict_cell predict st' =
             Inr [[(''predicted_label'', SFloat (predict (taxi_trained_model rows) taxi_predict_input))]]"
  using taxi_create_model_ok [OF taxi_dataset_cell_exists [OF assms(1)] assms(2)]
  by (simp add: taxi_predict_ok)

text \<open>
  C35: When the notebook may not create datasets and \<open>bqml_taxifare\<close> does not exist,
  the dataset cell still prints \<open>Dataset already exists\<close>, and the model cell then
  fails with \<open>NotFound\<close> on the dataset.
\<close>

theorem taxi_dataset_cell_forbidden:
  assumes "''bqml_taxifare'' \<notin> bq_datasets st"
  shows "taxi_dataset_cell False st = (st, ''Dataset already exists'') \<and>
         taxi_create_model_cell fp trips st = Inl (NotFound ''bqml_taxifare'')"
  using assms by (simp add: taxi_dataset_cell_def create_dataset_def taxi_create_model_cell_def
                            create_or_replace_model_def taxifare_model_def)

text \<open>
  C22: The training query of the BigQuery ML model selects, row by row, what the
  \<open>WHERE\<close> clause of the Dataflow \<open>basequery\<close> selects with \<open>EVERY_N\<close> = 5000, errors
  included, and its label is the \<open>fare_amount\<close> the Dataflow query computes.
\<close>

theorem taxi_model_where_base:
  "taxi_model_where fp t = taxi_base_where fp 5000 t \<and>
   map_of (taxi_model_row t) ''label'' = Some (SFloat (tolls_amount t + fare_amount t)) \<and>
   taxi_select t ''fare_amount'' = Some (PFloat (tolls_amount t + fare_amount t))"
  by (auto simp: taxi_model_where_def taxi_base_where_def every_n_filter_def taxi_clean_def
                 taxi_model_row_def taxi_select_def bindE_def split: sum.splits)

section \<open>Witnesses\<close>

theorem taxi_bqml_cells_witness:
  "\<exists>st'. taxi_create_model_cell (\<lambda>_. 1) [example_trip] (fst (taxi_dataset_cell True bq_empty)) = Inr st' \<and>
     bq_models st' taxifare_model = Some (taxi_trained_model [taxi_model_row example_trip]) \<and>
     taxi_predict_cell (\<lambda>_ _. 22.12) st' = Inr [[(''predicted_label'', SFloat 22.12)]]"
proof -
  have q: "taxi_model_query (\<lambda>_. 1) [example_trip] = Inr [taxi_model_row example_trip]"
    by (simp add: taxi_model_query_def taxi_model_where_def pickup_hash_def sql_abs_def int64_min_def
                  sql_mod_def example_trip_def)
  show ?thesis
    using taxi_bqml_cells [of True bq_empty "\<lambda>_. 1" "[example_trip]" _ "\<lambda>_ _. 22.12", OF _ q] by simp
qed

theorem taxi_dataset_cell_forbidden_witness:
  "taxi_dataset_cell False bq_empty = (bq_empty, ''Dataset already exists'') \<and>
   taxi_create_model_cell (\<lambda>_. 1) [example_trip] bq_empty = Inl (NotFound ''bqml_taxifare'')"
  using taxi_dataset_cell_forbidden [of bq_empty] by (simp add: bq_empty_def)

end
