(* ===== verification/BqmlNatality.thy ===== *)
theory BqmlNatality
  imports Natality
begin

text \<open>
  The BigQuery queries of \<open>5_train_bqml.ipynb\<close> over \<open>publicdata.samples.natality\<close>:
  the exploration queries, the as-is feature query and its training selection, the
  engineered features (mother's age bucketed, everything categorical a string), the
  no-ultrasound variant, and their \<open>UNION ALL\<close> with the 75\% training selection
  \<open>MOD(hashmonth, 4) < 3\<close>. Each query is a function from the natality table to its
  result rows, or the error that BigQuery raises; a query with \<open>LIMIT\<close> is a relation
  between the table and the rows it may return.
\<close>

section \<open>Definitions\<close>

text \<open>The \<open>WHERE\<close> clause shared by every query of the notebook (it has no \<open>month > 0\<close>).\<close>

definition bqml_where :: "natality \<Rightarrow> bool" where
  "bqml_where r \<longleftrightarrow>
     year r > 2000
     \<and> gestation_weeks r > 0
     \<and> mother_age r > 0
     \<and> plurality r > 0
     \<and> weight_pounds r > 0"

text \<open>\<open>SELECT * FROM natality WHERE ... LIMIT 10\<close>.\<close>

definition explore_result :: "natality list \<Rightarrow> natality list \<Rightarrow> bool" where
  "explore_result rows out \<longleftrightarrow> sql_limit 10 (filter bqml_where rows) out"

text \<open>The select list of the feature query and of its copy in the \<open>natality_data\<close> CTE.\<close>

definition features_cols :: "natality \<Rightarrow> int \<Rightarrow> sqlrow" where
  "features_cols r h =
     [(''weight_pounds'', SFloat (weight_pounds r)),
      (''is_male'', SStr (cast_bool_string (is_male r))),
      (''mother_age'', SInt (mother_age r)),
      (''plurality'', SStr (cast_int_string (plurality r))),
      (''gestation_weeks'', SInt (gestation_weeks r)),
      (''hashmonth'', SInt h)]"

definition features_row :: "fingerprint \<Rightarrow> natality \<Rightarrow> sqlrow result" where
  "features_row fp r = bindE (hashmonth fp r) (\<lambda>h. Inr (features_cols r h))"

text \<open>\<open>WITH natality_data AS (SELECT ... FROM natality WHERE ...)\<close>.\<close>

definition natality_data :: "fingerprint \<Rightarrow> natality list \<Rightarrow> sqlrow list result" where
  "natality_data fp rows = map_result (features_row fp) (filter bqml_where rows)"

text \<open>The feature query of section ``Define features'', with its \<open>LIMIT 10\<close>.\<close>

definition features_result :: "fingerprint \<Rightarrow> natality list \<Rightarrow> sqlrow list result \<Rightarrow> bool" where
  "features_result fp rows out \<longleftrightarrow> sql_limit_res 10 (natality_data fp rows) out"

text \<open>The label and feature columns every training selection keeps.\<close>

definition label_features :: "string list" where
  "label_features = [''weight_pounds'', ''is_male'', ''mother_age'', ''plurality'', ''gestation_weeks'']"

text \<open>\<open>WHERE MOD(hashmonth, 4) < 3\<close> on a row of the subquery.\<close>

definition train_where :: "sqlrow \<Rightarrow> bool result" where
  "train_where row =
     bindE (sql_col row ''hashmonth'') (\<lambda>v. case v of
        SInt h \<Rightarrow> bindE (sql_mod h 4) (\<lambda>m. Inr (m < 3))
      | _ \<Rightarrow> Inl TypeError)"

text \<open>\<open>SELECT weight_pounds, ..., gestation_weeks FROM t WHERE MOD(hashmonth, 4) < 3\<close>.\<close>

definition select_training :: "sqlrow list \<Rightarrow> sqlrow list result" where
  "select_training xs = bindE (sql_where train_where xs) (map_result (sql_project label_features))"

text \<open>The training data of \<open>babyweight_model_asis\<close> (Exercise 1).\<close>

definition asis_training :: "fingerprint \<Rightarrow> natality list \<Rightarrow> sqlrow list result" where
  "asis_training fp rows = bindE (natality_data fp rows) select_training"

text \<open>\<open>IF(mother_age < 18, 'LOW', IF(mother_age > 45, 'HIGH', CAST(mother_age AS STRING)))\<close>.\<close>

definition mother_age_bucket :: "int \<Rightarrow> string" where
  "mother_age_bucket a =
     (if a < 18 then ''LOW'' else if a > 45 then ''HIGH'' else cast_int_string a)"

text \<open>The select list of the engineered query and of the \<open>with_ultrasound\<close> CTE.\<close>

definition engineered_cols :: "natality \<Rightarrow> int \<Rightarrow> sqlrow" where
  "engineered_cols r h =
     [(''weight_pounds'', SFloat (weight_pounds r)),
      (''is_male'', SStr (cast_bool_string (is_male r))),
      (''mother_age'', SStr (mother_age_bucket (mother_age r))),
      (''plurality'', SStr (cast_int_string (plurality r))),
      (''gestation_weeks'', SStr (cast_int_string (gestation_weeks r))),
      (''hashmonth'', SInt h)]"

text \<open>The select list of the no-ultrasound query and of the \<open>without_ultrasound\<close> CTE.\<close>

definition no_ultrasound_cols :: "natality \<Rightarrow> int \<Rightarrow> sqlrow" where
  "no_ultrasound_cols r h =
     [(''weight_pounds'', SFloat (weight_pounds r)),
      (''is_male'', SStr ''Unknown''),
      (''mother_age'', SStr (mother_age_bucket (mother_age r))),
      (''plurality'', SStr (if plurality r > 1 then ''Multiple'' else ''Single'')),
      (''gestation_weeks'', SStr (cast_int_string (gestation_weeks r))),
      (''hashmonth'', SInt h)]"

definition with_ultrasound :: "fingerprint \<Rightarrow> natality list \<Rightarrow> sqlrow list result" where
  "with_ultrasound fp rows =
     map_result (\<lambda>r. bindE (hashmonth fp r) (\<lambda>h. Inr (engineered_cols r h))) (filter bqml_where rows)"

definition without_ultrasound :: "fingerprint \<Rightarrow> natality list \<Rightarrow> sqlrow list result" where
  "without_ultrasound fp rows =
     map_result (\<lambda>r. bindE (hashmonth fp r) (\<lambda>h. Inr (no_ultrasound_cols r h))) (filter bqml_where rows)"

text \<open>The engineered and the no-ultrasound queries, each with its \<open>LIMIT 25\<close>.\<close>

definition engineered_result :: "fingerprint \<Rightarrow> natality list \<Rightarrow> sqlrow list result \<Rightarrow> bool" where
  "engineered_result fp rows out \<longleftrightarrow> sql_limit_res 25 (with_ultrasound fp rows) out"

definition no_ultrasound_result :: "fingerprint \<Rightarrow> natality list \<Rightarrow> sqlrow list result \<Rightarrow> bool" where
  "no_ultrasound_result fp rows out \<longleftrightarrow> sql_limit_res 25 (without_ultrasound fp rows) out"

text \<open>\<open>preprocessed AS (SELECT * FROM with_ultrasound UNION ALL SELECT * FROM without_ultrasound)\<close>.\<close>

definition preprocessed :: "fingerprint \<Rightarrow> natality list \<Rightarrow> sqlrow list result" where
  "preprocessed fp rows =
     bindE (with_ultrasound fp rows) (\<lambda>a. bindE (without_ultrasound fp rows) (\<lambda>b. Inr (a @ b)))"

text \<open>The union query with \<open>LIMIT 25\<close>, and the training data of \<open>babyweight_model_fc\<close>.\<close>

definition union_result :: "fingerprint \<Rightarrow> natality list \<Rightarrow> sqlrow list result \<Rightarrow> bool" where
  "union_result fp rows out \<longleftrightarrow> sql_limit_res 25 (bindE (preprocessed fp rows) select_training) out"

definition fc_training :: "fingerprint \<Rightarrow> natality list \<Rightarrow> sqlrow list result" where
  "fc_training fp rows = bindE (preprocessed fp rows) select_training"

text \<open>The column types of \<open>preprocessed\<close>: every feature but the label and the hash a STRING.\<close>

definition fc_schema :: "(string \<times> sqltype) list" where
  "fc_schema = [(''weight_pounds'', TFloat64), (''is_male'', TString), (''mother_age'', TString),
                (''plurality'', TString), (''gestation_weeks'', TString), (''hashmonth'', TInt64)]"

section \<open>Properties\<close>

lemma select_training_append:
  "select_training xs = Inr a \<Longrightarrow> select_training ys = Inr b \<Longrightarrow> select_training (xs @ ys) = Inr (a @ b)"
  by (auto simp: select_training_def sql_where_append map_result_append bindE_def split: sum.splits)

lemma select_training_map:
  assumes "\<forall>x \<in> set xs. map_of (g x) ''hashmonth'' = Some (SInt (K x)) \<and> 0 \<le> K x \<and>
      sql_project label_features (g x) = Inr (f x)"
  shows "select_training (map g xs) = Inr (map f (filter (\<lambda>x. K x mod 4 < 3) xs))"
proof -
  have tw: "train_where (g x) = Inr (K x mod 4 < 3)" if "x \<in> set xs" for x
    using assms that by (simp add: train_where_def sql_col_def sql_mod_nonneg)
  have "sql_where train_where (map g xs) = Inr (filter (\<lambda>row. train_where row = Inr True) (map g xs))"
    by (rule sql_where_total) (use tw in auto)
  also have "filter (\<lambda>row. train_where row = Inr True) (map g xs) = map g (filter (\<lambda>x. K x mod 4 < 3) xs)"
    unfolding filter_map o_def by (rule arg_cong [where f = "map g"], rule filter_cong) (simp_all add: tw)
  finally show ?thesis
    by (simp add: select_training_def map_result_map assms)
qed

lemma engineered_cols_props:
  "map_of (engineered_cols r h) ''hashmonth'' = Some (SInt h)"
  "sql_project label_features (engineered_cols r h) = Inr (take 5 (engineered_cols r h))"
  by (simp_all add: engineered_cols_def sql_project_def label_features_def sql_col_def)

lemma no_ultrasound_cols_props:
  "map_of (no_ultrasound_cols r h) ''hashmonth'' = Some (SInt h)"
  "sql_project label_features (no_ultrasound_cols r h) = Inr (take 5 (no_ultrasound_cols r h))"
  by (simp_all add: no_ultrasound_cols_def sql_project_def label_features_def sql_col_def)

lemma features_cols_props:
  "map_of (features_cols r h) ''hashmonth'' = Some (SInt h)"
  "sql_project label_features (features_cols r h) = Inr (take 5 (features_cols r h))"
  by (simp_all add: features_cols_def sql_project_def label_features_def sql_col_def)

lemma hashes_nonneg:
  "\<forall>r \<in> set rows. bqml_where r \<longrightarrow> hashmonth fp r = Inr (H r) \<Longrightarrow>
   \<forall>r \<in> set (filter bqml_where rows). 0 \<le> H r"
  using hashmonth_nonneg by auto

text \<open>
  C5: When the hash of every kept birth can be computed, the training data of
  \<open>babyweight_model_fc\<close> holds, for each birth of a month whose \<open>MOD(hashmonth, 4)\<close> is
  below 3, its engineered row and its no-ultrasound row, and nothing else: the union
  doubles the training set, once with the sex and plurality known and once without.
\<close>

theorem fc_training_mset:
  assumes "\<forall>r \<in> set rows. bqml_where r \<longrightarrow> hashmonth fp r = Inr (H r)"
  shows "\<exists>ys. fc_training fp rows = Inr ys \<and>
    mset ys = mset (map (\<lambda>r. take 5 (engineered_cols r (H r))) (filter (\<lambda>r. bqml_where r \<and> H r mod 4 < 3) rows))
            + mset (map (\<lambda>r. take 5 (no_ultrasound_cols r (H r))) (filter (\<lambda>r. bqml_where r \<and> H r mod 4 < 3) rows))"
proof -
  let ?F = "filter bqml_where rows"
  have nn: "\<forall>r \<in> set ?F. 0 \<le> H r" using hashes_nonneg [OF assms] .
  have w: "with_ultrasound fp rows = Inr (map (\<lambda>r. engineered_cols r (H r)) ?F)"
    unfolding with_ultrasound_def by (rule hash_rows_eval [OF assms])
  have wo: "without_ultrasound fp rows = Inr (map (\<lambda>r. no_ultrasound_cols r (H r)) ?F)"
    unfolding without_ultrasound_def by (rule hash_rows_eval [OF assms])
  have sw: "select_training (map (\<lambda>r. engineered_cols r (H r)) ?F) =
      Inr (map (\<lambda>r. take 5 (engineered_cols r (H r))) (filter (\<lambda>r. H r mod 4 < 3) ?F))"
    by (rule select_training_map) (use nn in \<open>simp add: engineered_cols_props\<close>)
  have swo: "select_training (map (\<lambda>r. no_ultrasound_cols r (H r)) ?F) =
      Inr (map (\<lambda>r. take 5 (no_ultrasound_cols r (H r))) (filter (\<lambda>r. H r mod 4 < 3) ?F))"
    by (rule select_training_map) (use nn in \<open>simp add: no_ultrasound_cols_props\<close>)
  have "fc_training fp rows =
      Inr (map (\<lambda>r. take 5 (engineered_cols r (H r))) (filter (\<lambda>r. H r mod 4 < 3) ?F) @
           map (\<lambda>r. take 5 (no_ultrasound_cols r (H r))) (filter (\<lambda>r. H r mod 4 < 3) ?F))"
    using select_training_append [OF sw swo] w wo by (simp add: fc_training_def preprocessed_def)
  then show ?thesis by (simp add: filter_filter)
qed


lemma length_nat_digits:
  "10 ^ k \<le> n \<Longrightarrow> n < 10 ^ Suc k \<Longrightarrow> length (nat_digits n) = Suc k"
proof (induction k arbitrary: n)
  case 0
  then show ?case by (subst nat_digits.simps) simp
next
  case (Suc k)
  have "10 \<le> n" using Suc.prems(1) by (metis le_trans one_le_power power_Suc mult_le_mono2 nat_mult_1_right one_le_numeral)
  moreover have "10 ^ k \<le> n div 10" using Suc.prems(1) by (simp add: le_div_geq div_le_mono power_Suc2 [symmetric] less_eq_div_iff_mult_less_eq)
  moreover have "n div 10 < 10 ^ Suc k" using Suc.prems(2) by (simp add: div_less_iff_less_mult)
  ultimately show ?case using Suc.IH by (subst nat_digits.simps) simp
qed

lemma show_int_4_digits: "1000 \<le> y \<Longrightarrow> y \<le> 9999 \<Longrightarrow> length (show_int y) = 4"
  using length_nat_digits [of 3 "nat y"] by (simp add: show_int_def show_nat_def)

text \<open>
  For four-digit years, the key \<open>CONCAT(CAST(year AS STRING), CAST(month
  AS STRING))\<close> that \<open>hashmonth\<close> hashes identifies the birth month: two births share it
  exactly when they share year and month. (Without the bound it does not:
  \<open>month_key_collision\<close> shows 2001/11 and 20011/1 sharing a key.)
\<close>

theorem month_key_inj:
  assumes "1000 \<le> year r1" "year r1 \<le> 9999" "1000 \<le> year r2" "year r2 \<le> 9999"
  shows "month_key r1 = month_key r2 \<longleftrightarrow> year r1 = year r2 \<and> month r1 = month r2"
proof
  assume eq: "month_key r1 = month_key r2"
  have l1: "length (show_int (year r1)) = 4" and l2: "length (show_int (year r2)) = 4"
    using assms by (simp_all add: show_int_4_digits)
  from eq have "take 4 (month_key r1) = take 4 (month_key r2)" "drop 4 (month_key r1) = drop 4 (month_key r2)"
    by simp_all
  with l1 l2 show "year r1 = year r2 \<and> month r1 = month r2"
    by (simp add: month_key_def show_int_inj)
qed (simp add: month_key_def)

lemma show_int_not_letter: "CHR ''L'' \<notin> set (show_int i)" "CHR ''H'' \<notin> set (show_int i)"
  using show_int_chars [of i] by auto

text \<open>
  On positive ages the mother's age bucket takes exactly 30 values:
  \<open>LOW\<close>, \<open>HIGH\<close> and the decimal texts of 18 to 45.
\<close>

theorem mother_age_bucket_values:
  "mother_age_bucket ` {a. 0 < a} = {''LOW'', ''HIGH''} \<union> cast_int_string ` {18..45} \<and>
   card (mother_age_bucket ` {a. 0 < a}) = 30"
proof -
  have img: "mother_age_bucket ` {a. 0 < a} = {''LOW'', ''HIGH''} \<union> cast_int_string ` {18..45}"
  proof (intro equalityI subsetI)
    fix s assume "s \<in> mother_age_bucket ` {a. 0 < a}"
    then show "s \<in> {''LOW'', ''HIGH''} \<union> cast_int_string ` {18..45}"
      by (auto simp: mother_age_bucket_def)
  next
    fix s assume s: "s \<in> {''LOW'', ''HIGH''} \<union> cast_int_string ` {18..45}"
    have low: "mother_age_bucket 1 = ''LOW''" and high: "mother_age_bucket 46 = ''HIGH''"
      by (simp_all add: mother_age_bucket_def)
    from s consider "s = ''LOW''" | "s = ''HIGH''" | a where "a \<in> {18..45}" "s = cast_int_string a"
      by blast
    then show "s \<in> mother_age_bucket ` {a. 0 < a}"
    proof cases
      case 1
      then show ?thesis using low by (auto intro: image_eqI [where x = 1])
    next
      case 2
      then show ?thesis using high by (auto intro: image_eqI [where x = 46])
    next
      case (3 a)
      then have "s = mother_age_bucket a" "0 < a" by (simp_all add: mother_age_bucket_def)
      then show ?thesis by blast
    qed
  qed
  have "inj_on cast_int_string {18..45}" by (simp add: inj_on_def show_int_inj)
  then have c28: "card (cast_int_string ` {18..(45::int)}) = 28" by (simp add: card_image)
  have "''LOW'' \<notin> cast_int_string ` {18..45}" "''HIGH'' \<notin> cast_int_string ` {18..45}"
    using show_int_not_letter by (metis imageE list.set_intros(1))+
  then have "card ({''LOW'', ''HIGH''} \<union> cast_int_string ` {18..45}) = 30"
    using c28 by simp
  with img show ?thesis by simp
qed

text \<open>
  When the hash of every kept birth can be computed, the training data of
  \<open>babyweight_model_asis\<close> is the five label and feature columns of the births whose
  \<open>MOD(hashmonth, 4)\<close> is below 3, in table order.
\<close>

theorem asis_training_eval:
  assumes "\<forall>r \<in> set rows. bqml_where r \<longrightarrow> hashmonth fp r = Inr (H r)"
  shows "asis_training fp rows =
    Inr (map (\<lambda>r. take 5 (features_cols r (H r))) (filter (\<lambda>r. bqml_where r \<and> H r mod 4 < 3) rows))"
proof -
  let ?F = "filter bqml_where rows"
  have nn: "\<forall>r \<in> set ?F. 0 \<le> H r" using hashes_nonneg [OF assms] .
  have d: "natality_data fp rows = Inr (map (\<lambda>r. features_cols r (H r)) ?F)"
    unfolding natality_data_def features_row_def by (rule hash_rows_eval [OF assms])
  have "select_training (map (\<lambda>r. features_cols r (H r)) ?F) =
      Inr (map (\<lambda>r. take 5 (features_cols r (H r))) (filter (\<lambda>r. H r mod 4 < 3) ?F))"
    by (rule select_training_map) (use nn in \<open>simp add: features_cols_props\<close>)
  with d show ?thesis by (simp add: asis_training_def filter_filter)
qed

text \<open>
  The union query's preview (\<open>LIMIT 25\<close>) succeeds exactly when the training data
  of \<open>babyweight_model_fc\<close> does, and shows at most 25 of its rows, as many as there are
  up to 25.
\<close>

theorem union_result_preview:
  assumes "union_result fp rows out" "fc_training fp rows = Inr zs"
  shows "\<exists>ys. out = Inr ys \<and> mset ys \<subseteq># mset zs \<and> length ys = min 25 (length zs)"
  using assms by (cases out) (simp_all add: union_result_def fc_training_def sql_limit_def)

text \<open>
  C31: The Beam preprocessing query of the babyweight pipeline keeps exactly the births
  that the BigQuery ML queries keep and that have a positive month: the two feature
  pipelines do not read the same rows when a month is not positive.
\<close>

theorem beam_where_bqml: "beam_where r \<longleftrightarrow> bqml_where r \<and> month r > 0"
  by (auto simp: beam_where_def bqml_where_def)

lemma month_key_collision:
  "month_key (example_birth\<lparr>year := 2001, month := 11\<rparr>) = month_key (example_birth\<lparr>year := 20011, month := 1\<rparr>)"
  by (simp add: month_key_def show_int_def show_nat_def nat_digits.simps digit_char_def)

text \<open>
  C19: \<open>with_ultrasound\<close> and \<open>without_ultrasound\<close> agree on their column types, so the
  \<open>UNION ALL\<close> of \<open>preprocessed\<close> is well-typed: the casts of \<open>mother_age\<close>, \<open>plurality\<close>
  and \<open>gestation_weeks\<close> to STRING are made in both.
\<close>

theorem preprocessed_schema:
  assumes "preprocessed fp rows = Inr U"
  shows "\<forall>x \<in> set U. row_schema fc_schema x"
proof -
  from assms obtain a b where a: "with_ultrasound fp rows = Inr a" and b: "without_ultrasound fp rows = Inr b"
      and U: "U = a @ b"
    by (auto simp: preprocessed_def bindE_def split: sum.splits)
  have "row_schema fc_schema x" if xa: "x \<in> set a" for x
    using hash_rows_shape [OF a [unfolded with_ultrasound_def] xa]
    by (auto simp: engineered_cols_def row_schema_def fc_schema_def)
  moreover have "row_schema fc_schema x" if xb: "x \<in> set b" for x
    using hash_rows_shape [OF b [unfolded without_ultrasound_def] xb]
    by (auto simp: no_ultrasound_cols_def row_schema_def fc_schema_def)
  ultimately show ?thesis using U by auto
qed

section \<open>Witnesses\<close>

theorem fc_training_mset_witness:
  "\<exists>ys. fc_training (\<lambda>_. 6) [example_birth] = Inr ys \<and>
    mset ys = mset (map (\<lambda>r. take 5 (engineered_cols r 6)) (filter (\<lambda>r. bqml_where r \<and> (6::int) mod 4 < 3) [example_birth]))
            + mset (map (\<lambda>r. take 5 (no_ultrasound_cols r 6)) (filter (\<lambda>r. bqml_where r \<and> (6::int) mod 4 < 3) [example_birth]))"
proof -
  have h: "\<forall>r \<in> set [example_birth]. bqml_where r \<longrightarrow> hashmonth (\<lambda>_. 6) r = Inr ((\<lambda>_. 6) r)"
    by (simp add: hashmonth_def sql_abs_def int64_min_def)
  show ?thesis using fc_training_mset [OF h] by simp
qed

theorem asis_training_eval_witness:
  "asis_training (\<lambda>_. 6) [example_birth] =
    Inr (map (\<lambda>r. take 5 (features_cols r 6)) (filter (\<lambda>r. bqml_where r \<and> (6::int) mod 4 < 3) [example_birth]))"
proof -
  have h: "\<forall>r \<in> set [example_birth]. bqml_where r \<longrightarrow> hashmonth (\<lambda>_. 6) r = Inr ((\<lambda>_. 6) r)"
    by (simp add: hashmonth_def sql_abs_def int64_min_def)
  show ?thesis using asis_training_eval [OF h] by simp
qed

theorem month_key_inj_witness:
  "month_key example_birth \<noteq> month_key (example_birth\<lparr>month := 7\<rparr>)"
proof -
  have "month_key example_birth = month_key (example_birth\<lparr>month := 7\<rparr>) \<longleftrightarrow>
      year example_birth = year (example_birth\<lparr>month := 7\<rparr>) \<and> month example_birth = month (example_birth\<lparr>month := 7\<rparr>)"
    by (rule month_key_inj) (simp_all add: example_birth_def)
  then show ?thesis by (simp add: example_birth_def)
qed

theorem union_result_preview_witness:
  "\<exists>ys. Inr [] = Inr ys \<and> mset ys \<subseteq># mset ([] :: sqlrow list) \<and> length ys = min 25 (length ([] :: sqlrow list))"
proof -
  have f: "fc_training (\<lambda>_. 6) [] = Inr []"
    by (simp add: fc_training_def preprocessed_def with_ultrasound_def without_ultrasound_def select_training_def)
  have u: "union_result (\<lambda>_. 6) [] (Inr [])"
    by (simp add: union_result_def preprocessed_def with_ultrasound_def without_ultrasound_def
                  select_training_def sql_limit_def)
  show ?thesis using union_result_preview [OF u f] by simp
qed

theorem preprocessed_schema_witness:
  "list_all (row_schema fc_schema) (projr (preprocessed (\<lambda>_. 6) [example_birth]))"
proof -
  have "preprocessed (\<lambda>_. 6) [example_birth] = Inr (projr (preprocessed (\<lambda>_. 6) [example_birth]))"
    by (simp add: preprocessed_def with_ultrasound_def without_ultrasound_def hashmonth_def sql_abs_def int64_min_def)
  then have "\<forall>x \<in> set (projr (preprocessed (\<lambda>_. 6) [example_birth])). row_schema fc_schema x"
    by (rule preprocessed_schema)
  then show ?thesis by (simp add: list_all_iff)
qed

end
