(* ===== verification/BqmlSession.thy ===== *)
theory BqmlSession
  imports BqmlNatality BqProject Shell
begin

text \<open>
  The session cells of \<open>5_train_bqml.ipynb\<close> around its queries: the configuration and
  its copy into \<open>os.environ\<close>, the \<open>gcloud config\<close> cell, \<open>bq mk -d demo\<close>, the cell
  that reads \<open>ML.TRAINING_INFO\<close> of \<open>demo.babyweight_model_asis\<close> into a data frame and
  plots its \<open>loss\<close> and \<open>eval_loss\<close> against \<open>iteration\<close>, and the exercise cells whose
  code is a \<open>TODO\<close> comment. The queries of the notebook are the definitions of
  \<open>BqmlNatality\<close>; none of them changes the project. What a plot looks like is not
  modelled: a plot is the list of points it draws.
\<close>

section \<open>Definitions\<close>

record nb_config =
  nb_project :: string
  nb_bucket :: string
  nb_region :: string

definition bqml_nb_config_cell :: nb_config where
  "bqml_nb_config_cell =
     \<lparr>nb_project = ''cloud-training-demos'', nb_bucket = ''cloud-training-bucket'',
      nb_region = ''us-central1''\<rparr>"

definition bqml_nb_environ_cell :: "nb_config \<Rightarrow> environ \<Rightarrow> environ" where
  "bqml_nb_environ_cell c env =
     set_environ [(''BUCKET'', nb_bucket c), (''PROJECT'', nb_project c), (''REGION'', nb_region c)] env"

definition bqml_nb_gcloud_cell :: "environ \<Rightarrow> (string \<times> string) list" where
  "bqml_nb_gcloud_cell env =
     [(''project'', sh_expand env ''$PROJECT''), (''compute/region'', sh_expand env ''$REGION'')]"

text \<open>\<open>bq --location=US mk -d demo\<close>: \<open>bq\<close> fails on a dataset that exists.\<close>

definition bq_mk_demo_cell :: "bool \<Rightarrow> bq_project \<Rightarrow> bq_project result" where
  "bq_mk_demo_cell allowed st = create_dataset allowed ''demo'' st"

text \<open>
  Exercise 1: the \<open>%%bigquery\<close> cell meant to train \<open>demo.babyweight_model_asis\<close>. Its
  \<open>CREATE MODEL\<close> line is the comment \<open># TODO: Your code goes here\<close>, so what runs is
  the plain \<open>SELECT\<close> of \<open>asis_training\<close>: the cell shows its rows and leaves the
  project as it was.
\<close>

definition asis_training_cell :: "fingerprint \<Rightarrow> natality list \<Rightarrow> bq_project \<Rightarrow> (sqlrow list \<times> bq_project) result" where
  "asis_training_cell fp rows st = bindE (asis_training fp rows) (\<lambda>df. Inr (df, st))"

text \<open>
  Exercise 2: the \<open>%%bigquery\<close> cell whose body is the comment \<open># TODO: Your code goes
  here\<close>; BigQuery rejects a script with no statement.
\<close>

definition exercise2_cell :: "sqlrow list result" where
  "exercise2_cell = Inl (SyntaxError ''Unexpected end of script'')"

definition asis_model :: model_name where
  "asis_model = (''demo'', ''babyweight_model_asis'')"

text \<open>
  \<open>plt.plot(x, y, data=df)\<close>: the points \<open>(df[x], df[y])\<close> of every row; a column the
  frame lacks is a \<open>KeyError\<close>.
\<close>

definition plot_series :: "string \<Rightarrow> string \<Rightarrow> sqlrow list \<Rightarrow> (sqlval \<times> sqlval) list result" where
  "plot_series x y df =
     map_result (\<lambda>row. case (map_of row x, map_of row y) of
                          (Some a, Some b) \<Rightarrow> Inr (a, b)
                        | (None, _) \<Rightarrow> Inl (KeyError x)
                        | (_, None) \<Rightarrow> Inl (KeyError y)) df"

text \<open>
  \<open>df = bq.query("SELECT * FROM ML.TRAINING_INFO(MODEL demo.babyweight_model_asis)").to_dataframe()\<close>,
  then the orange \<open>loss\<close> line and the green dashed \<open>eval_loss\<close> line.
\<close>

definition training_plot_cell ::
  "(bq_model \<Rightarrow> sqlrow list) \<Rightarrow> bq_project \<Rightarrow> ((sqlval \<times> sqlval) list \<times> (sqlval \<times> sqlval) list) result" where
  "training_plot_cell info st =
     bindE (training_info info asis_model st) (\<lambda>df.
     bindE (plot_series ''iteration'' ''loss'' df) (\<lambda>loss.
     bindE (plot_series ''iteration'' ''eval_loss'' df) (\<lambda>eval_loss.
     Inr (loss, eval_loss))))"

text \<open>Exercise 3: \<open>SELECT * FROM\<close> followed by the \<open>TODO\<close> comment and \<open>LIMIT 100\<close>.\<close>

definition exercise3_cell :: "sqlrow list result" where
  "exercise3_cell = Inl (SyntaxError ''Unexpected keyword LIMIT'')"

text \<open>Exercise 5: \<open>df = # TODO: Your code goes here\<close> does not parse, so no line of the cell runs.\<close>

definition exercise5_cell :: "((sqlval \<times> sqlval) list \<times> (sqlval \<times> sqlval) list) result" where
  "exercise5_cell = Inl (SyntaxError ''invalid syntax'')"

text \<open>Exercise 6: \<open>SELECT * FROM\<close> followed by the \<open>TODO\<close> comment.\<close>

definition exercise6_cell :: "sqlrow list result" where
  "exercise6_cell = Inl (SyntaxError ''Unexpected end of script'')"

section \<open>Properties\<close>

lemma bq_mk_demo_models:
  "bq_mk_demo_cell allowed st = Inr st' \<Longrightarrow> bq_models st' = bq_models st"
  by (auto simp: bq_mk_demo_cell_def create_dataset_def split: if_splits)

text \<open>
  C20: No cell of the notebook creates \<open>demo.babyweight_model_asis\<close>: the Exercise 1
  cell meant to train it runs a plain \<open>SELECT\<close>, its \<open>CREATE MODEL\<close> line being a
  \<open>TODO\<close>. So from a project without that model, after \<open>bq mk -d demo\<close> and then the
  Exercise 1 cell have run, each whether it succeeded or failed, the training-statistics
  cell fails with \<open>NotFound\<close> and plots nothing.
\<close>

theorem training_plot_no_model:
  assumes "bq_models st asis_model = None"
  shows "let st1 = (case bq_mk_demo_cell allowed st of Inl e \<Rightarrow> st | Inr st' \<Rightarrow> st');
             st2 = (case asis_training_cell fp rows st1 of Inl e \<Rightarrow> st1 | Inr (df, st') \<Rightarrow> st')
         in training_plot_cell info st2 = Inl (NotFound ''babyweight_model_asis'')"
proof -
  let ?st1 = "case bq_mk_demo_cell allowed st of Inl e \<Rightarrow> st | Inr st' \<Rightarrow> st'"
  have m1: "bq_models ?st1 asis_model = None"
    using assms bq_mk_demo_models by (cases "bq_mk_demo_cell allowed st") simp_all
  have "(case asis_training_cell fp rows ?st1 of Inl e \<Rightarrow> ?st1 | Inr (df, st') \<Rightarrow> st') = ?st1"
    by (simp add: asis_training_cell_def bindE_def split: sum.split)
  with m1 show ?thesis by (simp add: Let_def training_plot_cell_def training_info_def asis_model_def)
qed

text \<open>
  When the model exists and its statistics have the three columns, the plot cell
  draws one point per statistics row on each line, in row order.
\<close>

lemma training_plot_points:
  assumes "bq_models st asis_model = Some m"
    "\<forall>row \<in> set (info m). \<exists>i l e. map_of row ''iteration'' = Some i \<and> map_of row ''loss'' = Some l \<and>
       map_of row ''eval_loss'' = Some e"
  shows "training_plot_cell info st =
    Inr (map (\<lambda>row. (the (map_of row ''iteration''), the (map_of row ''loss''))) (info m),
         map (\<lambda>row. (the (map_of row ''iteration''), the (map_of row ''eval_loss''))) (info m))"
proof -
  have "plot_series ''iteration'' c (info m) = Inr (map (\<lambda>row. (the (map_of row ''iteration''), the (map_of row c))) (info m))"
    if "c = ''loss'' \<or> c = ''eval_loss''" for c
    unfolding plot_series_def by (rule map_result_Inr) (use assms(2) that in auto)
  then show ?thesis using assms(1) by (simp add: training_plot_cell_def training_info_def)
qed

section \<open>Witnesses\<close>

theorem training_plot_no_model_witness:
  "let st1 = (case bq_mk_demo_cell True bq_empty of Inl e \<Rightarrow> bq_empty | Inr st' \<Rightarrow> st');
       st2 = (case asis_training_cell (\<lambda>_. 6) [example_birth] st1 of Inl e \<Rightarrow> st1 | Inr (df, st') \<Rightarrow> st')
   in training_plot_cell (\<lambda>_. []) st2 = Inl (NotFound ''babyweight_model_asis'')"
  by (rule training_plot_no_model) (simp add: bq_empty_def)

end
