(* ===== verification/Spec2Isabelle.thy ===== *)
theory Spec2Isabelle
  imports DataflowRun Packages TaxiBqml BqmlSession
begin

text \<open>
  \<^bold>\<open>A verification library for the preprocessing and BigQuery ML notebooks.\<close>

  \<^bold>\<open>The program.\<close> Three notebooks under \<open>src/\<close> are modelled. Each is a sequence of
  cells that act on cloud state.
  \<^item> \<open>04_advanced_preprocessing/labs/a_dataflow.ipynb\<close> holds two notebooks.
    The taxi-fare Dataflow notebook builds a BigQuery query per phase (\<open>create_query\<close>),
    turns rows into CSV (\<open>to_csv\<close>), runs a Beam pipeline (\<open>preprocess\<close>), clears and
    lists Cloud Storage with \<open>gsutil\<close>, trains locally and on ML Engine, and inspects and
    queries the exported model. The BigQuery ML taxi notebook creates a dataset, trains
    a linear model, reads its training statistics and predicts one ride.
  \<^item> \<open>05_review/labs/5_train_bqml.ipynb\<close> explores the natality table, builds the
    feature queries of two BigQuery ML models (as-is and engineered), and plots the
    training statistics; several exercise cells are left as \<open>TODO\<close>.
  \<^item> \<open>src/unnamed/part_000\<close> is the babyweight preprocessing notebook. It has a Beam path
    (\<open>to_csv\<close>, \<open>preprocess\<close>) and a BigQuery path: a temporary dataset, a table per
    split written with \<open>WRITE_TRUNCATE\<close>, and CSV export to Cloud Storage.

  The notebooks interact only through shared cloud state: the BigQuery project, the
  Cloud Storage object store, the local disk and the shell environment filled from
  Python through \<open>os.environ\<close>.

  \<^bold>\<open>Theories and what they model.\<close>
  \<^item> \<open>Prelude\<close>: errors as values (\<open>'a result = error + 'a\<close>, \<open>bindE\<close>, \<open>map_result\<close>,
    first error wins), Python builtins (\<open>str.join\<close>, \<open>split\<close>, \<open>replace\<close>, \<open>str\<close> of ints,
    list indexing with negative indices and \<open>IndexError\<close>, dictionaries with \<open>KeyError\<close>),
    and \<open>run_steps\<close>, a \<open>for\<close> loop whose body may raise: the loop stops at the first
    exception and keeps the effects done so far. \<open>wait_done\<close> is \<open>job.result()\<close>, polling a
    job until it reports done, and \<open>run_steps_wait\<close> is the loop that waits on each job.
  \<^item> \<open>BigQuery\<close>: INT64 arithmetic with its errors (\<open>ABS\<close> of the least INT64, \<open>MOD\<close> by
    zero, multiplication overflow), \<open>FARM_FINGERPRINT\<close> as an arbitrary function into
    \<open>64 word\<close>, \<open>WHERE\<close> as a failing filter, rows as association lists, and \<open>LIMIT\<close>
    without \<open>ORDER BY\<close> as a relation.
  \<^item> \<open>BqProject\<close>: the project state (datasets, models, tables), \<open>create_dataset\<close>,
    \<open>CREATE OR REPLACE MODEL\<close>, \<open>ML.TRAINING_INFO\<close>, \<open>ML.PREDICT\<close>, query jobs with a
    write disposition, CSV \<open>extract_table\<close>, and the reachable states \<open>bq_reach\<close> as an
    inductive relation. What training computes is a parameter of the model.
  \<^item> \<open>Gcs\<close> and \<open>Shell\<close>: the object store and \<open>gsutil ls\<close> (patterns, recursive,
    directory), \<open>rm -rf\<close>, \<open>cat\<close>, \<open>mb\<close> and \<open>grep -q\<close>. The wildcard matcher \<open>glob\<close> is
    proved equal to a declarative reference \<open>glob_ref\<close>. The shell part covers parameter
    expansion \<open>sh_expand\<close>, command substitution, field splitting and \<open>tail -1\<close>.
  \<^item> The taxi notebook is modelled in five theories.
    \<^item> \<open>TaxiQuery\<close>: \<open>create_query\<close> as text, and the meaning of its \<open>WHERE\<close> clause on a table of trips.
    \<^item> \<open>TaxiCsv\<close>: \<open>to_csv\<close>.
    \<^item> \<open>Beam\<close> and \<open>TaxiPipeline\<close>: the pipeline \<open>preprocess\<close> builds, as a record of options, labelled transforms and effects.
    \<^item> \<open>TaxiJobs\<close>: configuration, clean-up, sample and training cells.
    \<^item> \<open>TaxiServe\<close>: model inspection and predict cells.
    \<^item> \<open>TaxiFiles\<close>: \<open>gsutil ls -l\<close> of the shards, the model-copy cell
      (\<open>test -d || mkdir\<close>, \<open>cp -r ../../03_model_performance/taxifaremodel/*\<close> with \<open>..\<close>
      resolved and dot names skipped), the two \<open>grep -A\<close> cells and \<open>ls -R\<close> of the export.
  \<^item> \<open>TaxiBqml\<close>: the BigQuery ML taxi notebook.
  \<^item> The babyweight notebook is modelled in five theories.
    \<^item> \<open>Natality\<close>: the natality columns and \<open>hashmonth\<close>.
    \<^item> \<open>BabyCsv\<close>: \<open>to_csv\<close>, with its two lines per row.
    \<^item> \<open>BabyPipeline\<close>: \<open>preprocess\<close>, and what each step reads and writes.
    \<^item> \<open>BqPreprocess\<close>: the BigQuery path.
    \<^item> \<open>BabyJobs\<close>: configuration and listing cells.
    \<^item> \<open>DataflowRun\<close>: \<open>preprocess\<close> run against the cloud. Its effects act on the
      object store, the local disk and the running Dataflow jobs. \<open>p.run()\<close> only submits
      a job, and only test mode waits for it. Before submitting, the Dataflow runner
      uploads the job's files to the \<open>staging_location\<close> option,
      \<open>OUTPUT_DIR/tmp/staging\<close>; which files is the runner's choice (\<open>de_staged\<close>).
      \<open>df_step\<close> interleaves the
      \<open>preprocess(...)\<close> cell with the completion of any running job, and \<open>df_reach\<close>
      gives the states a run can reach.
  \<^item> \<open>BqmlNatality\<close> and \<open>BqmlSession\<close>: the queries and the session cells of
    \<open>5_train_bqml.ipynb\<close>.
  \<^item> \<open>Packages\<close>: the installed Python distributions, the guarded \<open>pip freeze | grep ||
    pip install\<close> cells of both Dataflow notebooks, their import cells and
    \<open>%load_ext google.cloud.bigquery\<close>.

  Every cell that changes state is a function from the state before the cell to the
  state after it, or to an error. A cell that only prints is a function to what it
  prints, and a command line is the argument vector the shell passes.

  \<^bold>\<open>What the theorems show.\<close>
  \<^item> Data splits.
    \<^item> The three taxi phase queries partition the sampled trips in the proportions 70/15/15 (\<open>TaxiQuery\<close>).
    \<^item> The babyweight steps cover the rows with \<open>MOD(hashmonth,100) < 90\<close> exactly once,
      in both the Beam path (\<open>BabyPipeline\<close>) and the BigQuery path (\<open>BqPreprocess\<close>).
    \<^item> The engineered BigQuery ML training set is the multiset of the two rows of each kept birth (\<open>BqmlNatality\<close>).
  \<^item> Types: the rows of the babyweight union query and of the \<open>preprocessed\<close> CTE have
    the column types of a fixed schema, so the two halves of each \<open>UNION ALL\<close> agree.
  \<^item> Termination and liveness of the polling model: \<open>wait_done\<close> returns at the first poll
    at which the job is done and is \<open>None\<close> when it never is, and the loops that wait on
    each job return when every job finishes (lemmas of \<open>Prelude\<close> and \<open>BqPreprocess\<close>).
  \<^item> Interleaving (\<open>DataflowRun\<close>), by rule induction over \<open>df_reach\<close>: whatever the
    order of cells and job completions, every object of the Dataflow output directory is
    either a train or eval shard whose lines are (as a multiset) among that step's lines
    over the full query, or a file the runner staged under \<open>tmp/staging/\<close>. Listing right
    after a cloud-mode run fails, and listing after its job finishes shows the first train
    shard. Test mode waits and writes only to the local disk. Two overlapping cloud runs
    whose jobs both succeed with different shard counts leave the shards of both, so
    \<open>train.csv*\<close> yields every training line twice; the matching objects of the store are
    tracked through the writes by \<open>objs_matching\<close>.
  \<^item> Composition of cells: the model-copy cell puts the previous lab's package next to
    the notebook, and the \<open>grep\<close> cells then print \<open>grep -A\<close> of the original \<open>model.py\<close>.
  \<^item> Invariants and refinement.
    \<^item> Every reachable project keeps its models and tables in existing datasets, and the notebook cells preserve this (by rule induction on \<open>bq_reach\<close>).
    \<^item> The table cell is idempotent.
    \<^item> The training cell's \<open>TRAIN*\<close> and \<open>VALID*\<close> patterns read the shards \<open>preprocess\<close> writes under its output directory, through the proved refinement \<open>glob_refines\<close>.
  \<^item> Round trips and equivalences.
    \<^item> The babyweight CSV lines split back into their fields, which the BigQuery export line is compared with.
    \<^item> The BigQuery and Beam labellings agree.
    \<^item> The BigQuery ML taxi sample is the Dataflow base sample at \<open>EVERY_N = 5000\<close>.
    \<^item> Lexicographic order of equal-length decimal time stamps is their numeric order, so \<open>gsutil ls | tail -1\<close> picks the newest export (\<open>TaxiServe\<close>).
  \<^item> Errors on every branch:
    \<^item> INT64 overflow of \<open>ABS\<close> on a trip that passes the cleaning conjuncts, certain in every evaluation order BigQuery may choose;
    \<^item> \<open>IndexError\<close> and \<open>KeyError\<close> in \<open>to_csv\<close>;
    \<^item> \<open>NotFound\<close> after a bare \<open>except\<close> reports every failure as ``already exists'';
    \<^item> the predict cell that lacks \<open>tail -1\<close>;
    \<^item> the training-statistics cell of a model no cell creates;
    \<^item> \<open>grep -A\<close> without a match;
    \<^item> the Beam pip cell, which keeps any installed \<open>apache-beam\<close> version although its
      comment promises the correct one.

  Each theorem with a hypothesis has a witness that applies it to concrete data and discharges the hypothesis by \<open>simp\<close>.

  \<^bold>\<open>Bounds and fuel.\<close> No definition needs fuel.
  \<^item> Waiting on a job (\<open>job.result()\<close>) may not end, so \<open>wait_done\<close> is a
    \<open>partial_function (option)\<close> over the poll index: a job that is never done gives
    \<open>None\<close>, and that it returns when the job finishes is proved, not assumed.
  \<^item> A run of the notebook is a finite sequence of \<open>df_step\<close>s. The invariant is proved
    for all of them by rule induction, so no bound on the number of cells or jobs is needed.
  \<^item> Loops over lists are structural recursion or \<open>map_result\<close>/\<open>run_steps\<close>.
  \<^item> Parameter expansion \<open>sh_expand\<close> is a \<open>function\<close> whose termination is proved by the length of the remaining word.
  \<^item> INT64 is modelled as \<open>int\<close> with the range checks BigQuery performs written out.
  \<^item> The fingerprint is a \<open>64 word\<close> read by \<open>sint\<close>, so that the overflow of \<open>ABS\<close> is a reachable branch.

  \<^bold>\<open>Not modelled.\<close>
  \<^item> What the external services compute: the regression BigQuery ML fits, TensorFlow training in \<open>taxifaremodel\<close> (not in \<open>src/\<close>), and the output of \<open>saved_model_cli\<close> and of the predictors. These are parameters or argument vectors.
  \<^item> Beam's runner, which is taken to apply the transforms in order.
  \<^item> How \<open>WriteToText\<close> splits a step's lines into shards. This is the runner's choice, so
    it is a parameter of each run in \<open>DataflowRun\<close>, constrained only to keep the lines.
  \<^item> What the taxi notebook's Dataflow run writes. The three stages of each phase are
    \<open># TODO\<close> placeholders (\<open>a_dataflow.ipynb\<close> lines 297-299): as shipped the cell does not
    parse, \<open>preprocess\<close> is never defined and the cells that call it raise \<open>NameError\<close>.
    \<open>TaxiPipeline\<close> models the job name, options and stage labels, with the stages as the
    exercise text states them, but no theorem rests on what such a completed pipeline
    would write.
  \<^item> Temporary files a running Dataflow job keeps under \<open>tmp/\<close> and removes when it
    finishes; the staged files, which stay, are modelled.
  \<^item> The order in which BigQuery evaluates the conjuncts of a \<open>WHERE\<close>: the model evaluates
    all of them, and the claims about errors are restricted to rows where every order fails.
  \<^item> What \<open>pip install\<close> downloads; the installed distributions are name/version pairs.
    The \<open>%load_ext\<close> cell of \<open>5_train_bqml.ipynb\<close> is the same command as \<open>load_ext_cell\<close>.
  \<^item> The layout of plots; the creation times and human-readable total of \<open>gsutil ls -l\<close>,
    which are parameters.
  \<^item> Cancelling or updating a running Dataflow job, and how long a job takes: a job
    finishes at some step of the run, or never.
  \<^item> Empty directories and symbolic links on the local disk, whose directories exist
    through the files below them.
  \<^item> The three stages of each taxi phase and the \<open>CREATE MODEL\<close> lines of \<open>5_train_bqml.ipynb\<close>, which are \<open>TODO\<close>s in the source. The stages are modelled as the exercise text states them; the missing model is modelled as missing.
  \<^item> The \<open>import\<close> lines at the top of the two \<open>preprocess\<close> cells, which only bind modules.
    Every other code line of the three notebooks is translated by a definition of the
    development. The rest of the sources is markdown.
\<close>

end
